theory Spec2Isabelle
  imports Main "HOL-Library.Sublist"
begin

section \<open>Parsed JSON values and the Python operations used on them\<close>

text \<open>
  Every script reads its input with \<^verbatim>\<open>json.load\<close> and then works on the parsed
  value with dictionary and list operations.  The model starts after parsing: a value
  of type \<open>json\<close> is what \<^verbatim>\<open>json.load\<close> has returned.  An object keeps the order of
  its keys (Python dictionaries iterate in insertion order) and a lookup finds the
  first entry of a key.  Numbers are integers here: the scripts never compute with a
  number, they only test it for truth, and every non-integral number behaves like a
  non-zero integer there.  A string is a list of 8-bit characters, read as the code
  points below 256; the character classes of the regular expression and
  \<^verbatim>\<open>str.lower\<close> are those of Python on these code points.
\<close>

datatype json =
    JNull
  | JBool bool
  | JNum int
  | JStr string
  | JArr "json list"
  | JObj "(string \<times> json) list"

text \<open>The exceptions the modelled code can raise; \<open>KeyError\<close> carries the missing key.\<close>

datatype error = KeyError string | TypeError | AttributeError

definition bnd :: "error + 'a \<Rightarrow> ('a \<Rightarrow> error + 'b) \<Rightarrow> error + 'b" where
  "bnd m f = (case m of Inl e \<Rightarrow> Inl e | Inr x \<Rightarrow> f x)"

text \<open>\<^verbatim>\<open>for x in xs: ...\<close> with a body that may raise: the first exception ends the loop.\<close>

fun mapE :: "('a \<Rightarrow> error + 'b) \<Rightarrow> 'a list \<Rightarrow> error + 'b list" where
  "mapE f [] = Inr []"
| "mapE f (x # xs) = bnd (f x) (\<lambda>y. bnd (mapE f xs) (\<lambda>ys. Inr (y # ys)))"

text \<open>\<^verbatim>\<open>enumerate(xs, 1)\<close>.\<close>

definition enumerate1 :: "'a list \<Rightarrow> (nat \<times> 'a) list" where
  "enumerate1 xs = zip [1 ..< Suc (length xs)] xs"

text \<open>Truth value of a parsed value (\<^verbatim>\<open>if x:\<close>, \<^verbatim>\<open>a and b\<close>).\<close>

fun truthy :: "json \<Rightarrow> bool" where
  "truthy JNull = False"
| "truthy (JBool b) = b"
| "truthy (JNum n) = (n \<noteq> 0)"
| "truthy (JStr s) = (s \<noteq> [])"
| "truthy (JArr xs) = (xs \<noteq> [])"
| "truthy (JObj kvs) = (kvs \<noteq> [])"

text \<open>Lists and dictionaries are unhashable: using one as a dictionary key raises \<^verbatim>\<open>TypeError\<close>.\<close>

fun hashable :: "json \<Rightarrow> bool" where
  "hashable (JArr xs) = False"
| "hashable (JObj kvs) = False"
| "hashable v = True"

text \<open>
  \<^verbatim>\<open>k in x\<close> for a string \<open>k\<close>: key membership in a dictionary, element membership in a
  list, substring test in a string; the other values are not containers.
\<close>

fun contains :: "string \<Rightarrow> json \<Rightarrow> error + bool" where
  "contains k (JObj kvs) = Inr (k \<in> set (map fst kvs))"
| "contains k (JArr xs) = Inr (JStr k \<in> set xs)"
| "contains k (JStr s) = Inr (sublist k s)"
| "contains k v = Inl TypeError"

text \<open>\<^verbatim>\<open>x[k]\<close> for a string \<open>k\<close>: only a dictionary can be indexed by a string.\<close>

fun subscript :: "json \<Rightarrow> string \<Rightarrow> error + json" where
  "subscript (JObj kvs) k = (case map_of kvs k of None \<Rightarrow> Inl (KeyError k) | Some v \<Rightarrow> Inr v)"
| "subscript v k = Inl TypeError"

text \<open>\<^verbatim>\<open>x.get(k, d)\<close>: only a dictionary has the method.\<close>

fun dict_get :: "json \<Rightarrow> string \<Rightarrow> json \<Rightarrow> error + json" where
  "dict_get (JObj kvs) k d = Inr (case map_of kvs k of None \<Rightarrow> d | Some v \<Rightarrow> v)"
| "dict_get v k d = Inl AttributeError"

text \<open>
  The sequence a \<^verbatim>\<open>for\<close> loop runs through: the elements of a list, the keys of a
  dictionary, the characters of a string.
\<close>

fun iterate :: "json \<Rightarrow> error + json list" where
  "iterate (JArr xs) = Inr xs"
| "iterate (JObj kvs) = Inr (map (\<lambda>kv. JStr (fst kv)) kvs)"
| "iterate (JStr s) = Inr (map (\<lambda>c. JStr [c]) s)"
| "iterate v = Inl TypeError"

text \<open>\<^verbatim>\<open>len(x)\<close> is defined on the same three kinds of value.\<close>

fun py_len :: "json \<Rightarrow> error + nat" where
  "py_len (JArr xs) = Inr (length xs)"
| "py_len (JObj kvs) = Inr (length kvs)"
| "py_len (JStr s) = Inr (length s)"
| "py_len v = Inl TypeError"

text \<open>
  \<^verbatim>\<open>x[:n]\<close>, as the progress messages apply it to a title: strings and lists can be
  sliced; every other value raises.  A dictionary hashes the slice as a key; the model
  takes the \<^verbatim>\<open>TypeError\<close> of the Python versions in which a slice is unhashable.
\<close>

fun sliceable :: "json \<Rightarrow> error + unit" where
  "sliceable (JStr s) = Inr ()"
| "sliceable (JArr xs) = Inr ()"
| "sliceable v = Inl TypeError"

text \<open>
  \<^verbatim>\<open>table.get(k, d)\<close> on a dictionary literal with string keys: the key is hashed
  first, and only a string can be equal to one of the keys.
\<close>

definition table_get :: "(string \<times> 'a) list \<Rightarrow> json \<Rightarrow> 'a \<Rightarrow> error + 'a" where
  "table_get tbl k d =
     (if \<not> hashable k then Inl TypeError
      else Inr (case k of
                  JStr s \<Rightarrow> (case map_of tbl s of None \<Rightarrow> d | Some v \<Rightarrow> v)
                | _ \<Rightarrow> d))"

text \<open>
  Strings assembled by an f-string.  The rendering \<^verbatim>\<open>str(v)\<close> of an embedded value is
  kept symbolic: \<open>Str v\<close> stands for the text of the parsed value \<open>v\<close>, \<open>Dec n\<close> for
  the decimal digits of the integer \<open>n\<close>.
\<close>

datatype fpiece = Lit string | Str json | Dec nat

type_synonym fstring = "fpiece list"

text \<open>
  A value of the output document: a parsed value passed through unchanged (or a
  string constant), or an assembled string.
\<close>

datatype oval = Raw json | Fmt fstring

record link =
  target_id :: oval
  role :: string
  link_description :: fstring

section \<open>The lookup tables of the archive converters\<close>

text \<open>
  \<^verbatim>\<open>BrakeRequirementsConverter.map_priority\<close>, \<^verbatim>\<open>map_severity\<close> and \<^verbatim>\<open>map_status\<close>;
  the synthetic-headings script and the no-headings script define them identically.
\<close>

definition priority_map :: "(string \<times> string) list" where
  "priority_map =
     [(''Critical'', ''100.0''), (''High'', ''90.0''), (''Medium'', ''50.0''), (''Low'', ''30.0'')]"

definition map_priority :: "json \<Rightarrow> error + string" where
  "map_priority priority = table_get priority_map priority ''50.0''"

definition map_severity :: "json \<Rightarrow> json \<Rightarrow> string" where
  "map_severity category priority =
     (if category = JStr ''Safety'' \<and> priority = JStr ''Critical'' then ''safety_critical''
      else if priority = JStr ''Critical'' then ''must_have''
      else if priority = JStr ''High'' then ''should_have''
      else if priority = JStr ''Medium'' then ''could_have''
      else ''nice_to_have'')"

definition status_map :: "(string \<times> string) list" where
  "status_map =
     [(''Regulatory'', ''approved''), (''Safety'', ''in_review''), (''Functional'', ''draft''),
      (''Performance'', ''draft''), (''Interface'', ''draft''), (''Environmental'', ''draft''),
      (''Maintenance'', ''draft''), (''Testing'', ''draft'')]"

definition map_status :: "json \<Rightarrow> error + string" where
  "map_status category = table_get status_map category ''draft''"

section \<open>Work items in the shape of the link template\<close>

text \<open>
  The headings, individual and exact scripts emit the same inner dictionary
  (\<^verbatim>\<open>type\<close>, \<^verbatim>\<open>title\<close>, \<^verbatim>\<open>description\<close>, \<^verbatim>\<open>status\<close>, \<^verbatim>\<open>severity\<close>, \<^verbatim>\<open>priority\<close>,
  \<^verbatim>\<open>relationships\<close>), wrapped as \<^verbatim>\<open>{"work_item": ..., "links": [...], "children": [...]}\<close>.
  \<open>work_item\<close> is \<open>None\<close> where the dictionary holds \<^verbatim>\<open>None\<close>.
\<close>

record polarion_item =
  wi_type :: string
  wi_title :: fstring
  wi_description_type :: string
  wi_description_value :: fstring
  wi_status :: string
  wi_severity :: string
  wi_priority :: string
  wi_module_type :: string
  wi_module_id :: string

record linked_item =
  work_item :: "polarion_item option"
  links :: "link list"
  children :: "polarion_item list"

text \<open>
  The two dictionary literals at the head of \<^verbatim>\<open>create_workitem_format\<close> (and of
  \<^verbatim>\<open>create_workitem_exact_format\<close>).  The entry for Safety is computed from
  \<^verbatim>\<open>requirement.get("priority")\<close>, the argument here.
\<close>

definition level_priority_map :: "(string \<times> string) list" where
  "level_priority_map =
     [(''Critical'', ''high''), (''High'', ''high''), (''Medium'', ''medium''), (''Low'', ''low'')]"

definition severity_map :: "json \<Rightarrow> (string \<times> string) list" where
  "severity_map priority =
     [(''Safety'', if priority = JStr ''Critical'' then ''safety_critical'' else ''must_have''),
      (''Functional'', ''must_have''), (''Performance'', ''must_have''),
      (''Interface'', ''should_have''), (''Environmental'', ''should_have''),
      (''Maintenance'', ''could_have''), (''Regulatory'', ''must_have''),
      (''Testing'', ''should_have'')]"

text \<open>
  The inner dictionary, built in the order of the literal: title, description,
  severity, priority.  \<open>timestamp\<close> and \<open>document_id\<close> are the converter's attributes.
\<close>

definition requirement_item :: "string \<Rightarrow> string \<Rightarrow> json \<Rightarrow> error + polarion_item" where
  "requirement_item timestamp document_id requirement =
     bnd (dict_get requirement ''priority'' JNull) (\<lambda>p0.
     bnd (subscript requirement ''title'') (\<lambda>title.
     bnd (subscript requirement ''description'') (\<lambda>descr.
     bnd (dict_get requirement ''category'' (JStr ''Functional'')) (\<lambda>category.
     bnd (table_get (severity_map p0) category ''must_have'') (\<lambda>sev.
     bnd (dict_get requirement ''priority'' (JStr ''Medium'')) (\<lambda>priority.
     bnd (table_get level_priority_map priority ''medium'') (\<lambda>prio.
     Inr \<lparr> wi_type = ''requirement'',
           wi_title = [Str title, Lit '' '', Lit timestamp],
           wi_description_type = ''text/html'',
           wi_description_value = [Lit ''<p>'', Str descr, Lit ''</p>''],
           wi_status = ''draft'',
           wi_severity = sev,
           wi_priority = prio,
           wi_module_type = ''documents'',
           wi_module_id = document_id \<rparr>)))))))"

section \<open>The headings converter\<close>

text \<open>\<^verbatim>\<open>src/convert_brake_to_polarion_headings.py\<close>, class \<^verbatim>\<open>PolarionHeadingConverter\<close>.\<close>

record heading_converter =
  hc_timestamp :: string
  hc_document_id :: string

text \<open>
  The heading map built by \<^verbatim>\<open>load_discovered_documents\<close> is a parameter: a dictionary
  from heading identifiers to titles.  \<^verbatim>\<open>heading_map.get(k, d)\<close> hashes the key.
\<close>

type_synonym heading_map = "json \<Rightarrow> json option"

definition heading_map_get :: "heading_map \<Rightarrow> json \<Rightarrow> json \<Rightarrow> error + json" where
  "heading_map_get hm k d =
     (if \<not> hashable k then Inl TypeError
      else Inr (case hm k of None \<Rightarrow> d | Some v \<Rightarrow> v))"

definition create_workitem_format ::
  "heading_converter \<Rightarrow> json \<Rightarrow> json \<Rightarrow> json \<Rightarrow> error + linked_item" where
  "create_workitem_format self requirement parent_heading_id parent_heading_title =
     bnd (requirement_item (hc_timestamp self) (hc_document_id self) requirement) (\<lambda>wi.
     Inr \<lparr> work_item = Some wi,
           links = [\<lparr> target_id = Raw parent_heading_id,
                      role = ''has_parent'',
                      link_description = [Lit ''Links to '', Str parent_heading_title] \<rparr>],
           children = [] \<rparr>)"

text \<open>
  The body of the two inner \<^verbatim>\<open>for req in ...["workitems"]\<close> loops of
  \<^verbatim>\<open>process_requirements\<close>: build the item, append it, print the progress line, which
  reads \<^verbatim>\<open>req['id']\<close> and slices \<^verbatim>\<open>req['title']\<close>.
\<close>

definition process_req :: "heading_converter \<Rightarrow> json \<Rightarrow> json \<Rightarrow> json \<Rightarrow> error + linked_item" where
  "process_req self heading_id title req =
     bnd (create_workitem_format self req heading_id title) (\<lambda>workitem.
     bnd (subscript req ''id'') (\<lambda>rid.
     bnd (subscript req ''title'') (\<lambda>t.
     bnd (sliceable t) (\<lambda>u.
     Inr workitem))))"

text \<open>
  \<^verbatim>\<open>if "workitems" in node and node["workitems"]: print(len(...)); for req in ...\<close>, the
  same for a chapter and for a subchapter.
\<close>

definition process_workitems ::
  "heading_converter \<Rightarrow> json \<Rightarrow> json \<Rightarrow> json \<Rightarrow> error + linked_item list" where
  "process_workitems self node heading_id title =
     bnd (contains ''workitems'' node) (\<lambda>present.
     if \<not> present then Inr []
     else bnd (subscript node ''workitems'') (\<lambda>wis.
          if \<not> truthy wis then Inr []
          else bnd (py_len wis) (\<lambda>n.
               bnd (iterate wis) (\<lambda>reqs.
               mapE (process_req self heading_id title) reqs))))"

text \<open>The body of \<^verbatim>\<open>for subchapter in chapter.get("subchapters", [])\<close>.\<close>

definition process_subchapter_links ::
  "heading_converter \<Rightarrow> heading_map \<Rightarrow> json \<Rightarrow> error + linked_item list" where
  "process_subchapter_links self hm subchapter =
     bnd (dict_get subchapter ''heading'' (JStr [])) (\<lambda>subchapter_heading.
     bnd (dict_get subchapter ''heading_id'' (JStr [])) (\<lambda>subchapter_heading_id.
     bnd (dict_get subchapter ''outlineNumber'' (JStr [])) (\<lambda>subchapter_outline.
     bnd (heading_map_get hm subchapter_heading_id subchapter_heading) (\<lambda>subchapter_title.
     process_workitems self subchapter subchapter_heading_id subchapter_title))))"

text \<open>The body of \<^verbatim>\<open>for chapter in document.get("chapters", [])\<close>.\<close>

definition process_chapter_links ::
  "heading_converter \<Rightarrow> heading_map \<Rightarrow> json \<Rightarrow> error + linked_item list" where
  "process_chapter_links self hm chapter =
     bnd (dict_get chapter ''heading'' (JStr [])) (\<lambda>chapter_heading.
     bnd (dict_get chapter ''heading_id'' (JStr [])) (\<lambda>chapter_heading_id.
     bnd (dict_get chapter ''outlineNumber'' (JStr [])) (\<lambda>chapter_outline.
     bnd (heading_map_get hm chapter_heading_id chapter_heading) (\<lambda>chapter_title.
     bnd (process_workitems self chapter chapter_heading_id chapter_title) (\<lambda>direct.
     bnd (dict_get chapter ''subchapters'' (JArr [])) (\<lambda>subs.
     bnd (iterate subs) (\<lambda>subchapters.
     bnd (mapE (process_subchapter_links self hm) subchapters) (\<lambda>below.
     Inr (direct @ concat below)))))))))"

definition process_requirements ::
  "heading_converter \<Rightarrow> json \<Rightarrow> heading_map \<Rightarrow> error + linked_item list" where
  "process_requirements self brake_data hm =
     bnd (dict_get brake_data ''document'' (JObj [])) (\<lambda>document.
     bnd (dict_get document ''chapters'' (JArr [])) (\<lambda>chs.
     bnd (iterate chs) (\<lambda>chapters.
     bnd (mapE (process_chapter_links self hm) chapters) (\<lambda>per_chapter.
     Inr (concat per_chapter)))))"

text \<open>
  \<^verbatim>\<open>run\<close>, up to the dictionary it writes; the statistics printed afterwards do not
  change it.  The individual converter writes a dictionary of the same shape.
\<close>

record items_metadata =
  im_total_items :: nat
  im_document_id :: string
  im_conversion_timestamp :: string
  im_note :: string

record items_output =
  io_work_items :: "linked_item list"
  io_metadata :: items_metadata

definition run :: "heading_converter \<Rightarrow> json \<Rightarrow> heading_map \<Rightarrow> error + items_output" where
  "run self brake_data hm =
     bnd (process_requirements self brake_data hm) (\<lambda>output_items.
     Inr \<lparr> io_work_items = output_items,
           io_metadata =
             \<lparr> im_total_items = length output_items,
               im_document_id = hc_document_id self,
               im_conversion_timestamp = hc_timestamp self,
               im_note = ''Each requirement links to its chapter/subchapter heading via has_parent'' \<rparr> \<rparr>)"

section \<open>String operations\<close>

definition is_digit :: "char \<Rightarrow> bool" where
  "is_digit c = (c \<in> set ''0123456789'')"

text \<open>
  The characters below code point 256 that \<^verbatim>\<open>\s\<close> matches in a \<^verbatim>\<open>str\<close> pattern: tab,
  line feed, vertical tab, form feed, carriage return, the four separators 28 to 31,
  the space, the next-line control (133) and the no-break space (160).
\<close>

definition is_space :: "char \<Rightarrow> bool" where
  "is_space c =
     (c \<in> set [CHR 0x09, CHR 0x0A, CHR 0x0B, CHR 0x0C, CHR 0x0D,
                CHR 0x1C, CHR 0x1D, CHR 0x1E, CHR 0x1F, CHR 0x20, CHR 0x85, CHR 0xA0])"

text \<open>
  \<^verbatim>\<open>str.lower\<close> changes, below code point 256, the letters A to Z and the letters 192
  to 222 except the multiplication sign 215; each goes to the code point 32 above it.
\<close>

definition upper_letters :: string where
  "upper_letters =
     ''ABCDEFGHIJKLMNOPQRSTUVWXYZ'' @
     [CHR 0xC0, CHR 0xC1, CHR 0xC2, CHR 0xC3, CHR 0xC4, CHR 0xC5, CHR 0xC6, CHR 0xC7,
      CHR 0xC8, CHR 0xC9, CHR 0xCA, CHR 0xCB, CHR 0xCC, CHR 0xCD, CHR 0xCE, CHR 0xCF,
      CHR 0xD0, CHR 0xD1, CHR 0xD2, CHR 0xD3, CHR 0xD4, CHR 0xD5, CHR 0xD6, CHR 0xD8,
      CHR 0xD9, CHR 0xDA, CHR 0xDB, CHR 0xDC, CHR 0xDD, CHR 0xDE]"

definition lower_letters :: string where
  "lower_letters =
     ''abcdefghijklmnopqrstuvwxyz'' @
     [CHR 0xE0, CHR 0xE1, CHR 0xE2, CHR 0xE3, CHR 0xE4, CHR 0xE5, CHR 0xE6, CHR 0xE7,
      CHR 0xE8, CHR 0xE9, CHR 0xEA, CHR 0xEB, CHR 0xEC, CHR 0xED, CHR 0xEE, CHR 0xEF,
      CHR 0xF0, CHR 0xF1, CHR 0xF2, CHR 0xF3, CHR 0xF4, CHR 0xF5, CHR 0xF6, CHR 0xF8,
      CHR 0xF9, CHR 0xFA, CHR 0xFB, CHR 0xFC, CHR 0xFD, CHR 0xFE]"

definition lower_char :: "char \<Rightarrow> char" where
  "lower_char c =
     (case map_of (zip upper_letters lower_letters) c of
        None \<Rightarrow> c
      | Some l \<Rightarrow> l)"

definition lower :: "string \<Rightarrow> string" where
  "lower s = map lower_char s"

text \<open>\<^verbatim>\<open>v.lower()\<close> on a parsed value: only a string has the method.\<close>

fun py_lower :: "json \<Rightarrow> error + string" where
  "py_lower (JStr s) = Inr (lower s)"
| "py_lower v = Inl AttributeError"

text \<open>
  \<^verbatim>\<open>re.sub(r'^\d+\.?\d*\s+', '', s)\<close>.  The pattern is anchored at the start, so at most
  one match is removed.  The three character classes are disjoint, so the greedy match
  is the only candidate: all leading digits (at least one), a dot if one follows, all
  digits after it, then all white space (at least one character).  Without a match the
  string is returned unchanged.
\<close>

definition re_sub_numbering :: "string \<Rightarrow> string" where
  "re_sub_numbering s =
     (let ds = takeWhile is_digit s;
          r1 = dropWhile is_digit s;
          r2 = (case r1 of [] \<Rightarrow> r1 | c # t \<Rightarrow> if c = CHR ''.'' then t else r1);
          r3 = dropWhile is_digit r2
      in if ds \<noteq> [] \<and> (case r3 of [] \<Rightarrow> False | c # t \<Rightarrow> is_space c)
         then dropWhile is_space r3 else s)"

text \<open>\<^verbatim>\<open>re.sub\<close> on a parsed value: anything but a string raises \<^verbatim>\<open>TypeError\<close>.\<close>

fun py_re_sub_numbering :: "json \<Rightarrow> error + string" where
  "py_re_sub_numbering (JStr s) = Inr (re_sub_numbering s)"
| "py_re_sub_numbering v = Inl TypeError"

text \<open>
  Whether an assembled string is empty (\<^verbatim>\<open>if parent_id:\<close>): the text of a parsed
  value is empty only for the empty string, a decimal numeral never is.
\<close>

fun piece_empty :: "fpiece \<Rightarrow> bool" where
  "piece_empty (Lit s) = (s = [])"
| "piece_empty (Str v) = (v = JStr [])"
| "piece_empty (Dec n) = False"

definition fstring_empty :: "fstring \<Rightarrow> bool" where
  "fstring_empty f = list_all piece_empty f"

section \<open>The archive converters that emit flat work items\<close>

text \<open>
  \<^verbatim>\<open>src/archive_scripts/convert_brake_requirements_to_polarion.py\<close> (synthetic
  headings) and \<^verbatim>\<open>..._no_headings.py\<close>.  Both emit flat dictionaries; a heading has
  no severity, categories or custom fields, and the root heading has no links.
\<close>

record flat_item =
  fi_id :: fstring
  fi_type :: string
  fi_title :: json
  fi_description_type :: string
  fi_description_value :: fstring
  fi_status :: string
  fi_severity :: "string option"
  fi_priority :: string
  fi_categories :: "string list option"
  fi_custom_fields :: "(json \<times> json \<times> json) option"
  fi_module_type :: string
  fi_module_id :: string
  fi_outlineNumber :: fstring
  fi_links :: "link list option"

text \<open>
  The dictionary literal of \<^verbatim>\<open>create_requirement_workitem\<close>, the same in both scripts
  up to the link, in the order of its entries: id, title, description, status,
  severity, priority, categories.
\<close>

definition requirement_workitem ::
  "string \<Rightarrow> json \<Rightarrow> link \<Rightarrow> fstring \<Rightarrow> error + flat_item" where
  "requirement_workitem document_id req lnk outline_number =
     bnd (subscript req ''id'') (\<lambda>rid.
     bnd (subscript req ''title'') (\<lambda>title.
     bnd (subscript req ''description'') (\<lambda>descr.
     bnd (subscript req ''category'') (\<lambda>category.
     bnd (map_status category) (\<lambda>status.
     bnd (subscript req ''priority'') (\<lambda>priority.
     bnd (map_priority priority) (\<lambda>prio.
     bnd (py_lower category) (\<lambda>category_lower.
     Inr \<lparr> fi_id = [Lit ''Python/'', Str rid],
           fi_type = ''requirement'',
           fi_title = title,
           fi_description_type = ''text/html'',
           fi_description_value = [Lit ''<p>'', Str descr, Lit ''</p>''],
           fi_status = status,
           fi_severity = Some (map_severity category priority),
           fi_priority = prio,
           fi_categories = Some [category_lower],
           fi_custom_fields = Some (rid, category, priority),
           fi_module_type = ''documents'',
           fi_module_id = document_id,
           fi_outlineNumber = outline_number,
           fi_links = Some [lnk] \<rparr>))))))))"

subsection \<open>With synthetic headings\<close>

record converter =
  bc_timestamp :: string
  bc_document_id :: string
  bc_heading_counter :: nat
  bc_work_items :: "flat_item list"

text \<open>The attributes \<^verbatim>\<open>__init__\<close> sets.\<close>

definition new_converter :: "string \<Rightarrow> converter" where
  "new_converter timestamp =
     \<lparr> bc_timestamp = timestamp,
       bc_document_id = ''Python/_default/Functional Concept - Brake System'',
       bc_heading_counter = 1000,
       bc_work_items = [] \<rparr>"

text \<open>\<^verbatim>\<open>generate_heading_id\<close> increments the counter and returns the new identifier.\<close>

definition generate_heading_id :: "converter \<Rightarrow> fstring \<times> converter" where
  "generate_heading_id self =
     ([Lit ''Python/BR-HEAD-'', Dec (bc_heading_counter self + 1)],
      self\<lparr>bc_heading_counter := bc_heading_counter self + 1\<rparr>)"

text \<open>A loop whose body changes the converter and may raise.\<close>

fun mapE_state :: "('a \<Rightarrow> 's \<Rightarrow> error + ('b \<times> 's)) \<Rightarrow> 'a list \<Rightarrow> 's \<Rightarrow> error + ('b list \<times> 's)" where
  "mapE_state f [] s = Inr ([], s)"
| "mapE_state f (x # xs) s =
     bnd (f x s) (\<lambda>(y, s').
     bnd (mapE_state f xs s') (\<lambda>(ys, s'').
     Inr (y # ys, s'')))"

definition create_requirement_workitem ::
  "converter \<Rightarrow> json \<Rightarrow> fstring \<Rightarrow> fstring \<Rightarrow> error + flat_item" where
  "create_requirement_workitem self req parent_heading_id outline_number =
     requirement_workitem (bc_document_id self) req
       \<lparr> target_id = Fmt parent_heading_id, role = ''has_parent'',
         link_description = [Lit ''Links to chapter heading''] \<rparr>
       outline_number"

definition process_subchapter ::
  "json \<Rightarrow> nat \<Rightarrow> nat \<Rightarrow> fstring \<Rightarrow> converter \<Rightarrow> error + (flat_item list \<times> converter)" where
  "process_subchapter subchapter chapter_num sub_num parent_heading_id self0 =
     (let (subchapter_heading_id, self) = generate_heading_id self0 in
      bnd (subscript subchapter ''heading'') (\<lambda>heading.
      let subchapter_heading =
            \<lparr> fi_id = subchapter_heading_id,
              fi_type = ''heading'',
              fi_title = heading,
              fi_description_type = ''text/html'',
              fi_description_value = [Lit ''<h3>'', Str heading, Lit ''</h3>''],
              fi_status = ''approved'',
              fi_severity = None,
              fi_priority = ''95.0'',
              fi_categories = None,
              fi_custom_fields = None,
              fi_module_type = ''documents'',
              fi_module_id = bc_document_id self,
              fi_outlineNumber = [Dec chapter_num, Lit ''.'', Dec sub_num],
              fi_links = Some [\<lparr> target_id = Fmt parent_heading_id, role = ''has_parent'',
                                 link_description = [Lit ''Links to parent chapter''] \<rparr>] \<rparr>
      in
      bnd (contains ''workitems'' subchapter) (\<lambda>present.
      if \<not> present then Inr ([subchapter_heading], self)
      else bnd (subscript subchapter ''workitems'') (\<lambda>wis.
           bnd (iterate wis) (\<lambda>reqs.
           bnd (mapE (\<lambda>(idx, workitem).
                        create_requirement_workitem self workitem subchapter_heading_id
                          [Dec chapter_num, Lit ''.'', Dec sub_num, Lit ''.'', Dec idx])
                     (enumerate1 reqs)) (\<lambda>items.
           Inr (subchapter_heading # items, self)))))))"

definition process_chapter ::
  "json \<Rightarrow> nat \<Rightarrow> fstring option \<Rightarrow> converter \<Rightarrow> error + (flat_item list \<times> converter)" where
  "process_chapter chapter chapter_num parent_id self0 =
     (let (chapter_heading_id, self) = generate_heading_id self0 in
      bnd (subscript chapter ''heading'') (\<lambda>heading.
      bnd (dict_get chapter ''description'' (JStr [])) (\<lambda>description.
      let chapter_heading =
            \<lparr> fi_id = chapter_heading_id,
              fi_type = ''heading'',
              fi_title = heading,
              fi_description_type = ''text/html'',
              fi_description_value =
                [Lit ''<h2>'', Str heading, Lit ''</h2><p>'', Str description, Lit ''</p>''],
              fi_status = ''approved'',
              fi_severity = None,
              fi_priority = ''100.0'',
              fi_categories = None,
              fi_custom_fields = None,
              fi_module_type = ''documents'',
              fi_module_id = bc_document_id self,
              fi_outlineNumber = [Dec chapter_num],
              fi_links =
                (case parent_id of
                   None \<Rightarrow> None
                 | Some p \<Rightarrow>
                     if fstring_empty p then None
                     else Some [\<lparr> target_id = Fmt p, role = ''has_parent'',
                                  link_description = [Lit ''Links to document root''] \<rparr>]) \<rparr>
      in
      bnd (contains ''workitems'' chapter) (\<lambda>present.
      bnd (if \<not> present then Inr []
           else bnd (subscript chapter ''workitems'') (\<lambda>wis.
                if \<not> truthy wis then Inr []
                else bnd (iterate wis) (\<lambda>reqs.
                     mapE (\<lambda>(idx, workitem).
                             create_requirement_workitem self workitem chapter_heading_id
                               [Dec chapter_num, Lit ''.'', Dec idx])
                          (enumerate1 reqs)))) (\<lambda>direct.
      bnd (contains ''subchapters'' chapter) (\<lambda>has_subs.
      if \<not> has_subs then Inr (chapter_heading # direct, self)
      else bnd (subscript chapter ''subchapters'') (\<lambda>subs.
           bnd (iterate subs) (\<lambda>subchapters.
           bnd (mapE_state (\<lambda>(sub_idx, subchapter).
                              process_subchapter subchapter chapter_num sub_idx chapter_heading_id)
                           (enumerate1 subchapters) self) (\<lambda>(below, self').
           Inr (chapter_heading # direct @ concat below, self'))))))))))"

text \<open>
  \<^verbatim>\<open>validate_input\<close> prints one error message and returns \<^verbatim>\<open>False\<close>, or returns
  \<^verbatim>\<open>True\<close>.  The messages, and the one of the handler \<^verbatim>\<open>except Exception\<close> in
  \<^verbatim>\<open>convert\<close>:
\<close>

datatype report =
    MissingDocumentKey
  | MissingRequiredKey string
  | ChaptersNotList
  | UnexpectedError error

definition required_keys :: "string list" where
  "required_keys = [''id'', ''title'', ''project'', ''space'', ''chapters'']"

text \<open>\<^verbatim>\<open>for key in required_keys: if key not in doc: ... return False\<close>.\<close>

fun first_missing :: "json \<Rightarrow> string list \<Rightarrow> error + string option" where
  "first_missing doc [] = Inr None"
| "first_missing doc (key # keys) =
     bnd (contains key doc) (\<lambda>present.
     if \<not> present then Inr (Some key) else first_missing doc keys)"

fun is_list :: "json \<Rightarrow> bool" where
  "is_list (JArr xs) = True"
| "is_list v = False"

text \<open>
  The result \<open>Inr None\<close> is \<^verbatim>\<open>True\<close>; \<open>Inr (Some r)\<close> is \<^verbatim>\<open>False\<close> after printing \<open>r\<close>;
  \<open>Inl e\<close> is an exception raised by the checks themselves.
\<close>

definition validate_input :: "json \<Rightarrow> error + report option" where
  "validate_input data =
     bnd (contains ''document'' data) (\<lambda>present.
     if \<not> present then Inr (Some MissingDocumentKey)
     else bnd (subscript data ''document'') (\<lambda>doc.
          bnd (first_missing doc required_keys) (\<lambda>missing.
          case missing of
            Some key \<Rightarrow> Inr (Some (MissingRequiredKey key))
          | None \<Rightarrow>
              bnd (subscript doc ''chapters'') (\<lambda>chs.
              if \<not> is_list chs then Inr (Some ChaptersNotList) else Inr None))))"

record flat_document =
  fd_id :: string
  fd_title :: json
  fd_type :: string
  fd_project :: json
  fd_space :: json
  fd_version :: json
  fd_created :: string

record flat_metadata =
  fm_total_items :: nat
  fm_total_requirements :: nat
  fm_total_headings :: "nat option"
  fm_conversion_timestamp :: string
  fm_note :: "string option"

record flat_output =
  fo_document :: flat_document
  fo_work_items :: "flat_item list"
  fo_metadata :: flat_metadata

text \<open>
  The part of \<^verbatim>\<open>convert\<close> between the validation and \<^verbatim>\<open>json.dump\<close>: the root heading,
  the chapters with \<^verbatim>\<open>enumerate(document["chapters"], 1)\<close>, and the output dictionary.
\<close>

definition build_output :: "converter \<Rightarrow> json \<Rightarrow> error + flat_output" where
  "build_output self0 data =
     bnd (subscript data ''document'') (\<lambda>document.
     let (root_heading_id, self1) = generate_heading_id self0 in
     bnd (subscript document ''title'') (\<lambda>title.
     bnd (subscript document ''version'') (\<lambda>version.
     bnd (subscript document ''created'') (\<lambda>created.
     let root_heading =
           \<lparr> fi_id = root_heading_id,
             fi_type = ''heading'',
             fi_title = title,
             fi_description_type = ''text/html'',
             fi_description_value =
               [Lit ''<h1>'', Str title, Lit ''</h1><p>Version: '', Str version,
                Lit ''</p><p>Created: '', Str created, Lit ''</p>''],
             fi_status = ''approved'',
             fi_severity = None,
             fi_priority = ''100.0'',
             fi_categories = None,
             fi_custom_fields = None,
             fi_module_type = ''documents'',
             fi_module_id = bc_document_id self1,
             fi_outlineNumber = [Lit ''1''],
             fi_links = None \<rparr>;
         self2 = self1\<lparr>bc_work_items := bc_work_items self1 @ [root_heading]\<rparr>
     in
     bnd (subscript document ''chapters'') (\<lambda>chs.
     bnd (iterate chs) (\<lambda>chapters.
     bnd (mapE_state (\<lambda>(chapter_num, chapter) s.
                        bnd (process_chapter chapter (chapter_num + 1) (Some root_heading_id) s)
                            (\<lambda>(items, s'). Inr (items, s'\<lparr>bc_work_items := bc_work_items s' @ items\<rparr>)))
                     (enumerate1 chapters) self2) (\<lambda>(per_chapter, self).
     bnd (subscript document ''project'') (\<lambda>project.
     bnd (subscript document ''space'') (\<lambda>space.
     Inr \<lparr> fo_document =
             \<lparr> fd_id = bc_document_id self,
               fd_title = title,
               fd_type = ''Functional Concept'',
               fd_project = project,
               fd_space = space,
               fd_version = version,
               fd_created = bc_timestamp self \<rparr>,
           fo_work_items = bc_work_items self,
           fo_metadata =
             \<lparr> fm_total_items = length (bc_work_items self),
               fm_total_requirements =
                 length (filter (\<lambda>w. fi_type w = ''requirement'') (bc_work_items self)),
               fm_total_headings =
                 Some (length (filter (\<lambda>w. fi_type w = ''heading'') (bc_work_items self))),
               fm_conversion_timestamp = bc_timestamp self,
               fm_note = None \<rparr> \<rparr>)))))))))"

text \<open>
  \<^verbatim>\<open>convert\<close> on the parsed input: either the script prints a message and leaves with
  \<^verbatim>\<open>sys.exit(1)\<close> before anything is written, or it writes the output dictionary.
\<close>

datatype 'a outcome = Exit1 report | Written 'a

definition convert :: "converter \<Rightarrow> json \<Rightarrow> flat_output outcome" where
  "convert self data =
     (case validate_input data of
        Inl e \<Rightarrow> Exit1 (UnexpectedError e)
      | Inr (Some r) \<Rightarrow> Exit1 r
      | Inr None \<Rightarrow>
          (case build_output self data of
             Inl e \<Rightarrow> Exit1 (UnexpectedError e)
           | Inr output \<Rightarrow> Written output))"

subsection \<open>Without headings\<close>

text \<open>The table \<^verbatim>\<open>self.heading_ids\<close> that \<^verbatim>\<open>__init__\<close> sets, in the order of the literal.\<close>

definition default_heading_ids :: "(string \<times> json) list" where
  "default_heading_ids =
     [(''root'', JStr ''Python/FCTS-ROOT''),
      (''1. Introduction and Scope'', JStr ''Python/FCTS-INTRO''),
      (''2. System Overview and Architecture'', JStr ''Python/FCTS-ARCH''),
      (''3. Functional Requirements'', JStr ''Python/FCTS-FUNC''),
      (''3.1 Primary Brake Functions'', JStr ''Python/FCTS-FUNC-PRIM''),
      (''3.2 Advanced Brake Functions'', JStr ''Python/FCTS-FUNC-ADV''),
      (''4. Performance Requirements'', JStr ''Python/FCTS-PERF''),
      (''4.1 Stopping Performance'', JStr ''Python/FCTS-PERF-STOP''),
      (''4.2 Response Time Performance'', JStr ''Python/FCTS-PERF-RESP''),
      (''4.3 Durability Performance'', JStr ''Python/FCTS-PERF-DUR''),
      (''5. Safety Requirements'', JStr ''Python/FCTS-SAFE''),
      (''5.1 System Redundancy'', JStr ''Python/FCTS-SAFE-RED''),
      (''5.2 Monitoring and Warnings'', JStr ''Python/FCTS-SAFE-MON''),
      (''6. Interface Requirements'', JStr ''Python/FCTS-INTF''),
      (''6.1 System Communication'', JStr ''Python/FCTS-INTF-COMM''),
      (''6.2 Control System Integration'', JStr ''Python/FCTS-INTF-CTRL''),
      (''6.3 Sensor Integration'', JStr ''Python/FCTS-INTF-SENS''),
      (''7. Environmental Requirements'', JStr ''Python/FCTS-ENV''),
      (''7.1 Temperature and Climate'', JStr ''Python/FCTS-ENV-TEMP''),
      (''7.2 Corrosion and Protection'', JStr ''Python/FCTS-ENV-CORR''),
      (''7.3 Mechanical Stress'', JStr ''Python/FCTS-ENV-MECH''),
      (''8. Maintenance and Serviceability'', JStr ''Python/FCTS-MAINT''),
      (''8.1 Wear Monitoring'', JStr ''Python/FCTS-MAINT-WEAR''),
      (''8.2 Service Intervals'', JStr ''Python/FCTS-MAINT-SERV''),
      (''8.3 Diagnostics and Accessibility'', JStr ''Python/FCTS-MAINT-DIAG''),
      (''9. Regulatory Compliance'', JStr ''Python/FCTS-REG''),
      (''9.1 International Standards'', JStr ''Python/FCTS-REG-INT''),
      (''9.2 Safety Standards'', JStr ''Python/FCTS-REG-SAFE''),
      (''9.3 Environmental Standards'', JStr ''Python/FCTS-REG-ENV''),
      (''10. Verification and Validation'', JStr ''Python/FCTS-TEST''),
      (''10.1 Performance Testing'', JStr ''Python/FCTS-TEST-PERF''),
      (''10.2 Durability Testing'', JStr ''Python/FCTS-TEST-DUR''),
      (''10.3 Environmental Testing'', JStr ''Python/FCTS-TEST-ENV''),
      (''10.4 System Testing'', JStr ''Python/FCTS-TEST-SYS'')]"

text \<open>
  A custom heading map file can replace and add entries (\<^verbatim>\<open>dict.update\<close>), with any
  parsed value as identifier, so the table is an attribute of the converter.
\<close>

record nh_converter =
  nh_timestamp :: string
  nh_document_id :: string
  nh_heading_ids :: "(string \<times> json) list"
  nh_work_items :: "flat_item list"

definition nh_new_converter :: "string \<Rightarrow> nh_converter" where
  "nh_new_converter timestamp =
     \<lparr> nh_timestamp = timestamp,
       nh_document_id = ''Python/_default/Functional Concept - Brake System'',
       nh_heading_ids = default_heading_ids,
       nh_work_items = [] \<rparr>"



text \<open>
  \<^verbatim>\<open>get_heading_id\<close>: the exact match hashes the title; the regular expression needs a
  string; the loop returns the value of the first key that contains the cleaned title.
\<close>

definition get_heading_id :: "nh_converter \<Rightarrow> json \<Rightarrow> error + json" where
  "get_heading_id self heading_title =
     (if \<not> hashable heading_title then Inl TypeError
      else case (case heading_title of JStr s \<Rightarrow> map_of (nh_heading_ids self) s | _ \<Rightarrow> None) of
             Some v \<Rightarrow> Inr v
           | None \<Rightarrow>
               bnd (py_re_sub_numbering heading_title) (\<lambda>cleaned_title.
               case find (\<lambda>(key, value). sublist cleaned_title key) (nh_heading_ids self) of
                 Some (key, value) \<Rightarrow> Inr value
               | None \<Rightarrow> Inr (JStr ''Python/FCTS-UNKNOWN'')))"

definition nh_create_requirement_workitem ::
  "nh_converter \<Rightarrow> json \<Rightarrow> json \<Rightarrow> fstring \<Rightarrow> error + flat_item" where
  "nh_create_requirement_workitem self req parent_heading_title outline_number =
     bnd (get_heading_id self parent_heading_title) (\<lambda>parent_heading_id.
     requirement_workitem (nh_document_id self) req
       \<lparr> target_id = Raw parent_heading_id, role = ''has_parent'',
         link_description = [Lit ''Links to '', Str parent_heading_title] \<rparr>
       outline_number)"

definition nh_process_subchapter ::
  "nh_converter \<Rightarrow> json \<Rightarrow> nat \<Rightarrow> nat \<Rightarrow> error + flat_item list" where
  "nh_process_subchapter self subchapter chapter_num sub_num =
     bnd (subscript subchapter ''heading'') (\<lambda>subchapter_title.
     bnd (contains ''workitems'' subchapter) (\<lambda>present.
     if \<not> present then Inr []
     else bnd (subscript subchapter ''workitems'') (\<lambda>wis.
          bnd (iterate wis) (\<lambda>reqs.
          mapE (\<lambda>(idx, workitem).
                  nh_create_requirement_workitem self workitem subchapter_title
                    [Dec chapter_num, Lit ''.'', Dec sub_num, Lit ''.'', Dec idx])
               (enumerate1 reqs)))))"

definition nh_process_chapter :: "nh_converter \<Rightarrow> json \<Rightarrow> nat \<Rightarrow> error + flat_item list" where
  "nh_process_chapter self chapter chapter_num =
     bnd (subscript chapter ''heading'') (\<lambda>chapter_title.
     bnd (contains ''workitems'' chapter) (\<lambda>present.
     bnd (if \<not> present then Inr []
          else bnd (subscript chapter ''workitems'') (\<lambda>wis.
               if \<not> truthy wis then Inr []
               else bnd (iterate wis) (\<lambda>reqs.
                    mapE (\<lambda>(idx, workitem).
                            nh_create_requirement_workitem self workitem chapter_title
                              [Dec chapter_num, Lit ''.'', Dec idx])
                         (enumerate1 reqs)))) (\<lambda>direct.
     bnd (contains ''subchapters'' chapter) (\<lambda>has_subs.
     if \<not> has_subs then Inr direct
     else bnd (subscript chapter ''subchapters'') (\<lambda>subs.
          bnd (iterate subs) (\<lambda>subchapters.
          bnd (mapE (\<lambda>(sub_idx, subchapter).
                       nh_process_subchapter self subchapter chapter_num sub_idx)
                    (enumerate1 subchapters)) (\<lambda>below.
          Inr (direct @ concat below))))))))"

definition nh_build_output :: "nh_converter \<Rightarrow> json \<Rightarrow> error + flat_output" where
  "nh_build_output self0 data =
     bnd (subscript data ''document'') (\<lambda>document.
     bnd (subscript document ''chapters'') (\<lambda>chs.
     bnd (iterate chs) (\<lambda>chapters.
     bnd (mapE (\<lambda>(chapter_num, chapter). nh_process_chapter self0 chapter chapter_num)
               (enumerate1 chapters)) (\<lambda>per_chapter.
     let self = self0\<lparr>nh_work_items := nh_work_items self0 @ concat per_chapter\<rparr> in
     bnd (subscript document ''title'') (\<lambda>title.
     bnd (subscript document ''project'') (\<lambda>project.
     bnd (subscript document ''space'') (\<lambda>space.
     bnd (subscript document ''version'') (\<lambda>version.
     Inr \<lparr> fo_document =
             \<lparr> fd_id = nh_document_id self,
               fd_title = title,
               fd_type = ''Functional Concept'',
               fd_project = project,
               fd_space = space,
               fd_version = version,
               fd_created = nh_timestamp self \<rparr>,
           fo_work_items = nh_work_items self,
           fo_metadata =
             \<lparr> fm_total_items = length (nh_work_items self),
               fm_total_requirements =
                 length (filter (\<lambda>w. fi_type w = ''requirement'') (nh_work_items self)),
               fm_total_headings = None,
               fm_conversion_timestamp = nh_timestamp self,
               fm_note = Some ''Work items only - headings must exist in Polarion document'' \<rparr> \<rparr>))))))))"

definition nh_convert :: "nh_converter \<Rightarrow> json \<Rightarrow> flat_output outcome" where
  "nh_convert self data =
     (case validate_input data of
        Inl e \<Rightarrow> Exit1 (UnexpectedError e)
      | Inr (Some r) \<Rightarrow> Exit1 r
      | Inr None \<Rightarrow>
          (case nh_build_output self data of
             Inl e \<Rightarrow> Exit1 (UnexpectedError e)
           | Inr output \<Rightarrow> Written output))"

section \<open>The converters that link to existing work items\<close>

text \<open>
  \<^verbatim>\<open>load_project_analysis\<close> fills \<^verbatim>\<open>self.existing_workitems\<close>, a dictionary from work
  item identifiers to \<^verbatim>\<open>{"type": ..., "title": ..., "attributes": ...}\<close>, in the order
  of the project analysis.  It is an attribute of the converter here.
\<close>

record existing_item =
  ex_type :: json
  ex_title :: json
  ex_attributes :: json

type_synonym existing_workitems = "(json \<times> existing_item) list"

text \<open>\<^verbatim>\<open>wid in self.existing_workitems\<close> for a string \<open>wid\<close>.\<close>

definition is_existing :: "existing_workitems \<Rightarrow> string \<Rightarrow> bool" where
  "is_existing existing wid = (JStr wid \<in> set (map fst existing))"

text \<open>\<^verbatim>\<open>self.existing_workitems.get(parent_id, {}).get('title', 'parent requirement')\<close>.\<close>

definition existing_title :: "existing_workitems \<Rightarrow> json \<Rightarrow> json" where
  "existing_title existing parent_id =
     (case map_of existing parent_id of
        None \<Rightarrow> JStr ''parent requirement''
      | Some item \<Rightarrow> ex_title item)"

text \<open>
  The nested loops \<^verbatim>\<open>for keyword, ids in table.items(): if keyword in text: for wid in
  ids: if wid in self.existing_workitems: return wid\<close>; \<open>None\<close> when they end without
  returning.
\<close>

fun match_keywords ::
  "existing_workitems \<Rightarrow> string \<Rightarrow> (string \<times> string list) list \<Rightarrow> string option" where
  "match_keywords existing text [] = None"
| "match_keywords existing text ((keyword, workitem_ids) # rest) =
     (if sublist keyword text
      then (case find (is_existing existing) workitem_ids of
              Some wid \<Rightarrow> Some wid
            | None \<Rightarrow> match_keywords existing text rest)
      else match_keywords existing text rest)"

subsection \<open>Individual work items\<close>

text \<open>\<^verbatim>\<open>src/archive_scripts/convert_brake_to_polarion_individual.py\<close>.\<close>

record individual_converter =
  ic_timestamp :: string
  ic_document_id :: string
  ic_existing_workitems :: existing_workitems

definition extract_subchapter :: "json \<Rightarrow> json \<Rightarrow> error + (json \<times> json \<times> json option) list" where
  "extract_subchapter chapter_heading subchapter =
     bnd (dict_get subchapter ''heading'' (JStr [])) (\<lambda>subchapter_heading.
     bnd (contains ''workitems'' subchapter) (\<lambda>present.
     if \<not> present then Inr []
     else bnd (subscript subchapter ''workitems'') (\<lambda>wis.
          bnd (iterate wis) (\<lambda>reqs.
          Inr (map (\<lambda>req. (req, chapter_heading, Some subchapter_heading)) reqs)))))"

definition extract_chapter :: "json \<Rightarrow> error + (json \<times> json \<times> json option) list" where
  "extract_chapter chapter =
     bnd (dict_get chapter ''heading'' (JStr [])) (\<lambda>chapter_heading.
     bnd (contains ''workitems'' chapter) (\<lambda>present.
     bnd (if \<not> present then Inr []
          else bnd (subscript chapter ''workitems'') (\<lambda>wis.
               bnd (iterate wis) (\<lambda>reqs.
               Inr (map (\<lambda>req. (req, chapter_heading, None)) reqs)))) (\<lambda>direct.
     bnd (dict_get chapter ''subchapters'' (JArr [])) (\<lambda>subs.
     bnd (iterate subs) (\<lambda>subchapters.
     bnd (mapE (extract_subchapter chapter_heading) subchapters) (\<lambda>below.
     Inr (direct @ concat below)))))))"

definition extract_requirements_with_context ::
  "json \<Rightarrow> error + (json \<times> json \<times> json option) list" where
  "extract_requirements_with_context brake_data =
     bnd (dict_get brake_data ''document'' (JObj [])) (\<lambda>document.
     bnd (dict_get document ''chapters'' (JArr [])) (\<lambda>chs.
     bnd (iterate chs) (\<lambda>chapters.
     bnd (mapE extract_chapter chapters) (\<lambda>per_chapter.
     Inr (concat per_chapter)))))"

text \<open>The table \<^verbatim>\<open>heading_map\<close> of \<^verbatim>\<open>match_heading_to_workitem\<close>, in the order of the literal.\<close>

definition keyword_table :: "(string \<times> string list) list" where
  "keyword_table =
     [(''functional'', [''Python/FCTS-9156'', ''Python/FCTS-9157'', ''Python/FCTS-9158'']),
      (''primary'', [''Python/FCTS-9157'']),
      (''advanced'', [''Python/FCTS-9158'']),
      (''brake function'', [''Python/FCTS-9156'', ''Python/FCTS-9157'']),
      (''performance'', [''Python/FCTS-9175'', ''Python/FCTS-9178'']),
      (''stopping'', [''Python/FCTS-9175'']),
      (''response'', [''Python/FCTS-9178'']),
      (''durability'', [''Python/FCTS-9175'']),
      (''safety'', [''Python/FCTS-9155'']),
      (''redundancy'', [''Python/FCTS-9155'']),
      (''monitoring'', [''Python/FCTS-9155'']),
      (''warning'', [''Python/FCTS-9155'']),
      (''interface'', [''Python/FCTS-9173'', ''Python/FCTS-9158'']),
      (''communication'', [''Python/FCTS-9173'']),
      (''integration'', [''Python/FCTS-9158'', ''Python/FCTS-9173'']),
      (''sensor'', [''Python/FCTS-9173'']),
      (''environmental'', [''Python/FCTS-9181'', ''Python/FCTS-9178'']),
      (''temperature'', [''Python/FCTS-9181'']),
      (''corrosion'', [''Python/FCTS-9181'']),
      (''maintenance'', [''Python/FCTS-9167'', ''Python/FCTS-9168'']),
      (''service'', [''Python/FCTS-9167'']),
      (''diagnostic'', [''Python/FCTS-9168'']),
      (''regulatory'', [''Python/FCTS-9156'', ''Python/FCTS-9155'']),
      (''compliance'', [''Python/FCTS-9156'']),
      (''standard'', [''Python/FCTS-9156'']),
      (''testing'', [''Python/FCTS-9159'', ''Python/FCTS-9160'', ''Python/FCTS-9179'', ''Python/FCTS-9180'']),
      (''verification'', [''Python/FCTS-9159'', ''Python/FCTS-9179'']),
      (''validation'', [''Python/FCTS-9160'', ''Python/FCTS-9180'']),
      (''test'', [''Python/FCTS-9159'', ''Python/FCTS-9160''])]"

text \<open>
  \<^verbatim>\<open>match_heading_to_workitem(chapter, subchapter)\<close>: the chapter is cleaned first, the
  subchapter only when it is true (\<open>None\<close> is the Python \<^verbatim>\<open>None\<close>).
\<close>

definition match_heading_to_workitem ::
  "individual_converter \<Rightarrow> json \<Rightarrow> json option \<Rightarrow> error + string" where
  "match_heading_to_workitem self chapter subchapter =
     bnd (py_re_sub_numbering chapter) (\<lambda>c.
     let chapter_clean = lower c in
     bnd (case subchapter of
            None \<Rightarrow> Inr []
          | Some s \<Rightarrow> if truthy s then bnd (py_re_sub_numbering s) (\<lambda>x. Inr (lower x)) else Inr [])
         (\<lambda>subchapter_clean.
     case (if subchapter_clean \<noteq> []
           then match_keywords (ic_existing_workitems self) subchapter_clean keyword_table
           else None) of
       Some wid \<Rightarrow> Inr wid
     | None \<Rightarrow>
         (case match_keywords (ic_existing_workitems self) chapter_clean keyword_table of
            Some wid \<Rightarrow> Inr wid
          | None \<Rightarrow> Inr ''Python/FCTS-9156'')))"

definition test_items :: "string list" where
  "test_items = [''Python/FCTS-9159'', ''Python/FCTS-9160'', ''Python/FCTS-9179'', ''Python/FCTS-9180'']"

definition ic_create_workitem_format ::
  "individual_converter \<Rightarrow> json \<Rightarrow> string \<Rightarrow> json \<Rightarrow> json option \<Rightarrow> error + linked_item" where
  "ic_create_workitem_format self requirement parent_id chapter subchapter =
     bnd (requirement_item (ic_timestamp self) (ic_document_id self) requirement) (\<lambda>wi.
     let context = (case subchapter of None \<Rightarrow> chapter | Some s \<Rightarrow> if truthy s then s else chapter);
         parent_title = existing_title (ic_existing_workitems self) (JStr parent_id);
         parent_link =
           \<lparr> target_id = Raw (JStr parent_id), role = ''has_parent'',
             link_description = [Lit ''Links to '', Str context, Lit '' - '', Str parent_title] \<rparr>
     in
     bnd (dict_get requirement ''category'' (JStr [])) (\<lambda>category.
     Inr \<lparr> work_item = Some wi,
           links =
             (if category = JStr ''Safety'' \<and> parent_id \<noteq> ''Python/FCTS-9155''
              then [parent_link,
                    \<lparr> target_id = Raw (JStr ''Python/FCTS-9155''), role = ''relates_to'',
                      link_description = [Lit ''Related to MCP Safety Goal''] \<rparr>]
              else if category = JStr ''Testing''
              then (case find (\<lambda>test_id. test_id \<noteq> parent_id
                                 \<and> is_existing (ic_existing_workitems self) test_id) test_items of
                      None \<Rightarrow> [parent_link]
                    | Some test_id \<Rightarrow>
                        [parent_link,
                         \<lparr> target_id = Raw (JStr test_id), role = ''verifies'',
                           link_description =
                             [Lit ''Verifies '',
                              Str (existing_title (ic_existing_workitems self) (JStr test_id))] \<rparr>])
              else [parent_link]),
           children = [] \<rparr>))"

definition ic_convert_requirements :: "individual_converter \<Rightarrow> json \<Rightarrow> error + linked_item list" where
  "ic_convert_requirements self brake_data =
     bnd (extract_requirements_with_context brake_data) (\<lambda>requirements_with_context.
     mapE (\<lambda>(req, chapter, subchapter).
             bnd (match_heading_to_workitem self chapter subchapter) (\<lambda>parent_id.
             bnd (ic_create_workitem_format self req parent_id chapter subchapter) (\<lambda>workitem.
             bnd (subscript req ''id'') (\<lambda>rid.
             bnd (subscript req ''title'') (\<lambda>t.
             bnd (sliceable t) (\<lambda>u.
             Inr workitem))))))
          requirements_with_context)"

text \<open>\<^verbatim>\<open>run\<close>, once the document has been found, up to the dictionary it writes.\<close>

definition ic_run :: "individual_converter \<Rightarrow> json \<Rightarrow> error + items_output" where
  "ic_run self brake_data =
     bnd (ic_convert_requirements self brake_data) (\<lambda>output_items.
     Inr \<lparr> io_work_items = output_items,
           io_metadata =
             \<lparr> im_total_items = length output_items,
               im_document_id = ic_document_id self,
               im_conversion_timestamp = ic_timestamp self,
               im_note = ''Each requirement is an individual work item with parent links'' \<rparr> \<rparr>)"

subsection \<open>One parent with children\<close>

text \<open>\<^verbatim>\<open>src/archive_scripts/convert_brake_to_polarion_exact.py\<close>.\<close>

record exact_converter =
  ec_timestamp :: string
  ec_document_id :: string
  ec_existing_workitems :: existing_workitems

text \<open>\<^verbatim>\<open>mapping_rules\<close>: category, keywords, preferred parents.\<close>

definition mapping_rules :: "(string \<times> string list \<times> string list) list" where
  "mapping_rules =
     [(''functional'',
         [''mcp'', ''framework'', ''integration'', ''server'', ''composite''],
         [''Python/FCTS-9156'', ''Python/FCTS-9157'', ''Python/FCTS-9158'']),
      (''safety'',
         [''safety'', ''goal'', ''critical''],
         [''Python/FCTS-9155'']),
      (''testing'',
         [''test'', ''validation'', ''verification''],
         [''Python/FCTS-9159'', ''Python/FCTS-9160'', ''Python/FCTS-9179'', ''Python/FCTS-9180'']),
      (''interface'',
         [''interface'', ''communication'', ''integration''],
         [''Python/FCTS-9158'', ''Python/FCTS-9173'']),
      (''performance'',
         [''performance'', ''response'', ''efficiency''],
         [''Python/FCTS-9175'', ''Python/FCTS-9178''])]"

definition map_requirement_to_parent :: "exact_converter \<Rightarrow> json \<Rightarrow> error + json" where
  "map_requirement_to_parent self requirement =
     bnd (dict_get requirement ''category'' (JStr [])) (\<lambda>c.
     bnd (py_lower c) (\<lambda>category.
     bnd (dict_get requirement ''title'' (JStr [])) (\<lambda>t.
     bnd (py_lower t) (\<lambda>title.
     case (case map_of mapping_rules category of
             None \<Rightarrow> None
           | Some (keywords, preferred) \<Rightarrow>
               match_keywords (ec_existing_workitems self) title
                 (map (\<lambda>keyword. (keyword, preferred)) keywords)) of
       Some parent_id \<Rightarrow> Inr (JStr parent_id)
     | None \<Rightarrow>
         if is_existing (ec_existing_workitems self) ''Python/FCTS-9156''
         then Inr (JStr ''Python/FCTS-9156'')
         else (case find (\<lambda>(item_id, item_data). ex_type item_data = JStr ''requirement'')
                         (ec_existing_workitems self) of
                 Some (item_id, item_data) \<Rightarrow> Inr item_id
               | None \<Rightarrow> Inr (JStr ''Python/FCTS-9156''))))))"

definition create_workitem_exact_format ::
  "exact_converter \<Rightarrow> json \<Rightarrow> json \<Rightarrow> error + polarion_item" where
  "create_workitem_exact_format self requirement parent_id =
     requirement_item (ec_timestamp self) (ec_document_id self) requirement"

definition create_links :: "exact_converter \<Rightarrow> json \<Rightarrow> json \<Rightarrow> error + link list" where
  "create_links self requirement parent_id =
     (let parent_link =
            \<lparr> target_id = Raw parent_id, role = ''has_parent'',
              link_description =
                [Lit ''Links to '', Str (existing_title (ec_existing_workitems self) parent_id)] \<rparr>
      in
      bnd (dict_get requirement ''category'' (JStr [])) (\<lambda>category.
      Inr (if category = JStr ''Safety''
           then [parent_link,
                 \<lparr> target_id = Raw (JStr ''Python/FCTS-9155''), role = ''relates_to'',
                   link_description = [Lit ''Related to MCP Safety Goal''] \<rparr>]
           else if category = JStr ''Testing''
           then [parent_link,
                 \<lparr> target_id = Raw (JStr ''Python/FCTS-9160''), role = ''verifies'',
                   link_description = [Lit ''Verifies MCP Test Case''] \<rparr>]
           else [parent_link])))"

text \<open>The requirements one chapter adds to \<^verbatim>\<open>all_requirements\<close>.\<close>

definition subchapter_requirements :: "json \<Rightarrow> error + json list" where
  "subchapter_requirements subchapter =
     bnd (contains ''workitems'' subchapter) (\<lambda>present.
     if \<not> present then Inr []
     else bnd (subscript subchapter ''workitems'') iterate)"

definition chapter_requirements :: "json \<Rightarrow> error + json list" where
  "chapter_requirements chapter =
     bnd (contains ''workitems'' chapter) (\<lambda>present.
     bnd (if \<not> present then Inr []
          else bnd (subscript chapter ''workitems'') iterate) (\<lambda>direct.
     bnd (dict_get chapter ''subchapters'' (JArr [])) (\<lambda>subs.
     bnd (iterate subs) (\<lambda>subchapters.
     bnd (mapE subchapter_requirements subchapters) (\<lambda>below.
     Inr (direct @ concat below))))))"

text \<open>
  The grouping by category: its result is not used, but \<^verbatim>\<open>req.get\<close> needs a dictionary
  and the category is used as a key.
\<close>

definition categorize :: "json \<Rightarrow> error + unit" where
  "categorize req =
     bnd (dict_get req ''category'' (JStr ''Uncategorized'')) (\<lambda>category.
     if \<not> hashable category then Inl TypeError else Inr ())"

definition convert_requirements :: "exact_converter \<Rightarrow> json \<Rightarrow> error + linked_item" where
  "convert_requirements self brake_data =
     bnd (dict_get brake_data ''document'' (JObj [])) (\<lambda>document.
     bnd (dict_get document ''chapters'' (JArr [])) (\<lambda>chs.
     bnd (iterate chs) (\<lambda>chapters.
     bnd (mapE chapter_requirements chapters) (\<lambda>per_chapter.
     let all_requirements = concat per_chapter in
     bnd (mapE categorize all_requirements) (\<lambda>categorized.
     case all_requirements of
       [] \<Rightarrow> Inr \<lparr> work_item = None, links = [], children = [] \<rparr>
     | first_req # rest \<Rightarrow>
         bnd (map_requirement_to_parent self first_req) (\<lambda>parent_id.
         bnd (create_workitem_exact_format self first_req parent_id) (\<lambda>wi.
         bnd (create_links self first_req parent_id) (\<lambda>ls.
         bnd (mapE (\<lambda>req.
                      bnd (map_requirement_to_parent self req) (\<lambda>child_parent_id.
                      create_workitem_exact_format self req child_parent_id))
                   rest) (\<lambda>child_items.
         Inr \<lparr> work_item = Some wi, links = ls, children = child_items \<rparr>)))))))))"

section \<open>The document tree, as the specification describes it\<close>

text \<open>
  The specification speaks of a fixed tree: a document with chapters, chapters with
  subchapters, and work items in the \<^verbatim>\<open>workitems\<close> list of a chapter or a subchapter.
  The functions of this section read that tree off a parsed value without any of the
  converters' code; the properties below compare the converters with them.
\<close>

fun is_obj :: "json \<Rightarrow> bool" where
  "is_obj (JObj kvs) = True"
| "is_obj v = False"

fun as_list :: "json \<Rightarrow> json list" where
  "as_list (JArr xs) = xs"
| "as_list v = []"

text \<open>The value under a key of a dictionary, if there is one.\<close>

fun field :: "string \<Rightarrow> json \<Rightarrow> json option" where
  "field k (JObj kvs) = map_of kvs k"
| "field k v = None"

text \<open>The entries of the list under a key; none when the key is absent or holds no list.\<close>

definition list_field :: "string \<Rightarrow> json \<Rightarrow> json list" where
  "list_field k v = (case field k v of None \<Rightarrow> [] | Some l \<Rightarrow> as_list l)"

definition document_chapters :: "json \<Rightarrow> json list" where
  "document_chapters data =
     (case field ''document'' data of None \<Rightarrow> [] | Some document \<Rightarrow> list_field ''chapters'' document)"

text \<open>
  The work items of one chapter in traversal order, each with the chapter or subchapter
  that holds it: first the chapter's own list, then the list of each subchapter in turn.
\<close>

definition node_workitems :: "json \<Rightarrow> (json \<times> json) list" where
  "node_workitems node = map (\<lambda>req. (node, req)) (list_field ''workitems'' node)"

definition chapter_workitems :: "json \<Rightarrow> (json \<times> json) list" where
  "chapter_workitems chapter =
     node_workitems chapter @ concat (map node_workitems (list_field ''subchapters'' chapter))"

definition tree_workitems :: "json \<Rightarrow> (json \<times> json) list" where
  "tree_workitems data = concat (map chapter_workitems (document_chapters data))"

text \<open>
  A document that follows the data model: every heading, identifier and requirement
  field is a string, and the containers are dictionaries and lists.
\<close>

definition has_string :: "json \<Rightarrow> string \<Rightarrow> bool" where
  "has_string v k = (case field k v of Some (JStr s) \<Rightarrow> True | _ \<Rightarrow> False)"

definition string_or_absent :: "json \<Rightarrow> string \<Rightarrow> bool" where
  "string_or_absent v k = (case field k v of None \<Rightarrow> True | Some (JStr s) \<Rightarrow> True | _ \<Rightarrow> False)"

definition list_or_absent :: "json \<Rightarrow> string \<Rightarrow> bool" where
  "list_or_absent v k = (case field k v of None \<Rightarrow> True | Some (JArr xs) \<Rightarrow> True | _ \<Rightarrow> False)"

definition valid_requirement :: "json \<Rightarrow> bool" where
  "valid_requirement req =
     (is_obj req \<and> list_all (has_string req) [''id'', ''title'', ''description'', ''category'', ''priority''])"

definition valid_node :: "json \<Rightarrow> bool" where
  "valid_node node =
     (is_obj node \<and> has_string node ''heading'' \<and> string_or_absent node ''heading_id''
      \<and> list_or_absent node ''workitems''
      \<and> list_all valid_requirement (list_field ''workitems'' node))"

definition valid_chapter :: "json \<Rightarrow> bool" where
  "valid_chapter chapter =
     (valid_node chapter \<and> list_or_absent chapter ''subchapters''
      \<and> list_all valid_node (list_field ''subchapters'' chapter))"

definition valid_data :: "json \<Rightarrow> bool" where
  "valid_data data =
     (is_obj data
      \<and> (case field ''document'' data of
            None \<Rightarrow> False
          | Some document \<Rightarrow>
              is_obj document \<and> list_or_absent document ''chapters''
              \<and> list_all valid_chapter (list_field ''chapters'' document)))"

text \<open>
  What a converter makes of one work item of the tree.  For the headings converter the
  link goes to the \<^verbatim>\<open>heading_id\<close> of the holding node, titled by the heading map.
\<close>

definition heading_item_for ::
  "heading_converter \<Rightarrow> heading_map \<Rightarrow> json \<times> json \<Rightarrow> error + linked_item" where
  "heading_item_for self hm = (\<lambda>(node, req).
     bnd (dict_get node ''heading'' (JStr [])) (\<lambda>heading.
     bnd (dict_get node ''heading_id'' (JStr [])) (\<lambda>heading_id.
     bnd (heading_map_get hm heading_id heading) (\<lambda>title.
     create_workitem_format self req heading_id title))))"

text \<open>
  For the no-headings converter the link goes to the heading of the holding node; the
  outline number is left out of the comparison.
\<close>

definition nh_item_for :: "nh_converter \<Rightarrow> json \<times> json \<Rightarrow> error + flat_item" where
  "nh_item_for self = (\<lambda>(node, req).
     bnd (subscript node ''heading'') (\<lambda>title.
     nh_create_requirement_workitem self req title []))"

definition without_outline :: "flat_item \<Rightarrow> flat_item" where
  "without_outline w = w\<lparr>fi_outlineNumber := []\<rparr>"

definition nh_matches :: "nh_converter \<Rightarrow> json \<times> json \<Rightarrow> flat_item \<Rightarrow> bool" where
  "nh_matches self nr item =
     (map_sum id without_outline (nh_item_for self nr) = Inr (without_outline item))"

text \<open>The two types of item that the synthetic-headings converter generates.\<close>

definition typed :: "flat_item \<Rightarrow> bool" where
  "typed w = (fi_type w = ''requirement'' \<or> fi_type w = ''heading'')"

section \<open>Sample inputs\<close>

text \<open>Concrete converters and documents on which the properties below are exercised.\<close>

definition sample_requirement :: "string \<Rightarrow> string \<Rightarrow> string \<Rightarrow> json" where
  "sample_requirement rid category priority =
     JObj [(''id'', JStr rid),
           (''title'', JStr ''Brake pedal force''),
           (''description'', JStr ''The pedal force shall stay below 500 N.''),
           (''category'', JStr category),
           (''priority'', JStr priority)]"

definition sample_heading_converter :: heading_converter where
  "sample_heading_converter =
     \<lparr> hc_timestamp = ''20250809_114945'',
       hc_document_id = ''Python/_default/Functional Concept - Template'' \<rparr>"

definition sample_converter :: converter where
  "sample_converter = new_converter ''20250809_114945''"

definition sample_nh_converter :: nh_converter where
  "sample_nh_converter = nh_new_converter ''20250809_114945''"

text \<open>A document with every key that \<^verbatim>\<open>validate_input\<close> asks for, and no other.\<close>

definition document_without_version :: json where
  "document_without_version =
     JObj [(''document'',
            JObj [(''id'', JStr ''BRAKE-SYS''),
                  (''title'', JStr ''Brake System Requirements''),
                  (''project'', JStr ''Python''),
                  (''space'', JStr ''_default''),
                  (''chapters'', JArr [])])]"

text \<open>
  A document of two chapters.  The first has a work item of its own and a subchapter
  with two; the second has no \<^verbatim>\<open>workitems\<close> and no \<^verbatim>\<open>heading_id\<close>, and a subchapter
  without \<^verbatim>\<open>heading_id\<close> that holds one work item.
\<close>

definition sample_chapter :: json where
  "sample_chapter =
     JObj [(''heading'', JStr ''3. Functional Requirements''),
           (''heading_id'', JStr ''Python/FCTS-9001''),
           (''workitems'', JArr [sample_requirement ''BR-001'' ''Functional'' ''High'']),
           (''subchapters'',
            JArr [JObj [(''heading'', JStr ''3.1 Primary Brake Functions''),
                        (''heading_id'', JStr ''Python/FCTS-9002''),
                        (''workitems'',
                         JArr [sample_requirement ''BR-002'' ''Safety'' ''Critical'',
                               sample_requirement ''BR-003'' ''Testing'' ''Low''])]])]"

definition sample_chapter_no_id :: json where
  "sample_chapter_no_id =
     JObj [(''heading'', JStr ''5. Safety Requirements''),
           (''subchapters'',
            JArr [JObj [(''heading'', JStr ''5.1 System Redundancy''),
                        (''workitems'',
                         JArr [sample_requirement ''BR-004'' ''Safety'' ''Medium''])]])]"

definition sample_data :: json where
  "sample_data =
     JObj [(''document'',
            JObj [(''id'', JStr ''BRAKE-SYS''),
                  (''title'', JStr ''Brake System Requirements''),
                  (''project'', JStr ''Python''),
                  (''space'', JStr ''_default''),
                  (''version'', JStr ''1.0''),
                  (''created'', JStr ''2025-08-09''),
                  (''chapters'', JArr [sample_chapter, sample_chapter_no_id])])]"

text \<open>Existing work items of the template document, as the project analysis lists them.\<close>

definition sample_existing :: existing_workitems where
  "sample_existing =
     [(JStr ''Python/FCTS-9155'',
       \<lparr> ex_type = JStr ''requirement'', ex_title = JStr ''MCP Safety Goal'', ex_attributes = JObj [] \<rparr>),
      (JStr ''Python/FCTS-9156'',
       \<lparr> ex_type = JStr ''requirement'', ex_title = JStr ''MCP Framework'', ex_attributes = JObj [] \<rparr>),
      (JStr ''Python/FCTS-9157'',
       \<lparr> ex_type = JStr ''requirement'', ex_title = JStr ''Proto-Server'', ex_attributes = JObj [] \<rparr>),
      (JStr ''Python/FCTS-9160'',
       \<lparr> ex_type = JStr ''testcase'', ex_title = JStr ''MCP Test Case'', ex_attributes = JObj [] \<rparr>)]"

definition sample_individual_converter :: individual_converter where
  "sample_individual_converter =
     \<lparr> ic_timestamp = ''20250809_114945'',
       ic_document_id = ''Python/_default/Functional Concept - Template'',
       ic_existing_workitems = sample_existing \<rparr>"

text \<open>The same converters for a document in which Python/FCTS-9156 does not exist.\<close>

definition existing_without_9156 :: existing_workitems where
  "existing_without_9156 =
     [(JStr ''Python/FCTS-9160'',
       \<lparr> ex_type = JStr ''testcase'', ex_title = JStr ''MCP Test Case'', ex_attributes = JObj [] \<rparr>),
      (JStr ''Python/FCTS-9155'',
       \<lparr> ex_type = JStr ''requirement'', ex_title = JStr ''MCP Safety Goal'', ex_attributes = JObj [] \<rparr>)]"

definition exact_converter_without_9156 :: exact_converter where
  "exact_converter_without_9156 =
     \<lparr> ec_timestamp = ''20250809_114945'',
       ec_document_id = ''Python/_default/Functional Concept - Template'',
       ec_existing_workitems = existing_without_9156 \<rparr>"

text \<open>A document in which only Python/FCTS-9156 exists.\<close>

definition individual_converter_only_9156 :: individual_converter where
  "individual_converter_only_9156 =
     \<lparr> ic_timestamp = ''20250809_114945'',
       ic_document_id = ''Python/_default/Functional Concept - Template'',
       ic_existing_workitems =
         [(JStr ''Python/FCTS-9156'',
           \<lparr> ex_type = JStr ''requirement'', ex_title = JStr ''MCP Framework'',
             ex_attributes = JObj [] \<rparr>)] \<rparr>"


definition sample_exact_converter :: exact_converter where
  "sample_exact_converter =
     \<lparr> ec_timestamp = ''20250809_114945'',
       ec_document_id = ''Python/_default/Functional Concept - Template'',
       ec_existing_workitems = sample_existing \<rparr>"

section \<open>Properties\<close>

subsection \<open>The priority and status tables\<close>

text \<open>
  Claim C5.  \<^verbatim>\<open>map_priority\<close> is a total lookup on strings: it never raises on a
  string, it returns 100.0 for Critical, 90.0 for High, 50.0 for Medium, 30.0 for Low,
  and 50.0 for every other string.
\<close>

theorem map_priority_total_lookup:
  "map_priority (JStr s) =
     Inr (if s = ''Critical'' then ''100.0''
          else if s = ''High'' then ''90.0''
          else if s = ''Medium'' then ''50.0''
          else if s = ''Low'' then ''30.0''
          else ''50.0'')"
  by (simp add: map_priority_def table_get_def priority_map_def)

text \<open>
  Claim C6.  \<^verbatim>\<open>map_status\<close> returns approved for the category Regulatory, in_review for
  Safety and draft for every other category string, whether the table lists it or not.
\<close>

theorem map_status_lookup:
  "map_status (JStr c) =
     Inr (if c = ''Regulatory'' then ''approved''
          else if c = ''Safety'' then ''in_review''
          else ''draft'')"
  by (simp add: map_status_def table_get_def status_map_def)

subsection \<open>Exceptions as values\<close>

lemma bnd_Inr [simp]: "bnd (Inr x) f = f x"
  by (simp add: bnd_def)

lemma bnd_Inl [simp]: "bnd (Inl e) f = Inl e"
  by (simp add: bnd_def)

lemma bnd_eq_Inr: "bnd m f = Inr y \<longleftrightarrow> (\<exists>x. m = Inr x \<and> f x = Inr y)"
  by (cases m) auto

lemma dict_get_Inr:
  "dict_get v k d = Inr x \<Longrightarrow> is_obj v \<and> x = (case field k v of None \<Rightarrow> d | Some y \<Rightarrow> y)"
  by (cases v) auto

lemma subscript_Inr: "subscript v k = Inr x \<Longrightarrow> is_obj v \<and> field k v = Some x"
  by (cases v) (auto split: option.splits)

subsection \<open>Severity\<close>

lemma requirement_item_severity:
  assumes "requirement_item ts d r = Inr w"
  shows "table_get (severity_map (case field ''priority'' r of None \<Rightarrow> JNull | Some v \<Rightarrow> v))
           (case field ''category'' r of None \<Rightarrow> JStr ''Functional'' | Some v \<Rightarrow> v) ''must_have''
         = Inr (wi_severity w)"
  using assms unfolding requirement_item_def
  by (auto simp: bnd_eq_Inr dest!: dict_get_Inr subscript_Inr)

lemma requirement_workitem_severity:
  assumes "requirement_workitem d r l ol = Inr w"
  shows "\<exists>c p. field ''category'' r = Some c \<and> field ''priority'' r = Some p
           \<and> fi_severity w = Some (map_severity c p)"
  using assms unfolding requirement_workitem_def
  by (auto simp: bnd_eq_Inr dest!: dict_get_Inr subscript_Inr)

lemma requirement_item_same_severity:
  assumes "field ''category'' ra = field ''category'' rb"
      and "field ''priority'' ra = field ''priority'' rb"
      and "requirement_item ts d ra = Inr wa" and "requirement_item ts' d' rb = Inr wb"
  shows "wi_severity wa = wi_severity wb"
  using requirement_item_severity[OF assms(3)] requirement_item_severity[OF assms(4)] assms(1,2)
  by simp

lemma requirement_workitem_same_severity:
  assumes "field ''category'' ra = field ''category'' rb"
      and "field ''priority'' ra = field ''priority'' rb"
      and "requirement_workitem d ra l ol = Inr wa" and "requirement_workitem d' rb l' ol' = Inr wb"
  shows "fi_severity wa = fi_severity wb"
  using requirement_workitem_severity[OF assms(3)] requirement_workitem_severity[OF assms(4)] assms(1,2)
  by auto

text \<open>
  Claim C2, as stated, fails: two requirements of the category Safety, one of priority
  Critical and one of priority High, get different severities, from the headings
  converter (safety_critical and must_have) and from the archive converter
  (safety_critical and should_have).
\<close>

theorem severity_same_category_counterexample:
  "field ''category'' (sample_requirement ''BR-1'' ''Safety'' ''Critical'')
     = field ''category'' (sample_requirement ''BR-2'' ''Safety'' ''High'')
   \<and> map_sum id (map_option wi_severity \<circ> work_item)
       (create_workitem_format sample_heading_converter
          (sample_requirement ''BR-1'' ''Safety'' ''Critical'') (JStr ''H1'') (JStr ''Safety''))
     = Inr (Some ''safety_critical'')
   \<and> map_sum id (map_option wi_severity \<circ> work_item)
       (create_workitem_format sample_heading_converter
          (sample_requirement ''BR-2'' ''Safety'' ''High'') (JStr ''H1'') (JStr ''Safety''))
     = Inr (Some ''must_have'')
   \<and> map_sum id fi_severity
       (create_requirement_workitem sample_converter
          (sample_requirement ''BR-1'' ''Safety'' ''Critical'') [Lit ''H''] [Dec 2, Lit ''.'', Dec 1])
     = Inr (Some ''safety_critical'')
   \<and> map_sum id fi_severity
       (create_requirement_workitem sample_converter
          (sample_requirement ''BR-2'' ''Safety'' ''High'') [Lit ''H''] [Dec 2, Lit ''.'', Dec 2])
     = Inr (Some ''should_have'')"
  by (simp add: sample_requirement_def create_workitem_format_def requirement_item_def
      table_get_def severity_map_def level_priority_map_def sample_heading_converter_def
      create_requirement_workitem_def requirement_workitem_def map_status_def status_map_def
      map_priority_def priority_map_def map_severity_def lower_def lower_char_def upper_letters_def lower_letters_def
      sample_converter_def new_converter_def)

text \<open>
  Claim C2, amended.  The severity is determined by the category and the priority
  together: whenever two requirements have the same category and the same priority,
  each converter gives both the same severity.  (The five functions are the item
  builders of the headings, individual, exact, synthetic-headings and no-headings
  scripts.)
\<close>

theorem severity_from_category_and_priority:
  assumes "field ''category'' ra = field ''category'' rb"
      and "field ''priority'' ra = field ''priority'' rb"
  shows "(create_workitem_format hc ra ha ta = Inr a1 \<and> create_workitem_format hc rb hb tb = Inr a2
            \<longrightarrow> map_option wi_severity (work_item a1) = map_option wi_severity (work_item a2))
       \<and> (ic_create_workitem_format ic ra pa ca sa = Inr i1 \<and> ic_create_workitem_format ic rb pb cb sb = Inr i2
            \<longrightarrow> map_option wi_severity (work_item i1) = map_option wi_severity (work_item i2))
       \<and> (create_workitem_exact_format ec ra qa = Inr e1 \<and> create_workitem_exact_format ec rb qb = Inr e2
            \<longrightarrow> wi_severity e1 = wi_severity e2)
       \<and> (create_requirement_workitem bc ra ia oa = Inr b1 \<and> create_requirement_workitem bc rb ib ob = Inr b2
            \<longrightarrow> fi_severity b1 = fi_severity b2)
       \<and> (nh_create_requirement_workitem nc ra na ma = Inr n1 \<and> nh_create_requirement_workitem nc rb nb mb = Inr n2
            \<longrightarrow> fi_severity n1 = fi_severity n2)"
proof (intro conjI impI)
  assume "create_workitem_format hc ra ha ta = Inr a1 \<and> create_workitem_format hc rb hb tb = Inr a2"
  then obtain wa wb where
    "requirement_item (hc_timestamp hc) (hc_document_id hc) ra = Inr wa" "work_item a1 = Some wa"
    "requirement_item (hc_timestamp hc) (hc_document_id hc) rb = Inr wb" "work_item a2 = Some wb"
    unfolding create_workitem_format_def by (auto simp: bnd_eq_Inr)
  then show "map_option wi_severity (work_item a1) = map_option wi_severity (work_item a2)"
    using requirement_item_same_severity[OF assms] by simp
next
  assume "ic_create_workitem_format ic ra pa ca sa = Inr i1 \<and> ic_create_workitem_format ic rb pb cb sb = Inr i2"
  then obtain wa wb where
    "requirement_item (ic_timestamp ic) (ic_document_id ic) ra = Inr wa" "work_item i1 = Some wa"
    "requirement_item (ic_timestamp ic) (ic_document_id ic) rb = Inr wb" "work_item i2 = Some wb"
    unfolding ic_create_workitem_format_def by (auto simp: bnd_eq_Inr Let_def)
  then show "map_option wi_severity (work_item i1) = map_option wi_severity (work_item i2)"
    using requirement_item_same_severity[OF assms] by simp
next
  assume "create_workitem_exact_format ec ra qa = Inr e1 \<and> create_workitem_exact_format ec rb qb = Inr e2"
  then show "wi_severity e1 = wi_severity e2"
    unfolding create_workitem_exact_format_def
    using requirement_item_same_severity[OF assms] by blast
next
  assume "create_requirement_workitem bc ra ia oa = Inr b1 \<and> create_requirement_workitem bc rb ib ob = Inr b2"
  then show "fi_severity b1 = fi_severity b2"
    unfolding create_requirement_workitem_def
    using requirement_workitem_same_severity[OF assms] by blast
next
  assume "nh_create_requirement_workitem nc ra na ma = Inr n1 \<and> nh_create_requirement_workitem nc rb nb mb = Inr n2"
  then show "fi_severity n1 = fi_severity n2"
    unfolding nh_create_requirement_workitem_def
    using requirement_workitem_same_severity[OF assms] by (auto simp: bnd_eq_Inr)
qed

theorem severity_from_category_and_priority_witness:
  "field ''category'' (sample_requirement ''BR-1'' ''Safety'' ''High'')
     = field ''category'' (sample_requirement ''BR-2'' ''Safety'' ''High'')
   \<and> field ''priority'' (sample_requirement ''BR-1'' ''Safety'' ''High'')
     = field ''priority'' (sample_requirement ''BR-2'' ''Safety'' ''High'')
   \<and> (\<exists>a1 a2.
        create_workitem_format sample_heading_converter
          (sample_requirement ''BR-1'' ''Safety'' ''High'') (JStr ''H1'') (JStr ''Safety'') = Inr a1
        \<and> create_workitem_format sample_heading_converter
          (sample_requirement ''BR-2'' ''Safety'' ''High'') (JStr ''H2'') (JStr ''Redundancy'') = Inr a2
        \<and> map_option wi_severity (work_item a1) = map_option wi_severity (work_item a2))
   \<and> (\<exists>b1 b2.
        create_requirement_workitem sample_converter
          (sample_requirement ''BR-1'' ''Safety'' ''High'') [Lit ''H''] [Dec 2, Lit ''.'', Dec 1] = Inr b1
        \<and> create_requirement_workitem sample_converter
          (sample_requirement ''BR-2'' ''Safety'' ''High'') [Lit ''H''] [Dec 2, Lit ''.'', Dec 2] = Inr b2
        \<and> fi_severity b1 = fi_severity b2)"
  using severity_from_category_and_priority
    [where ra = "sample_requirement ''BR-1'' ''Safety'' ''High''"
       and rb = "sample_requirement ''BR-2'' ''Safety'' ''High''"
       and hc = sample_heading_converter and bc = sample_converter]
  by (simp add: sample_requirement_def create_workitem_format_def requirement_item_def
      table_get_def severity_map_def level_priority_map_def sample_heading_converter_def
      create_requirement_workitem_def requirement_workitem_def map_status_def status_map_def
      map_priority_def priority_map_def map_severity_def lower_def lower_char_def upper_letters_def lower_letters_def
      sample_converter_def new_converter_def)

subsection \<open>Loops that may raise\<close>

lemma mapE_Inr_iff: "mapE f xs = Inr ys \<longleftrightarrow> list_all2 (\<lambda>x y. f x = Inr y) xs ys"
proof (induction xs arbitrary: ys)
  case Nil
  then show ?case by auto
next
  case (Cons x xs)
  show ?case
    by (cases ys) (auto simp: bnd_eq_Inr Cons.IH)
qed

lemma mapE_length: "mapE f xs = Inr ys \<Longrightarrow> length ys = length xs"
  by (simp add: mapE_Inr_iff list_all2_lengthD)

lemma mapE_mono:
  assumes "mapE f xs = Inr ys" and "\<And>x y. x \<in> set xs \<Longrightarrow> f x = Inr y \<Longrightarrow> g x = Inr y"
  shows "mapE g xs = Inr ys"
  using assms unfolding mapE_Inr_iff
  by (auto elim!: list.rel_mono_strong)

lemma mapE_all:
  assumes "mapE f xs = Inr ys" and "\<And>x y. f x = Inr y \<Longrightarrow> P x"
  shows "list_all P xs"
  using assms
proof (induction xs arbitrary: ys)
  case Nil
  then show ?case by simp
next
  case (Cons x xs)
  from Cons.prems(1) obtain y ys' where "f x = Inr y" "mapE f xs = Inr ys'"
    by (auto simp: bnd_eq_Inr)
  with Cons.IH Cons.prems(2) show ?case by auto
qed

lemma mapE_map: "mapE f (map h xs) = mapE (\<lambda>x. f (h x)) xs"
  by (induction xs) auto

lemma mapE_append:
  "mapE f xs = Inr as \<Longrightarrow> mapE f ys = Inr bs \<Longrightarrow> mapE f (xs @ ys) = Inr (as @ bs)"
  by (simp add: mapE_Inr_iff list_all2_appendI)

lemma mapE_concat:
  "list_all2 (\<lambda>xs ys. mapE f xs = Inr ys) xss yss \<Longrightarrow> mapE f (concat xss) = Inr (concat yss)"
  by (induction xss yss rule: list_all2_induct) (auto intro: mapE_append)

lemma mapE_total:
  "(\<And>x. x \<in> set xs \<Longrightarrow> \<exists>y. f x = Inr y) \<Longrightarrow> \<exists>ys. mapE f xs = Inr ys"
proof (induction xs)
  case Nil
  then show ?case by simp
next
  case (Cons x xs)
  from Cons.prems[of x] obtain y where "f x = Inr y" by auto
  moreover from Cons.IH Cons.prems obtain ys where "mapE f xs = Inr ys" by auto
  ultimately show ?case by simp
qed

lemma keys_not_objs: "list_all is_obj (map (\<lambda>kv. JStr (fst kv)) kvs) \<Longrightarrow> kvs = []"
  by (cases kvs) simp_all

lemma chars_not_objs: "list_all is_obj (map (\<lambda>c. JStr [c]) s) \<Longrightarrow> s = []"
  by (cases s) simp_all

subsection \<open>Reading the tree\<close>

lemma iterate_objs:
  assumes "iterate v = Inr xs" and "list_all is_obj xs"
  shows "xs = as_list v"
  using assms by (cases v) (auto dest: keys_not_objs chars_not_objs)

lemma falsy_as_list: "\<not> truthy v \<Longrightarrow> as_list v = []"
  by (cases v) auto

lemma contains_obj: "is_obj v \<Longrightarrow> contains k v = Inr (field k v \<noteq> None)"
  by (cases v) (auto simp: map_of_eq_None_iff)

lemma list_field_absent: "field k v = None \<Longrightarrow> list_field k v = []"
  by (simp add: list_field_def)

lemma list_field_present: "field k v = Some l \<Longrightarrow> list_field k v = as_list l"
  by (simp add: list_field_def)

lemma requirement_item_obj: "requirement_item ts d r = Inr w \<Longrightarrow> is_obj r"
  by (cases r) (simp_all add: requirement_item_def)

lemma process_req_create:
  "process_req self hid title req = Inr w \<Longrightarrow> create_workitem_format self req hid title = Inr w"
  unfolding process_req_def by (auto simp: bnd_eq_Inr)

lemma create_workitem_format_obj: "create_workitem_format self req hid title = Inr w \<Longrightarrow> is_obj req"
  unfolding create_workitem_format_def bnd_eq_Inr using requirement_item_obj by blast

lemma process_workitems_spec:
  assumes "process_workitems self node hid title = Inr items" and "is_obj node"
  shows "mapE (process_req self hid title) (list_field ''workitems'' node) = Inr items"
proof (cases "field ''workitems'' node")
  case None
  with assms show ?thesis
    by (simp add: process_workitems_def contains_obj list_field_absent)
next
  case (Some wis)
  then have sub: "subscript node ''workitems'' = Inr wis"
    using assms(2) by (cases node) auto
  show ?thesis
  proof (cases "truthy wis")
    case False
    with assms Some sub show ?thesis
      by (simp add: process_workitems_def contains_obj list_field_present falsy_as_list)
  next
    case True
    with assms Some sub have
      "bnd (py_len wis) (\<lambda>n. bnd (iterate wis) (mapE (process_req self hid title))) = Inr items"
      by (simp add: process_workitems_def contains_obj)
    then obtain reqs where
      it: "iterate wis = Inr reqs" and m: "mapE (process_req self hid title) reqs = Inr items"
      unfolding bnd_eq_Inr by blast
    have "list_all is_obj reqs"
    proof (rule mapE_all[OF m])
      fix x y assume "process_req self hid title x = Inr y"
      then show "is_obj x" by (rule create_workitem_format_obj[OF process_req_create])
    qed
    with it have "reqs = as_list wis" by (rule iterate_objs)
    with m Some show ?thesis by (simp add: list_field_present)
  qed
qed

subsection \<open>The traversal of the headings converter\<close>

lemma dict_get_obj: "is_obj v \<Longrightarrow> dict_get v k d = Inr (case field k v of None \<Rightarrow> d | Some y \<Rightarrow> y)"
  by (cases v) auto

lemma dict_get_is_obj: "dict_get v k d = Inr x \<Longrightarrow> is_obj v"
  by (cases v) auto

lemma process_subchapter_links_obj:
  "process_subchapter_links self hm sub = Inr items \<Longrightarrow> is_obj sub"
  by (cases sub) (simp_all add: process_subchapter_links_def)

lemma process_chapter_links_obj:
  "process_chapter_links self hm ch = Inr items \<Longrightarrow> is_obj ch"
  by (cases ch) (simp_all add: process_chapter_links_def)

lemma heading_item_for_node:
  assumes "is_obj node"
      and "heading_map_get hm (case field ''heading_id'' node of None \<Rightarrow> JStr [] | Some y \<Rightarrow> y)
             (case field ''heading'' node of None \<Rightarrow> JStr [] | Some y \<Rightarrow> y) = Inr title"
  shows "heading_item_for self hm (node, req)
         = create_workitem_format self req
             (case field ''heading_id'' node of None \<Rightarrow> JStr [] | Some y \<Rightarrow> y) title"
  using assms by (simp add: heading_item_for_def dict_get_obj)

lemma process_subchapter_links_spec:
  assumes "process_subchapter_links self hm sub = Inr items"
  shows "mapE (heading_item_for self hm) (node_workitems sub) = Inr items"
proof -
  have obj: "is_obj sub" using assms by (rule process_subchapter_links_obj)
  let ?hid = "case field ''heading_id'' sub of None \<Rightarrow> JStr [] | Some y \<Rightarrow> y"
  let ?h = "case field ''heading'' sub of None \<Rightarrow> JStr [] | Some y \<Rightarrow> y"
  from assms obj have
    "bnd (heading_map_get hm ?hid ?h) (\<lambda>title. process_workitems self sub ?hid title) = Inr items"
    by (simp add: process_subchapter_links_def dict_get_obj)
  then obtain title where
    t: "heading_map_get hm ?hid ?h = Inr title" and
    p: "process_workitems self sub ?hid title = Inr items"
    unfolding bnd_eq_Inr by blast
  have "mapE (process_req self ?hid title) (list_field ''workitems'' sub) = Inr items"
    using p obj by (rule process_workitems_spec)
  then have "mapE (\<lambda>req. create_workitem_format self req ?hid title) (list_field ''workitems'' sub) = Inr items"
    by (rule mapE_mono) (rule process_req_create)
  then show ?thesis
    by (simp add: node_workitems_def mapE_map heading_item_for_node[OF obj t])
qed

lemma process_chapter_links_spec:
  assumes "process_chapter_links self hm ch = Inr items"
  shows "mapE (heading_item_for self hm) (chapter_workitems ch) = Inr items"
proof -
  have obj: "is_obj ch" using assms by (rule process_chapter_links_obj)
  let ?hid = "case field ''heading_id'' ch of None \<Rightarrow> JStr [] | Some y \<Rightarrow> y"
  let ?h = "case field ''heading'' ch of None \<Rightarrow> JStr [] | Some y \<Rightarrow> y"
  let ?subs = "case field ''subchapters'' ch of None \<Rightarrow> JArr [] | Some y \<Rightarrow> y"
  from assms obj have
    "bnd (heading_map_get hm ?hid ?h) (\<lambda>title.
     bnd (process_workitems self ch ?hid title) (\<lambda>direct.
     bnd (iterate ?subs) (\<lambda>subchapters.
     bnd (mapE (process_subchapter_links self hm) subchapters) (\<lambda>below.
     Inr (direct @ concat below))))) = Inr items"
    by (simp add: process_chapter_links_def dict_get_obj)
  then obtain title direct subchapters below where
    t: "heading_map_get hm ?hid ?h = Inr title" and
    p: "process_workitems self ch ?hid title = Inr direct" and
    it: "iterate ?subs = Inr subchapters" and
    m: "mapE (process_subchapter_links self hm) subchapters = Inr below" and
    items: "items = direct @ concat below"
    unfolding bnd_eq_Inr by blast
  have "mapE (process_req self ?hid title) (list_field ''workitems'' ch) = Inr direct"
    using p obj by (rule process_workitems_spec)
  then have "mapE (\<lambda>req. create_workitem_format self req ?hid title) (list_field ''workitems'' ch) = Inr direct"
    by (rule mapE_mono) (rule process_req_create)
  then have own: "mapE (heading_item_for self hm) (node_workitems ch) = Inr direct"
    by (simp add: node_workitems_def mapE_map heading_item_for_node[OF obj t])
  have "list_all is_obj subchapters"
    using m by (rule mapE_all) (rule process_subchapter_links_obj)
  with it have "subchapters = as_list ?subs" by (rule iterate_objs)
  then have subs: "subchapters = list_field ''subchapters'' ch"
    by (simp add: list_field_def split: option.splits)
  have "list_all2 (\<lambda>sub ys. mapE (heading_item_for self hm) (node_workitems sub) = Inr ys) subchapters below"
    using m[unfolded mapE_Inr_iff]
    by (rule list_all2_mono) (rule process_subchapter_links_spec)
  then have "list_all2 (\<lambda>xs ys. mapE (heading_item_for self hm) xs = Inr ys)
               (map node_workitems subchapters) below"
    by (simp add: list_all2_map1)
  then have "mapE (heading_item_for self hm) (concat (map node_workitems subchapters)) = Inr (concat below)"
    by (rule mapE_concat)
  with own show ?thesis
    unfolding chapter_workitems_def items subs[symmetric] by (rule mapE_append)
qed

lemma process_requirements_spec:
  assumes "process_requirements self data hm = Inr items"
  shows "mapE (heading_item_for self hm) (tree_workitems data) = Inr items"
proof -
  have obj: "is_obj data"
    using assms by (cases data) (simp_all add: process_requirements_def)
  let ?doc = "case field ''document'' data of None \<Rightarrow> JObj [] | Some y \<Rightarrow> y"
  from assms obj have a:
    "bnd (dict_get ?doc ''chapters'' (JArr [])) (\<lambda>chs.
     bnd (iterate chs) (\<lambda>chapters.
     bnd (mapE (process_chapter_links self hm) chapters) (\<lambda>per_chapter.
     Inr (concat per_chapter)))) = Inr items"
    by (simp add: process_requirements_def dict_get_obj)
  then obtain chs where "dict_get ?doc ''chapters'' (JArr []) = Inr chs"
    unfolding bnd_eq_Inr by blast
  then have dobj: "is_obj ?doc" by (rule dict_get_is_obj)
  let ?chs = "case field ''chapters'' ?doc of None \<Rightarrow> JArr [] | Some y \<Rightarrow> y"
  from a dobj obtain chapters per_chapter where
    it: "iterate ?chs = Inr chapters" and
    m: "mapE (process_chapter_links self hm) chapters = Inr per_chapter" and
    items: "items = concat per_chapter"
    unfolding bnd_eq_Inr by (auto simp: dict_get_obj)
  have "list_all is_obj chapters"
    using m by (rule mapE_all) (rule process_chapter_links_obj)
  with it have "chapters = as_list ?chs" by (rule iterate_objs)
  then have chs: "chapters = document_chapters data"
    by (simp add: document_chapters_def list_field_def split: option.splits)
  have "list_all2 (\<lambda>ch ys. mapE (heading_item_for self hm) (chapter_workitems ch) = Inr ys) chapters per_chapter"
    using m[unfolded mapE_Inr_iff]
    by (rule list_all2_mono) (rule process_chapter_links_spec)
  then have "list_all2 (\<lambda>xs ys. mapE (heading_item_for self hm) xs = Inr ys)
               (map chapter_workitems chapters) per_chapter"
    by (simp add: list_all2_map1)
  then show ?thesis
    unfolding tree_workitems_def items chs[symmetric] by (rule mapE_concat)
qed

lemma has_stringD: "has_string v k \<Longrightarrow> \<exists>s. field k v = Some (JStr s)"
  by (auto simp: has_string_def split: option.splits json.splits)

lemma subscript_obj: "is_obj v \<Longrightarrow> field k v = Some x \<Longrightarrow> subscript v k = Inr x"
  by (cases v) auto

lemma valid_requirement_fields:
  assumes "valid_requirement req"
  obtains rid title descr category priority where
    "is_obj req" "field ''id'' req = Some (JStr rid)" "field ''title'' req = Some (JStr title)"
    "field ''description'' req = Some (JStr descr)" "field ''category'' req = Some (JStr category)"
    "field ''priority'' req = Some (JStr priority)"
proof -
  from assms have "is_obj req" "has_string req ''id''" "has_string req ''title''"
    "has_string req ''description''" "has_string req ''category''" "has_string req ''priority''"
    by (simp_all add: valid_requirement_def)
  then show thesis using that by (meson has_stringD)
qed

lemma table_get_string: "\<exists>v. table_get tbl (JStr s) d = Inr v"
  by (simp add: table_get_def)

lemma requirement_item_total:
  assumes "valid_requirement req"
  shows "\<exists>w. requirement_item ts d req = Inr w"
proof -
  from assms obtain rid title descr category priority where f:
    "is_obj req" "field ''id'' req = Some (JStr rid)" "field ''title'' req = Some (JStr title)"
    "field ''description'' req = Some (JStr descr)" "field ''category'' req = Some (JStr category)"
    "field ''priority'' req = Some (JStr priority)"
    by (rule valid_requirement_fields)
  then show ?thesis
    by (simp add: requirement_item_def dict_get_obj subscript_obj table_get_def)
qed

lemma process_req_total:
  assumes "valid_requirement req"
  shows "\<exists>w. process_req self hid title req = Inr w"
proof -
  from assms obtain rid t descr category priority where f:
    "is_obj req" "field ''id'' req = Some (JStr rid)" "field ''title'' req = Some (JStr t)"
    "field ''description'' req = Some (JStr descr)" "field ''category'' req = Some (JStr category)"
    "field ''priority'' req = Some (JStr priority)"
    by (rule valid_requirement_fields)
  from requirement_item_total[OF assms] obtain wi where
    "requirement_item (hc_timestamp self) (hc_document_id self) req = Inr wi" by blast
  with f show ?thesis
    by (simp add: process_req_def create_workitem_format_def subscript_obj)
qed

lemma list_or_absent_cases:
  assumes "list_or_absent v k"
  obtains "field k v = None" | xs where "field k v = Some (JArr xs)"
  using assms by (auto simp: list_or_absent_def split: option.splits json.splits)

lemma process_workitems_total:
  assumes "valid_node node"
  shows "\<exists>items. process_workitems self node hid title = Inr items"
proof -
  from assms have obj: "is_obj node" and l: "list_or_absent node ''workitems''"
    and v: "list_all valid_requirement (list_field ''workitems'' node)"
    by (simp_all add: valid_node_def)
  from l show ?thesis
  proof (cases rule: list_or_absent_cases)
    case 1
    with obj show ?thesis by (simp add: process_workitems_def contains_obj)
  next
    case (2 xs)
    with v have "list_all valid_requirement xs" by (simp add: list_field_def)
    then have "\<exists>items. mapE (process_req self hid title) xs = Inr items"
      by (intro mapE_total process_req_total) (simp add: list_all_iff)
    with 2 obj show ?thesis
      by (auto simp: process_workitems_def contains_obj subscript_obj)
  qed
qed

lemma string_or_absent_hashable:
  "string_or_absent v k \<Longrightarrow> hashable (case field k v of None \<Rightarrow> JStr [] | Some y \<Rightarrow> y)"
  by (auto simp: string_or_absent_def split: option.splits json.splits)

lemma process_subchapter_links_total:
  assumes "valid_node sub"
  shows "\<exists>items. process_subchapter_links self hm sub = Inr items"
proof -
  from assms have obj: "is_obj sub" and h: "string_or_absent sub ''heading_id''"
    by (simp_all add: valid_node_def)
  from process_workitems_total[OF assms] string_or_absent_hashable[OF h] obj show ?thesis
    by (simp add: process_subchapter_links_def dict_get_obj heading_map_get_def)
qed

lemma process_chapter_links_total:
  assumes "valid_chapter ch"
  shows "\<exists>items. process_chapter_links self hm ch = Inr items"
proof -
  from assms have node: "valid_node ch" and l: "list_or_absent ch ''subchapters''"
    and v: "list_all valid_node (list_field ''subchapters'' ch)"
    by (simp_all add: valid_chapter_def)
  from node have obj: "is_obj ch" and h: "string_or_absent ch ''heading_id''"
    by (simp_all add: valid_node_def)
  let ?hid = "case field ''heading_id'' ch of None \<Rightarrow> JStr [] | Some y \<Rightarrow> y"
  let ?h = "case field ''heading'' ch of None \<Rightarrow> JStr [] | Some y \<Rightarrow> y"
  let ?subs = "case field ''subchapters'' ch of None \<Rightarrow> JArr [] | Some y \<Rightarrow> y"
  obtain title where t: "heading_map_get hm ?hid ?h = Inr title"
    using string_or_absent_hashable[OF h] by (simp add: heading_map_get_def)
  obtain direct where d: "process_workitems self ch ?hid title = Inr direct"
    using process_workitems_total[OF node] by blast
  have it: "iterate ?subs = Inr (list_field ''subchapters'' ch)"
    using l by (cases rule: list_or_absent_cases) (simp_all add: list_field_def)
  have "\<exists>below. mapE (process_subchapter_links self hm) (list_field ''subchapters'' ch) = Inr below"
    using v by (intro mapE_total process_subchapter_links_total) (simp add: list_all_iff)
  then obtain below where
    "mapE (process_subchapter_links self hm) (list_field ''subchapters'' ch) = Inr below" by blast
  with obj t d it show ?thesis
    by (simp add: process_chapter_links_def dict_get_obj)
qed

lemma process_requirements_total:
  assumes "valid_data data"
  shows "\<exists>items. process_requirements self data hm = Inr items"
proof -
  from assms obtain document where obj: "is_obj data" and doc: "field ''document'' data = Some document"
    and dobj: "is_obj document" and l: "list_or_absent document ''chapters''"
    and v: "list_all valid_chapter (list_field ''chapters'' document)"
    by (auto simp: valid_data_def split: option.splits)
  let ?chs = "case field ''chapters'' document of None \<Rightarrow> JArr [] | Some y \<Rightarrow> y"
  have it: "iterate ?chs = Inr (list_field ''chapters'' document)"
    using l by (cases rule: list_or_absent_cases) (simp_all add: list_field_def)
  have "\<exists>xs. mapE (process_chapter_links self hm) (list_field ''chapters'' document) = Inr xs"
    using v by (intro mapE_total process_chapter_links_total) (simp add: list_all_iff)
  then obtain xs where
    "mapE (process_chapter_links self hm) (list_field ''chapters'' document) = Inr xs" by blast
  with obj doc dobj it show ?thesis
    by (simp add: process_requirements_def dict_get_obj)
qed

subsection \<open>The traversal of the no-headings converter\<close>

lemma mapE_enumerate1:
  assumes "mapE (\<lambda>(idx, x). f idx x) (enumerate1 xs) = Inr ys"
  shows "list_all2 (\<lambda>x y. \<exists>idx. f idx x = Inr y) xs ys"
proof -
  from assms have a: "list_all2 (\<lambda>p y. (case p of (idx, x) \<Rightarrow> f idx x) = Inr y)
                        (zip [1 ..< Suc (length xs)] xs) ys"
    by (simp add: mapE_Inr_iff enumerate1_def)
  then have len: "length ys = length xs"
    by (auto dest!: list_all2_lengthD simp del: upt_Suc)
  show ?thesis
  proof (rule list_all2_all_nthI)
    show "length xs = length ys" using len by simp
  next
    fix n assume n: "n < length xs"
    with a have "(case zip [1 ..< Suc (length xs)] xs ! n of (idx, x) \<Rightarrow> f idx x) = Inr (ys ! n)"
      by (auto dest: list_all2_nthD simp del: upt_Suc)
    with n show "\<exists>idx. f idx (xs ! n) = Inr (ys ! n)"
      by (auto simp del: upt_Suc)
  qed
qed

lemma enumerate1_total:
  assumes "\<And>idx x. x \<in> set xs \<Longrightarrow> \<exists>y. f idx x = Inr y"
  shows "\<exists>ys. mapE (\<lambda>(idx, x). f idx x) (enumerate1 xs) = Inr ys"
proof (rule mapE_total)
  fix p assume "p \<in> set (enumerate1 xs)"
  then have "snd p \<in> set xs"
    unfolding enumerate1_def by (metis in_set_zipE prod.collapse)
  from assms[OF this, of "fst p"] show "\<exists>y. (case p of (idx, x) \<Rightarrow> f idx x) = Inr y"
    by (simp add: case_prod_beta)
qed

lemma requirement_workitem_obj: "requirement_workitem d r l ol = Inr w \<Longrightarrow> is_obj r"
  by (cases r) (simp_all add: requirement_workitem_def)

lemma requirement_workitem_outline:
  assumes "requirement_workitem d r l ol = Inr w"
  shows "map_sum id without_outline (requirement_workitem d r l ol') = Inr (without_outline w)"
proof -
  from assms obtain rid title descr category status priority prio category_lower where
    "subscript r ''id'' = Inr rid" "subscript r ''title'' = Inr title"
    "subscript r ''description'' = Inr descr" "subscript r ''category'' = Inr category"
    "map_status category = Inr status" "subscript r ''priority'' = Inr priority"
    "map_priority priority = Inr prio" "py_lower category = Inr category_lower"
    and w: "w = \<lparr> fi_id = [Lit ''Python/'', Str rid],
           fi_type = ''requirement'',
           fi_title = title,
           fi_description_type = ''text/html'',
           fi_description_value = [Lit ''<p>'', Str descr, Lit ''</p>''],
           fi_status = status,
           fi_severity = Some (map_severity category priority),
           fi_priority = prio,
           fi_categories = Some [category_lower],
           fi_custom_fields = Some (rid, category, priority),
           fi_module_type = ''documents'',
           fi_module_id = d,
           fi_outlineNumber = ol,
           fi_links = Some [l] \<rparr>"
    unfolding requirement_workitem_def bnd_eq_Inr by blast
  then show ?thesis
    by (simp add: requirement_workitem_def without_outline_def)
qed

lemma nh_create_obj: "nh_create_requirement_workitem self req title ol = Inr w \<Longrightarrow> is_obj req"
  unfolding nh_create_requirement_workitem_def bnd_eq_Inr
  using requirement_workitem_obj by blast

lemma nh_create_matches:
  assumes "nh_create_requirement_workitem self req title ol = Inr w"
      and "is_obj node" and "field ''heading'' node = Some title"
  shows "nh_matches self (node, req) w"
proof -
  from assms(1) obtain pid where
    g: "get_heading_id self title = Inr pid" and
    r: "requirement_workitem (nh_document_id self) req
          \<lparr> target_id = Raw pid, role = ''has_parent'',
            link_description = [Lit ''Links to '', Str title] \<rparr> ol = Inr w"
    unfolding nh_create_requirement_workitem_def bnd_eq_Inr by blast
  from requirement_workitem_outline[OF r, of "[]"] g assms(2,3) show ?thesis
    by (simp add: nh_matches_def nh_item_for_def subscript_obj nh_create_requirement_workitem_def)
qed

lemma nh_process_subchapter_obj: "nh_process_subchapter self sub c n = Inr items \<Longrightarrow> is_obj sub"
  by (cases sub) (simp_all add: nh_process_subchapter_def)

lemma nh_process_chapter_obj: "nh_process_chapter self ch c = Inr items \<Longrightarrow> is_obj ch"
  by (cases ch) (simp_all add: nh_process_chapter_def)

lemma nh_requirements_spec:
  assumes it: "iterate wis = Inr reqs"
      and m: "mapE (\<lambda>(idx, workitem). nh_create_requirement_workitem self workitem title (ol idx))
                (enumerate1 reqs) = Inr items"
      and node: "is_obj node" "field ''heading'' node = Some title" "field ''workitems'' node = Some wis"
  shows "list_all2 (nh_matches self) (node_workitems node) items"
proof -
  have a: "list_all2 (\<lambda>x y. \<exists>idx. nh_create_requirement_workitem self x title (ol idx) = Inr y) reqs items"
    using m by (rule mapE_enumerate1)
  have "list_all is_obj reqs"
    unfolding list_all_iff
  proof
    fix x assume "x \<in> set reqs"
    then obtain i where "i < length reqs" "x = reqs ! i" by (auto simp: in_set_conv_nth)
    with a obtain idx where "nh_create_requirement_workitem self x title (ol idx) = Inr (items ! i)"
      by (auto dest: list_all2_nthD)
    then show "is_obj x" by (rule nh_create_obj)
  qed
  with it have "reqs = as_list wis" by (rule iterate_objs)
  then have reqs: "reqs = list_field ''workitems'' node"
    using node(3) by (simp add: list_field_def)
  have "list_all2 (\<lambda>x y. nh_matches self (node, x) y) reqs items"
    using a by (rule list_all2_mono) (auto intro: nh_create_matches node)
  then show ?thesis
    by (simp add: node_workitems_def list_all2_map1 reqs)
qed

lemma nh_process_subchapter_spec:
  assumes "nh_process_subchapter self sub c n = Inr items"
  shows "list_all2 (nh_matches self) (node_workitems sub) items"
proof -
  have obj: "is_obj sub" using assms by (rule nh_process_subchapter_obj)
  from assms obtain title where
    t: "subscript sub ''heading'' = Inr title" and
    rest: "bnd (contains ''workitems'' sub) (\<lambda>present.
             if \<not> present then Inr []
             else bnd (subscript sub ''workitems'') (\<lambda>wis.
                  bnd (iterate wis) (\<lambda>reqs.
                  mapE (\<lambda>(idx, workitem).
                          nh_create_requirement_workitem self workitem title
                            [Dec c, Lit ''.'', Dec n, Lit ''.'', Dec idx])
                       (enumerate1 reqs)))) = Inr items"
    unfolding nh_process_subchapter_def bnd_eq_Inr by blast
  from t have h: "field ''heading'' sub = Some title" by (auto dest: subscript_Inr)
  show ?thesis
  proof (cases "field ''workitems'' sub")
    case None
    with rest obj show ?thesis
      by (simp add: contains_obj node_workitems_def list_field_absent)
  next
    case (Some wis)
    with rest obj have
      "bnd (iterate wis) (\<lambda>reqs.
         mapE (\<lambda>(idx, workitem).
                 nh_create_requirement_workitem self workitem title
                   [Dec c, Lit ''.'', Dec n, Lit ''.'', Dec idx])
              (enumerate1 reqs)) = Inr items"
      by (simp add: contains_obj subscript_obj)
    then obtain reqs where
      "iterate wis = Inr reqs"
      "mapE (\<lambda>(idx, workitem).
               nh_create_requirement_workitem self workitem title
                 [Dec c, Lit ''.'', Dec n, Lit ''.'', Dec idx])
            (enumerate1 reqs) = Inr items"
      unfolding bnd_eq_Inr by blast
    then show ?thesis using obj h Some by (rule nh_requirements_spec)
  qed
qed

lemma list_all2_concat:
  "list_all2 (list_all2 R) xss yss \<Longrightarrow> list_all2 R (concat xss) (concat yss)"
  by (induction xss yss rule: list_all2_induct) (auto intro: list_all2_appendI)

lemma nh_subchapters_spec:
  assumes it: "iterate subs = Inr subchapters"
      and m: "mapE (\<lambda>(sub_idx, subchapter). nh_process_subchapter self subchapter c sub_idx)
                (enumerate1 subchapters) = Inr below"
      and f: "field ''subchapters'' ch = Some subs"
  shows "list_all2 (nh_matches self) (concat (map node_workitems (list_field ''subchapters'' ch)))
           (concat below)"
proof -
  have a: "list_all2 (\<lambda>sub ys. \<exists>idx. nh_process_subchapter self sub c idx = Inr ys) subchapters below"
    using m by (rule mapE_enumerate1)
  have "list_all is_obj subchapters"
    unfolding list_all_iff
  proof
    fix x assume "x \<in> set subchapters"
    then obtain i where "i < length subchapters" "x = subchapters ! i"
      by (auto simp: in_set_conv_nth)
    with a obtain idx where "nh_process_subchapter self x c idx = Inr (below ! i)"
      by (auto dest: list_all2_nthD)
    then show "is_obj x" by (rule nh_process_subchapter_obj)
  qed
  with it have "subchapters = as_list subs" by (rule iterate_objs)
  then have subs: "subchapters = list_field ''subchapters'' ch"
    using f by (simp add: list_field_def)
  have "list_all2 (\<lambda>sub ys. list_all2 (nh_matches self) (node_workitems sub) ys) subchapters below"
    using a by (rule list_all2_mono) (auto intro: nh_process_subchapter_spec)
  then have "list_all2 (list_all2 (nh_matches self)) (map node_workitems subchapters) below"
    by (simp add: list_all2_map1)
  then show ?thesis
    unfolding subs[symmetric] by (rule list_all2_concat)
qed

lemma nh_direct_spec:
  assumes d: "(if field ''workitems'' ch = None then Inr []
               else bnd (subscript ch ''workitems'') (\<lambda>wis.
                    if \<not> truthy wis then Inr []
                    else bnd (iterate wis) (\<lambda>reqs.
                         mapE (\<lambda>(idx, workitem).
                                 nh_create_requirement_workitem self workitem title
                                   [Dec c, Lit ''.'', Dec idx])
                              (enumerate1 reqs)))) = Inr direct"
      and obj: "is_obj ch" and h: "field ''heading'' ch = Some title"
  shows "list_all2 (nh_matches self) (node_workitems ch) direct"
proof (cases "field ''workitems'' ch")
  case None
  with d show ?thesis by (simp add: node_workitems_def list_field_absent)
next
  case (Some wis)
  show ?thesis
  proof (cases "truthy wis")
    case False
    with d Some obj show ?thesis
      by (simp add: subscript_obj node_workitems_def list_field_present falsy_as_list)
  next
    case True
    with d Some obj have
      "bnd (iterate wis) (\<lambda>reqs.
         mapE (\<lambda>(idx, workitem).
                 nh_create_requirement_workitem self workitem title [Dec c, Lit ''.'', Dec idx])
              (enumerate1 reqs)) = Inr direct"
      by (simp add: subscript_obj)
    then obtain reqs where
      "iterate wis = Inr reqs"
      "mapE (\<lambda>(idx, workitem).
               nh_create_requirement_workitem self workitem title [Dec c, Lit ''.'', Dec idx])
            (enumerate1 reqs) = Inr direct"
      unfolding bnd_eq_Inr by blast
    then show ?thesis using obj h Some by (rule nh_requirements_spec)
  qed
qed

lemma nh_process_chapter_spec:
  assumes "nh_process_chapter self ch c = Inr items"
  shows "list_all2 (nh_matches self) (chapter_workitems ch) items"
proof -
  have obj: "is_obj ch" using assms by (rule nh_process_chapter_obj)
  from assms obj obtain title direct where
    t: "subscript ch ''heading'' = Inr title" and
    d: "(if field ''workitems'' ch = None then Inr []
         else bnd (subscript ch ''workitems'') (\<lambda>wis.
              if \<not> truthy wis then Inr []
              else bnd (iterate wis) (\<lambda>reqs.
                   mapE (\<lambda>(idx, workitem).
                           nh_create_requirement_workitem self workitem title
                             [Dec c, Lit ''.'', Dec idx])
                        (enumerate1 reqs)))) = Inr direct" and
    rest: "(if field ''subchapters'' ch = None then Inr direct
            else bnd (subscript ch ''subchapters'') (\<lambda>subs.
                 bnd (iterate subs) (\<lambda>subchapters.
                 bnd (mapE (\<lambda>(sub_idx, subchapter).
                              nh_process_subchapter self subchapter c sub_idx)
                           (enumerate1 subchapters)) (\<lambda>below.
                 Inr (direct @ concat below))))) = Inr items"
    unfolding nh_process_chapter_def bnd_eq_Inr by (auto simp: contains_obj)
  from t have h: "field ''heading'' ch = Some title" by (auto dest: subscript_Inr)
  have own: "list_all2 (nh_matches self) (node_workitems ch) direct"
    using d obj h by (rule nh_direct_spec)
  show ?thesis
  proof (cases "field ''subchapters'' ch")
    case None
    with rest own show ?thesis
      by (simp add: chapter_workitems_def list_field_absent)
  next
    case (Some subs)
    with rest obj obtain subchapters below where
      it: "iterate subs = Inr subchapters" and
      m: "mapE (\<lambda>(sub_idx, subchapter). nh_process_subchapter self subchapter c sub_idx)
            (enumerate1 subchapters) = Inr below" and
      items: "items = direct @ concat below"
      by (auto simp: subscript_obj bnd_eq_Inr)
    from it m Some have
      "list_all2 (nh_matches self) (concat (map node_workitems (list_field ''subchapters'' ch)))
         (concat below)"
      by (rule nh_subchapters_spec)
    with own show ?thesis
      unfolding chapter_workitems_def items by (rule list_all2_appendI)
  qed
qed

lemma nh_build_output_spec:
  assumes "nh_build_output self data = Inr out"
  shows "\<exists>items. fo_work_items out = nh_work_items self @ items
           \<and> list_all2 (nh_matches self) (tree_workitems data) items"
proof -
  from assms obtain document chs chapters per_chapter where
    doc: "subscript data ''document'' = Inr document" and
    c: "subscript document ''chapters'' = Inr chs" and
    it: "iterate chs = Inr chapters" and
    m: "mapE (\<lambda>(chapter_num, chapter). nh_process_chapter self chapter chapter_num)
          (enumerate1 chapters) = Inr per_chapter" and
    rest: "(let self' = self\<lparr>nh_work_items := nh_work_items self @ concat per_chapter\<rparr> in
     bnd (subscript document ''title'') (\<lambda>title.
     bnd (subscript document ''project'') (\<lambda>project.
     bnd (subscript document ''space'') (\<lambda>space.
     bnd (subscript document ''version'') (\<lambda>version.
     Inr \<lparr> fo_document =
             \<lparr> fd_id = nh_document_id self',
               fd_title = title,
               fd_type = ''Functional Concept'',
               fd_project = project,
               fd_space = space,
               fd_version = version,
               fd_created = nh_timestamp self' \<rparr>,
           fo_work_items = nh_work_items self',
           fo_metadata =
             \<lparr> fm_total_items = length (nh_work_items self'),
               fm_total_requirements =
                 length (filter (\<lambda>w. fi_type w = ''requirement'') (nh_work_items self')),
               fm_total_headings = None,
               fm_conversion_timestamp = nh_timestamp self',
               fm_note = Some ''Work items only - headings must exist in Polarion document'' \<rparr> \<rparr>))))) = Inr out"
    unfolding nh_build_output_def bnd_eq_Inr by blast
  from rest have out: "fo_work_items out = nh_work_items self @ concat per_chapter"
    by (auto simp: Let_def bnd_eq_Inr)
  have a: "list_all2 (\<lambda>ch ys. \<exists>idx. nh_process_chapter self ch idx = Inr ys) chapters per_chapter"
    using m by (rule mapE_enumerate1)
  have "list_all is_obj chapters"
    unfolding list_all_iff
  proof
    fix x assume "x \<in> set chapters"
    then obtain i where "i < length chapters" "x = chapters ! i"
      by (auto simp: in_set_conv_nth)
    with a obtain idx where "nh_process_chapter self x idx = Inr (per_chapter ! i)"
      by (auto dest: list_all2_nthD)
    then show "is_obj x" by (rule nh_process_chapter_obj)
  qed
  with it have "chapters = as_list chs" by (rule iterate_objs)
  then have chs: "chapters = document_chapters data"
    using doc c by (auto simp: document_chapters_def list_field_def dest!: subscript_Inr)
  have "list_all2 (\<lambda>ch ys. list_all2 (nh_matches self) (chapter_workitems ch) ys) chapters per_chapter"
    using a by (rule list_all2_mono) (auto intro: nh_process_chapter_spec)
  then have "list_all2 (list_all2 (nh_matches self)) (map chapter_workitems chapters) per_chapter"
    by (simp add: list_all2_map1)
  then have "list_all2 (nh_matches self) (tree_workitems data) (concat per_chapter)"
    unfolding tree_workitems_def chs[symmetric] by (rule list_all2_concat)
  with out show ?thesis by blast
qed

lemma get_heading_id_total: "\<exists>v. get_heading_id self (JStr s) = Inr v"
  by (simp add: get_heading_id_def split: option.splits prod.splits)

lemma requirement_workitem_total:
  assumes "valid_requirement req"
  shows "\<exists>w. requirement_workitem d req l ol = Inr w"
proof -
  from assms obtain rid title descr category priority where f:
    "is_obj req" "field ''id'' req = Some (JStr rid)" "field ''title'' req = Some (JStr title)"
    "field ''description'' req = Some (JStr descr)" "field ''category'' req = Some (JStr category)"
    "field ''priority'' req = Some (JStr priority)"
    by (rule valid_requirement_fields)
  then show ?thesis
    by (simp add: requirement_workitem_def subscript_obj map_status_def map_priority_def table_get_def)
qed

lemma nh_create_total:
  assumes "valid_requirement req"
  shows "\<exists>w. nh_create_requirement_workitem self req (JStr t) ol = Inr w"
proof -
  obtain pid where "get_heading_id self (JStr t) = Inr pid"
    using get_heading_id_total by blast
  with requirement_workitem_total[OF assms] show ?thesis
    by (simp add: nh_create_requirement_workitem_def)
qed

lemma nh_requirements_total:
  assumes "list_all valid_requirement xs"
  shows "\<exists>items. mapE (\<lambda>(idx, workitem). nh_create_requirement_workitem self workitem (JStr t) (ol idx))
                   (enumerate1 xs) = Inr items"
  using assms by (intro enumerate1_total nh_create_total) (simp add: list_all_iff)

lemma nh_process_subchapter_total:
  assumes "valid_node sub"
  shows "\<exists>items. nh_process_subchapter self sub c n = Inr items"
proof -
  from assms have obj: "is_obj sub" and hs: "has_string sub ''heading''"
    and l: "list_or_absent sub ''workitems''"
    and v: "list_all valid_requirement (list_field ''workitems'' sub)"
    by (simp_all add: valid_node_def)
  from hs obtain t where t: "field ''heading'' sub = Some (JStr t)" by (auto dest: has_stringD)
  from l show ?thesis
  proof (cases rule: list_or_absent_cases)
    case 1
    with obj t show ?thesis
      by (simp add: nh_process_subchapter_def contains_obj subscript_obj)
  next
    case (2 xs)
    with v have "list_all valid_requirement xs" by (simp add: list_field_def)
    from nh_requirements_total[OF this] 2 obj t show ?thesis
      by (simp add: nh_process_subchapter_def contains_obj subscript_obj)
  qed
qed

lemma nh_process_chapter_total:
  assumes "valid_chapter ch"
  shows "\<exists>items. nh_process_chapter self ch c = Inr items"
proof -
  from assms have node: "valid_node ch" and ls: "list_or_absent ch ''subchapters''"
    and vs: "list_all valid_node (list_field ''subchapters'' ch)"
    by (simp_all add: valid_chapter_def)
  from node have obj: "is_obj ch" and hs: "has_string ch ''heading''"
    and l: "list_or_absent ch ''workitems''"
    and v: "list_all valid_requirement (list_field ''workitems'' ch)"
    by (simp_all add: valid_node_def)
  from hs obtain t where t: "field ''heading'' ch = Some (JStr t)" by (auto dest: has_stringD)
  have "\<exists>direct. (if field ''workitems'' ch = None then Inr []
         else bnd (subscript ch ''workitems'') (\<lambda>wis.
              if \<not> truthy wis then Inr []
              else bnd (iterate wis) (\<lambda>reqs.
                   mapE (\<lambda>(idx, workitem).
                           nh_create_requirement_workitem self workitem (JStr t)
                             [Dec c, Lit ''.'', Dec idx])
                        (enumerate1 reqs)))) = Inr direct"
    using l
  proof (cases rule: list_or_absent_cases)
    case 1
    then show ?thesis by simp
  next
    case (2 xs)
    with v have "list_all valid_requirement xs" by (simp add: list_field_def)
    from nh_requirements_total[OF this] 2 obj show ?thesis
      by (simp add: subscript_obj)
  qed
  then obtain direct where d: "(if field ''workitems'' ch = None then Inr []
         else bnd (subscript ch ''workitems'') (\<lambda>wis.
              if \<not> truthy wis then Inr []
              else bnd (iterate wis) (\<lambda>reqs.
                   mapE (\<lambda>(idx, workitem).
                           nh_create_requirement_workitem self workitem (JStr t)
                             [Dec c, Lit ''.'', Dec idx])
                        (enumerate1 reqs)))) = Inr direct" by blast
  from ls show ?thesis
  proof (cases rule: list_or_absent_cases)
    case 1
    with obj t d show ?thesis
      by (simp add: nh_process_chapter_def contains_obj subscript_obj)
  next
    case (2 xs)
    with vs have "list_all valid_node xs" by (simp add: list_field_def)
    then have "\<exists>below. mapE (\<lambda>(sub_idx, subchapter). nh_process_subchapter self subchapter c sub_idx)
                         (enumerate1 xs) = Inr below"
      by (intro enumerate1_total nh_process_subchapter_total) (simp add: list_all_iff)
    with 2 obj t d show ?thesis
      by (auto simp: nh_process_chapter_def contains_obj subscript_obj)
  qed
qed

text \<open>
  Claim C1.  The traversal returns the work items of the tree as a flat list in
  traversal order: chapters in input order, within a chapter first the entries of its
  own \<^verbatim>\<open>workitems\<close> list, then the entries of each subchapter's list in turn, one output
  item per entry, so the length of the result is the number of work items in the tree.
  This is proved for \<^verbatim>\<open>process_requirements\<close> of the headings converter and for
  \<^verbatim>\<open>process_chapter\<close> and the chapter loop of the no-headings converter: whenever they
  return, the result matches \<open>tree_workitems\<close> entry by entry, and on every document
  that follows the data model they do return.
\<close>

theorem traversal_flat_ordered:
  "(process_requirements hc data hm = Inr items \<longrightarrow>
      list_all2 (\<lambda>nr item. heading_item_for hc hm nr = Inr item) (tree_workitems data) items
      \<and> length items = length (tree_workitems data))
   \<and> (valid_data data \<longrightarrow> (\<exists>items'. process_requirements hc data hm = Inr items'))
   \<and> (nh_process_chapter nc ch n = Inr nitems \<longrightarrow>
      list_all2 (nh_matches nc) (chapter_workitems ch) nitems
      \<and> length nitems = length (chapter_workitems ch))
   \<and> (valid_chapter ch \<longrightarrow> (\<exists>nitems'. nh_process_chapter nc ch n = Inr nitems'))
   \<and> (nh_build_output nc data = Inr out \<and> nh_work_items nc = [] \<longrightarrow>
      list_all2 (nh_matches nc) (tree_workitems data) (fo_work_items out)
      \<and> length (fo_work_items out) = length (tree_workitems data))"
proof (intro conjI impI)
  assume a: "process_requirements hc data hm = Inr items"
  then have "mapE (heading_item_for hc hm) (tree_workitems data) = Inr items"
    by (rule process_requirements_spec)
  then show l: "list_all2 (\<lambda>nr item. heading_item_for hc hm nr = Inr item) (tree_workitems data) items"
    by (simp add: mapE_Inr_iff)
  then show "length items = length (tree_workitems data)"
    by (simp add: list_all2_lengthD)
next
  assume "valid_data data"
  then show "\<exists>items'. process_requirements hc data hm = Inr items'"
    by (rule process_requirements_total)
next
  assume "nh_process_chapter nc ch n = Inr nitems"
  then show l: "list_all2 (nh_matches nc) (chapter_workitems ch) nitems"
    by (rule nh_process_chapter_spec)
  then show "length nitems = length (chapter_workitems ch)"
    by (simp add: list_all2_lengthD)
next
  assume "valid_chapter ch"
  then show "\<exists>nitems'. nh_process_chapter nc ch n = Inr nitems'"
    by (rule nh_process_chapter_total)
next
  assume a: "nh_build_output nc data = Inr out \<and> nh_work_items nc = []"
  with nh_build_output_spec[of nc data out]
  show l: "list_all2 (nh_matches nc) (tree_workitems data) (fo_work_items out)"
    by auto
  then show "length (fo_work_items out) = length (tree_workitems data)"
    by (simp add: list_all2_lengthD)
qed

subsection \<open>The sample document\<close>

lemmas sample_defs =
  sample_data_def sample_chapter_def sample_chapter_no_id_def sample_requirement_def

lemmas clean_defs =
  lower_def lower_char_def upper_letters_def lower_letters_def re_sub_numbering_def
  is_digit_def is_space_def


lemma valid_sample_data: "valid_data sample_data"
  by (simp add: sample_defs valid_data_def valid_chapter_def valid_node_def valid_requirement_def
      has_string_def string_or_absent_def list_or_absent_def list_field_def)

lemma length_sample_tree: "length (tree_workitems sample_data) = 4"
  by (simp add: sample_defs tree_workitems_def chapter_workitems_def node_workitems_def
      document_chapters_def list_field_def)

lemma valid_sample_chapter: "valid_chapter sample_chapter"
  by (simp add: sample_defs valid_chapter_def valid_node_def valid_requirement_def
      has_string_def string_or_absent_def list_or_absent_def list_field_def)

lemma length_sample_chapter: "length (chapter_workitems sample_chapter) = 3"
  by (simp add: sample_defs chapter_workitems_def node_workitems_def list_field_def)

lemma nh_build_output_sample:
  "\<exists>out. nh_build_output sample_nh_converter sample_data = Inr out"
  by (simp add: sample_defs nh_build_output_def nh_process_chapter_def nh_process_subchapter_def
      nh_create_requirement_workitem_def get_heading_id_def default_heading_ids_def
      requirement_workitem_def map_status_def map_priority_def table_get_def status_map_def
      priority_map_def enumerate1_def sample_nh_converter_def nh_new_converter_def
      re_sub_numbering_def is_digit_def is_space_def sublist_code lower_def lower_char_def upper_letters_def lower_letters_def)

theorem traversal_flat_ordered_witness:
  "valid_data sample_data \<and> valid_chapter sample_chapter \<and> nh_work_items sample_nh_converter = []
   \<and> (\<exists>items. process_requirements sample_heading_converter sample_data Map.empty = Inr items
         \<and> list_all2 (\<lambda>nr item. heading_item_for sample_heading_converter Map.empty nr = Inr item)
             (tree_workitems sample_data) items
         \<and> length items = 4)
   \<and> (\<exists>nitems. nh_process_chapter sample_nh_converter sample_chapter 1 = Inr nitems
         \<and> list_all2 (nh_matches sample_nh_converter) (chapter_workitems sample_chapter) nitems
         \<and> length nitems = 3)
   \<and> (\<exists>out. nh_build_output sample_nh_converter sample_data = Inr out
         \<and> list_all2 (nh_matches sample_nh_converter) (tree_workitems sample_data) (fo_work_items out)
         \<and> length (fo_work_items out) = 4)"
proof -
  note T = traversal_flat_ordered
    [where hc = sample_heading_converter and data = sample_data and hm = Map.empty
       and nc = sample_nh_converter and ch = sample_chapter and n = 1]
  have e: "nh_work_items sample_nh_converter = []"
    by (simp add: sample_nh_converter_def nh_new_converter_def)
  from T valid_sample_data obtain items where
    i: "process_requirements sample_heading_converter sample_data Map.empty = Inr items"
    by blast
  from T valid_sample_chapter obtain nitems where
    n: "nh_process_chapter sample_nh_converter sample_chapter 1 = Inr nitems"
    by blast
  from nh_build_output_sample obtain out where
    out: "nh_build_output sample_nh_converter sample_data = Inr out"
    by blast
  from i T[where items = items] have
    "list_all2 (\<lambda>nr item. heading_item_for sample_heading_converter Map.empty nr = Inr item)
       (tree_workitems sample_data) items \<and> length items = 4"
    by (simp add: length_sample_tree)
  moreover from n T[where nitems = nitems] have
    "list_all2 (nh_matches sample_nh_converter) (chapter_workitems sample_chapter) nitems
     \<and> length nitems = 3"
    by (simp add: length_sample_chapter)
  moreover from out e T[where out = out] have
    "list_all2 (nh_matches sample_nh_converter) (tree_workitems sample_data) (fo_work_items out)
     \<and> length (fo_work_items out) = 4"
    by (simp add: length_sample_tree)
  ultimately show ?thesis
    using valid_sample_data valid_sample_chapter e i n out by blast
qed

subsection \<open>Links of the headings converter\<close>

lemma heading_item_for_links:
  assumes "heading_item_for hc hm nr = Inr item"
  shows "\<exists>l. links item = [l] \<and> role l = ''has_parent'' \<and> children item = []
           \<and> target_id l = Raw (case field ''heading_id'' (fst nr) of None \<Rightarrow> JStr [] | Some h \<Rightarrow> h)"
proof -
  obtain node req where nr: "nr = (node, req)" by (cases nr)
  from assms have "bnd (dict_get node ''heading'' (JStr [])) (\<lambda>heading.
     bnd (dict_get node ''heading_id'' (JStr [])) (\<lambda>heading_id.
     bnd (heading_map_get hm heading_id heading) (\<lambda>title.
     create_workitem_format hc req heading_id title))) = Inr item"
    by (simp add: nr heading_item_for_def)
  then obtain heading_id title where
    h: "dict_get node ''heading_id'' (JStr []) = Inr heading_id" and
    c: "create_workitem_format hc req heading_id title = Inr item"
    unfolding bnd_eq_Inr by blast
  from c obtain wi where
    "item = \<lparr> work_item = Some wi,
           links = [\<lparr> target_id = Raw heading_id,
                      role = ''has_parent'',
                      link_description = [Lit ''Links to '', Str title] \<rparr>],
           children = [] \<rparr>"
    unfolding create_workitem_format_def bnd_eq_Inr by blast
  moreover from h have "heading_id = (case field ''heading_id'' node of None \<Rightarrow> JStr [] | Some y \<Rightarrow> y)"
    by (simp add: dict_get_Inr)
  ultimately show ?thesis
    by (simp add: nr)
qed

text \<open>
  Claim C8.  Every item the headings converter emits has exactly one link, of role
  has_parent, and an empty list of children.  The target of the link is the
  \<^verbatim>\<open>heading_id\<close> of the chapter or subchapter that holds the requirement, and the
  empty string where that node has no \<^verbatim>\<open>heading_id\<close> key.
\<close>

theorem heading_items_single_parent_link:
  assumes "process_requirements hc data hm = Inr items"
  shows "list_all2 (\<lambda>nr item. \<exists>l. links item = [l] \<and> role l = ''has_parent'' \<and> children item = []
            \<and> target_id l = Raw (case field ''heading_id'' (fst nr) of None \<Rightarrow> JStr [] | Some h \<Rightarrow> h))
          (tree_workitems data) items
       \<and> list_all (\<lambda>item. \<exists>l. links item = [l] \<and> role l = ''has_parent'' \<and> children item = []) items"
proof -
  from assms have "mapE (heading_item_for hc hm) (tree_workitems data) = Inr items"
    by (rule process_requirements_spec)
  then have "list_all2 (\<lambda>nr item. heading_item_for hc hm nr = Inr item) (tree_workitems data) items"
    by (simp add: mapE_Inr_iff)
  then have a: "list_all2 (\<lambda>nr item. \<exists>l. links item = [l] \<and> role l = ''has_parent'' \<and> children item = []
            \<and> target_id l = Raw (case field ''heading_id'' (fst nr) of None \<Rightarrow> JStr [] | Some h \<Rightarrow> h))
          (tree_workitems data) items"
    by (rule list_all2_mono) (rule heading_item_for_links)
  have "list_all (\<lambda>item. \<exists>l. links item = [l] \<and> role l = ''has_parent'' \<and> children item = []) items"
    unfolding list_all_iff
  proof
    fix item assume "item \<in> set items"
    then obtain i where "i < length items" "item = items ! i" by (auto simp: in_set_conv_nth)
    with a show "\<exists>l. links item = [l] \<and> role l = ''has_parent'' \<and> children item = []"
      by (auto dest: list_all2_nthD2)
  qed
  with a show ?thesis by simp
qed

lemma process_requirements_sample:
  "\<exists>items. process_requirements sample_heading_converter sample_data Map.empty = Inr items
     \<and> map (map target_id \<circ> links) items
         = [[Raw (JStr ''Python/FCTS-9001'')], [Raw (JStr ''Python/FCTS-9002'')],
            [Raw (JStr ''Python/FCTS-9002'')], [Raw (JStr [])]]"
  by (simp add: sample_defs process_requirements_def process_chapter_links_def
      process_subchapter_links_def process_workitems_def process_req_def
      create_workitem_format_def requirement_item_def heading_map_get_def table_get_def
      severity_map_def level_priority_map_def)

theorem heading_items_single_parent_link_witness:
  "\<exists>items. process_requirements sample_heading_converter sample_data Map.empty = Inr items
     \<and> map (map target_id \<circ> links) items
         = [[Raw (JStr ''Python/FCTS-9001'')], [Raw (JStr ''Python/FCTS-9002'')],
            [Raw (JStr ''Python/FCTS-9002'')], [Raw (JStr [])]]
     \<and> list_all (\<lambda>item. \<exists>l. links item = [l] \<and> role l = ''has_parent'' \<and> children item = []) items"
proof -
  from process_requirements_sample obtain items where
    i: "process_requirements sample_heading_converter sample_data Map.empty = Inr items"
       "map (map target_id \<circ> links) items
         = [[Raw (JStr ''Python/FCTS-9001'')], [Raw (JStr ''Python/FCTS-9002'')],
            [Raw (JStr ''Python/FCTS-9002'')], [Raw (JStr [])]]"
    by (elim exE conjE)
  from heading_items_single_parent_link[OF i(1)] have
    "list_all (\<lambda>item. \<exists>l. links item = [l] \<and> role l = ''has_parent'' \<and> children item = []) items"
    by (rule conjunct2)
  with i show ?thesis
    by (intro exI[of _ items] conjI)
qed

subsection \<open>Heading identifiers of the no-headings converter\<close>

lemma find_first:
  assumes "\<forall>x \<in> set pre. \<not> P x" and "P y"
  shows "find P (pre @ y # post) = Some y"
  using assms by (induction pre) auto

lemma find_none: "\<forall>x \<in> set xs. \<not> P x \<Longrightarrow> find P xs = None"
  by (simp add: find_None_iff)













lemma re_sub_numbering_no_digit:
  "(case s of [] \<Rightarrow> True | c # t \<Rightarrow> \<not> is_digit c) \<Longrightarrow> re_sub_numbering s = s"
  by (cases s) (simp_all add: re_sub_numbering_def)





subsection \<open>Keyword matching of headings\<close>

lemma match_keywords_first:
  assumes "\<forall>(k, i) \<in> set pre. \<not> sublist k txt \<or> find (is_existing ex) i = None"
      and "sublist kw txt" and "find (is_existing ex) ids = Some w"
  shows "match_keywords ex txt (pre @ (kw, ids) # post) = Some w"
  using assms by (induction pre) auto

lemma match_keywords_none:
  "\<forall>(k, i) \<in> set tbl. \<not> sublist k txt \<Longrightarrow> match_keywords ex txt tbl = None"
  by (induction tbl) auto

lemma re_sub_numbering_Nil [simp]: "re_sub_numbering [] = []"
  by (simp add: re_sub_numbering_def)

lemma match_heading_to_workitem_strings:
  "match_heading_to_workitem self (JStr c) (Some (JStr s)) =
     Inr (case (if lower (re_sub_numbering s) \<noteq> []
                then match_keywords (ic_existing_workitems self) (lower (re_sub_numbering s)) keyword_table
                else None) of
            Some w \<Rightarrow> w
          | None \<Rightarrow>
              (case match_keywords (ic_existing_workitems self) (lower (re_sub_numbering c)) keyword_table of
                 Some w \<Rightarrow> w
               | None \<Rightarrow> ''Python/FCTS-9156''))"
  by (cases "s = []") (simp_all add: match_heading_to_workitem_def lower_def split: option.splits)

lemma match_heading_to_workitem_chapter_only:
  "match_heading_to_workitem self (JStr c) None =
     Inr (case match_keywords (ic_existing_workitems self) (lower (re_sub_numbering c)) keyword_table of
            Some w \<Rightarrow> w
          | None \<Rightarrow> ''Python/FCTS-9156'')"
  by (simp add: match_heading_to_workitem_def split: option.splits)

lemma match_keywords_skip:
  "\<forall>(k, i) \<in> set tbl. \<not> sublist k txt \<or> find (is_existing ex) i = None
   \<Longrightarrow> match_keywords ex txt tbl = None"
  by (induction tbl) auto

lemma match_keywords_rule_some:
  assumes "\<exists>k \<in> set kws. sublist k txt" and "find (is_existing ex) pref = Some w"
  shows "match_keywords ex txt (map (\<lambda>keyword. (keyword, pref)) kws) = Some w"
  using assms by (induction kws) auto

lemma match_keywords_rule_none:
  assumes "(\<forall>k \<in> set kws. \<not> sublist k txt) \<or> find (is_existing ex) pref = None"
  shows "match_keywords ex txt (map (\<lambda>keyword. (keyword, pref)) kws) = None"
  using assms by (intro match_keywords_skip) auto

lemma keyword_table_nonempty_keys: "(k, i) \<in> set keyword_table \<Longrightarrow> k \<noteq> []"
  by (auto simp: keyword_table_def)

lemma map_requirement_to_parent_strings:
  assumes "dict_get req ''category'' (JStr []) = Inr (JStr cat)"
      and "dict_get req ''title'' (JStr []) = Inr (JStr t)"
  shows "map_requirement_to_parent ec req =
     (case (case map_of mapping_rules (lower cat) of
              None \<Rightarrow> None
            | Some (keywords, preferred) \<Rightarrow>
                match_keywords (ec_existing_workitems ec) (lower t)
                  (map (\<lambda>keyword. (keyword, preferred)) keywords)) of
        Some parent_id \<Rightarrow> Inr (JStr parent_id)
      | None \<Rightarrow>
          if is_existing (ec_existing_workitems ec) ''Python/FCTS-9156''
          then Inr (JStr ''Python/FCTS-9156'')
          else (case find (\<lambda>(item_id, item_data). ex_type item_data = JStr ''requirement'')
                          (ec_existing_workitems ec) of
                  Some (item_id, item_data) \<Rightarrow> Inr item_id
                | None \<Rightarrow> Inr (JStr ''Python/FCTS-9156'')))"
  unfolding map_requirement_to_parent_def assms by simp

lemma map_requirement_to_parent_no_rule:
  assumes "dict_get req ''category'' (JStr []) = Inr (JStr cat)"
      and "dict_get req ''title'' (JStr []) = Inr (JStr t)"
      and "map_of mapping_rules (lower cat) = None
           \<or> (\<exists>kws pref. map_of mapping_rules (lower cat) = Some (kws, pref)
                \<and> ((\<forall>k \<in> set kws. \<not> sublist k (lower t))
                     \<or> find (is_existing (ec_existing_workitems ec)) pref = None))"
  shows "map_requirement_to_parent ec req =
          (if is_existing (ec_existing_workitems ec) ''Python/FCTS-9156''
           then Inr (JStr ''Python/FCTS-9156'')
           else (case find (\<lambda>(item_id, item_data). ex_type item_data = JStr ''requirement'')
                          (ec_existing_workitems ec) of
                  Some (item_id, item_data) \<Rightarrow> Inr item_id
                | None \<Rightarrow> Inr (JStr ''Python/FCTS-9156'')))"
proof -
  have "(case map_of mapping_rules (lower cat) of
              None \<Rightarrow> None
            | Some (keywords, preferred) \<Rightarrow>
                match_keywords (ec_existing_workitems ec) (lower t)
                  (map (\<lambda>keyword. (keyword, preferred)) keywords)) = None"
    using assms(3)
  proof
    assume "map_of mapping_rules (lower cat) = None"
    then show ?thesis by simp
  next
    assume "\<exists>kws pref. map_of mapping_rules (lower cat) = Some (kws, pref)
                \<and> ((\<forall>k \<in> set kws. \<not> sublist k (lower t))
                     \<or> find (is_existing (ec_existing_workitems ec)) pref = None)"
    then obtain kws pref where r: "map_of mapping_rules (lower cat) = Some (kws, pref)"
      and n: "(\<forall>k \<in> set kws. \<not> sublist k (lower t))
                     \<or> find (is_existing (ec_existing_workitems ec)) pref = None"
      by (elim exE conjE)
    from n have "match_keywords (ec_existing_workitems ec) (lower t)
                  (map (\<lambda>keyword. (keyword, pref)) kws) = None"
      by (rule match_keywords_rule_none)
    with r show ?thesis by simp
  qed
  then show ?thesis
    unfolding map_requirement_to_parent_strings[OF assms(1,2)] by simp
qed


text \<open>
  Claim C4, as stated, fails for \<^verbatim>\<open>map_requirement_to_parent\<close>, which never reads a
  heading and whose fallback is not fixed: for a requirement of category Environmental
  and a document without Python/FCTS-9156 it returns the first existing work item of
  type requirement.  In \<^verbatim>\<open>match_heading_to_workitem\<close> the first keyword that occurs in
  the heading does not decide either: in a document that holds only Python/FCTS-9156
  the keyword primary of the subchapter 3.1 Primary Brake Functions has no existing
  identifier, and the later keyword brake function selects the work item.
\<close>

theorem parent_fallback_counterexample:
  "map_requirement_to_parent exact_converter_without_9156
     (sample_requirement ''BR-005'' ''Environmental'' ''Low'')
     = Inr (JStr ''Python/FCTS-9155'')
   \<and> match_keywords (ic_existing_workitems individual_converter_only_9156)
       ''primary brake functions'' (take 2 keyword_table) = None
   \<and> sublist ''primary'' ''primary brake functions''
   \<and> match_heading_to_workitem individual_converter_only_9156
       (JStr ''1. Introduction and Scope'') (Some (JStr ''3.1 Primary Brake Functions''))
     = Inr ''Python/FCTS-9156''"
  by (simp add: map_requirement_to_parent_def exact_converter_without_9156_def
      existing_without_9156_def sample_requirement_def mapping_rules_def is_existing_def
      match_heading_to_workitem_def individual_converter_only_9156_def keyword_table_def
      clean_defs sublist_code)

text \<open>
  Claim C4, amended.  \<^verbatim>\<open>match_heading_to_workitem\<close> lowercases the chapter heading \<open>c\<close>
  and the subchapter heading \<open>s\<close> after removing the leading outline number.  It goes
  through the keyword table in order, first with the subchapter heading, and returns
  the first existing identifier of the first keyword that occurs in the heading and
  has an existing identifier; keywords that occur but have none are passed over.
  When the subchapter heading gives nothing, or there is no subchapter, the chapter
  heading is matched in the same way; when that gives nothing either the result is
  Python/FCTS-9156.  \<^verbatim>\<open>map_requirement_to_parent\<close> reads no heading: when the
  lowercased category of the requirement has a rule, some keyword of the rule occurs
  in the lowercased title and a preferred identifier of the rule exists, it returns
  the first that exists; otherwise it returns Python/FCTS-9156 when that exists or
  when no existing work item has type requirement, and the first existing work item
  of type requirement in the remaining case.
\<close>

theorem parent_workitem_matching:
  "(keyword_table = pre @ (kw, ids) # post
      \<and> (\<forall>(k, i) \<in> set pre. \<not> sublist k (lower (re_sub_numbering s))
            \<or> find (is_existing (ic_existing_workitems self)) i = None)
      \<and> sublist kw (lower (re_sub_numbering s))
      \<and> find (is_existing (ic_existing_workitems self)) ids = Some w
    \<longrightarrow> match_heading_to_workitem self (JStr c) (Some (JStr s)) = Inr w)
   \<and> ((\<forall>(k, i) \<in> set keyword_table. \<not> sublist k (lower (re_sub_numbering s))
            \<or> find (is_existing (ic_existing_workitems self)) i = None)
      \<and> keyword_table = pre @ (kw, ids) # post
      \<and> (\<forall>(k, i) \<in> set pre. \<not> sublist k (lower (re_sub_numbering c))
            \<or> find (is_existing (ic_existing_workitems self)) i = None)
      \<and> sublist kw (lower (re_sub_numbering c))
      \<and> find (is_existing (ic_existing_workitems self)) ids = Some w
    \<longrightarrow> match_heading_to_workitem self (JStr c) (Some (JStr s)) = Inr w)
   \<and> (keyword_table = pre @ (kw, ids) # post
      \<and> (\<forall>(k, i) \<in> set pre. \<not> sublist k (lower (re_sub_numbering c))
            \<or> find (is_existing (ic_existing_workitems self)) i = None)
      \<and> sublist kw (lower (re_sub_numbering c))
      \<and> find (is_existing (ic_existing_workitems self)) ids = Some w
    \<longrightarrow> match_heading_to_workitem self (JStr c) None = Inr w)
   \<and> ((\<forall>(k, i) \<in> set keyword_table.
          (\<not> sublist k (lower (re_sub_numbering s))
             \<or> find (is_existing (ic_existing_workitems self)) i = None)
          \<and> (\<not> sublist k (lower (re_sub_numbering c))
             \<or> find (is_existing (ic_existing_workitems self)) i = None))
    \<longrightarrow> match_heading_to_workitem self (JStr c) (Some (JStr s)) = Inr ''Python/FCTS-9156'')
   \<and> ((\<forall>(k, i) \<in> set keyword_table. \<not> sublist k (lower (re_sub_numbering c))
            \<or> find (is_existing (ic_existing_workitems self)) i = None)
    \<longrightarrow> match_heading_to_workitem self (JStr c) None = Inr ''Python/FCTS-9156'')
   \<and> (\<exists>w'. match_heading_to_workitem self (JStr c) (Some (JStr s)) = Inr w')
   \<and> (dict_get req ''category'' (JStr []) = Inr (JStr cat)
      \<and> dict_get req ''title'' (JStr []) = Inr (JStr t)
      \<and> map_of mapping_rules (lower cat) = Some (kws, pref)
      \<and> (\<exists>k \<in> set kws. sublist k (lower t))
      \<and> find (is_existing (ec_existing_workitems ec)) pref = Some p
    \<longrightarrow> map_requirement_to_parent ec req = Inr (JStr p))
   \<and> (dict_get req ''category'' (JStr []) = Inr (JStr cat)
      \<and> dict_get req ''title'' (JStr []) = Inr (JStr t)
      \<and> (map_of mapping_rules (lower cat) = None
           \<or> (\<exists>kws pref. map_of mapping_rules (lower cat) = Some (kws, pref)
                \<and> ((\<forall>k \<in> set kws. \<not> sublist k (lower t))
                     \<or> find (is_existing (ec_existing_workitems ec)) pref = None)))
    \<longrightarrow> (is_existing (ec_existing_workitems ec) ''Python/FCTS-9156''
           \<longrightarrow> map_requirement_to_parent ec req = Inr (JStr ''Python/FCTS-9156''))
        \<and> (\<not> is_existing (ec_existing_workitems ec) ''Python/FCTS-9156''
             \<and> ec_existing_workitems ec = epre @ (eid, ed) # epost
             \<and> (\<forall>(i, d) \<in> set epre. ex_type d \<noteq> JStr ''requirement'')
             \<and> ex_type ed = JStr ''requirement''
           \<longrightarrow> map_requirement_to_parent ec req = Inr eid)
        \<and> (\<not> is_existing (ec_existing_workitems ec) ''Python/FCTS-9156''
             \<and> (\<forall>(i, d) \<in> set (ec_existing_workitems ec). ex_type d \<noteq> JStr ''requirement'')
           \<longrightarrow> map_requirement_to_parent ec req = Inr (JStr ''Python/FCTS-9156'')))"
proof (intro conjI impI)
  assume a: "keyword_table = pre @ (kw, ids) # post
      \<and> (\<forall>(k, i) \<in> set pre. \<not> sublist k (lower (re_sub_numbering s))
            \<or> find (is_existing (ic_existing_workitems self)) i = None)
      \<and> sublist kw (lower (re_sub_numbering s))
      \<and> find (is_existing (ic_existing_workitems self)) ids = Some w"
  then have kt: "keyword_table = pre @ (kw, ids) # post" by (rule conjunct1)
  have "(kw, ids) \<in> set keyword_table" by (subst kt) simp
  then have "kw \<noteq> []" by (rule keyword_table_nonempty_keys)
  with a have ne: "lower (re_sub_numbering s) \<noteq> []" by auto
  from a have "match_keywords (ic_existing_workitems self) (lower (re_sub_numbering s))
               (pre @ (kw, ids) # post) = Some w"
    by (intro match_keywords_first) auto
  with a ne show "match_heading_to_workitem self (JStr c) (Some (JStr s)) = Inr w"
    by (simp add: match_heading_to_workitem_strings)
next
  assume a: "(\<forall>(k, i) \<in> set keyword_table. \<not> sublist k (lower (re_sub_numbering s))
            \<or> find (is_existing (ic_existing_workitems self)) i = None)
      \<and> keyword_table = pre @ (kw, ids) # post
      \<and> (\<forall>(k, i) \<in> set pre. \<not> sublist k (lower (re_sub_numbering c))
            \<or> find (is_existing (ic_existing_workitems self)) i = None)
      \<and> sublist kw (lower (re_sub_numbering c))
      \<and> find (is_existing (ic_existing_workitems self)) ids = Some w"
  then have n: "match_keywords (ic_existing_workitems self) (lower (re_sub_numbering s))
                  keyword_table = None"
    by (intro match_keywords_skip) (rule conjunct1)
  from a have "match_keywords (ic_existing_workitems self) (lower (re_sub_numbering c))
               (pre @ (kw, ids) # post) = Some w"
    by (intro match_keywords_first) auto
  with a have "match_keywords (ic_existing_workitems self) (lower (re_sub_numbering c))
                 keyword_table = Some w"
    by simp
  with n show "match_heading_to_workitem self (JStr c) (Some (JStr s)) = Inr w"
    by (simp add: match_heading_to_workitem_strings)
next
  assume a: "keyword_table = pre @ (kw, ids) # post
      \<and> (\<forall>(k, i) \<in> set pre. \<not> sublist k (lower (re_sub_numbering c))
            \<or> find (is_existing (ic_existing_workitems self)) i = None)
      \<and> sublist kw (lower (re_sub_numbering c))
      \<and> find (is_existing (ic_existing_workitems self)) ids = Some w"
  then have "match_keywords (ic_existing_workitems self) (lower (re_sub_numbering c))
               (pre @ (kw, ids) # post) = Some w"
    by (intro match_keywords_first) auto
  with a have "match_keywords (ic_existing_workitems self) (lower (re_sub_numbering c))
                 keyword_table = Some w"
    by simp
  then show "match_heading_to_workitem self (JStr c) None = Inr w"
    by (simp add: match_heading_to_workitem_chapter_only)
next
  assume a: "\<forall>(k, i) \<in> set keyword_table.
          (\<not> sublist k (lower (re_sub_numbering s))
             \<or> find (is_existing (ic_existing_workitems self)) i = None)
          \<and> (\<not> sublist k (lower (re_sub_numbering c))
             \<or> find (is_existing (ic_existing_workitems self)) i = None)"
  then have "match_keywords (ic_existing_workitems self) (lower (re_sub_numbering s))
               keyword_table = None"
    by (intro match_keywords_skip) auto
  moreover from a have
    "match_keywords (ic_existing_workitems self) (lower (re_sub_numbering c)) keyword_table = None"
    by (intro match_keywords_skip) auto
  ultimately show
    "match_heading_to_workitem self (JStr c) (Some (JStr s)) = Inr ''Python/FCTS-9156''"
    by (simp add: match_heading_to_workitem_strings)
next
  assume "\<forall>(k, i) \<in> set keyword_table. \<not> sublist k (lower (re_sub_numbering c))
            \<or> find (is_existing (ic_existing_workitems self)) i = None"
  then have "match_keywords (ic_existing_workitems self) (lower (re_sub_numbering c))
               keyword_table = None"
    by (rule match_keywords_skip)
  then show "match_heading_to_workitem self (JStr c) None = Inr ''Python/FCTS-9156''"
    by (simp add: match_heading_to_workitem_chapter_only)
next
  show "\<exists>w'. match_heading_to_workitem self (JStr c) (Some (JStr s)) = Inr w'"
    by (simp add: match_heading_to_workitem_strings)
next
  assume a: "dict_get req ''category'' (JStr []) = Inr (JStr cat)
      \<and> dict_get req ''title'' (JStr []) = Inr (JStr t)
      \<and> map_of mapping_rules (lower cat) = Some (kws, pref)
      \<and> (\<exists>k \<in> set kws. sublist k (lower t))
      \<and> find (is_existing (ec_existing_workitems ec)) pref = Some p"
  then have c: "dict_get req ''category'' (JStr []) = Inr (JStr cat)"
    and t: "dict_get req ''title'' (JStr []) = Inr (JStr t)"
    and r: "map_of mapping_rules (lower cat) = Some (kws, pref)"
    and k: "\<exists>k \<in> set kws. sublist k (lower t)"
    and f: "find (is_existing (ec_existing_workitems ec)) pref = Some p"
    by simp_all
  from k f have "match_keywords (ec_existing_workitems ec) (lower t)
                   (map (\<lambda>keyword. (keyword, pref)) kws) = Some p"
    by (rule match_keywords_rule_some)
  with r show "map_requirement_to_parent ec req = Inr (JStr p)"
    unfolding map_requirement_to_parent_strings[OF c t] by simp
next
  assume a: "dict_get req ''category'' (JStr []) = Inr (JStr cat)
      \<and> dict_get req ''title'' (JStr []) = Inr (JStr t)
      \<and> (map_of mapping_rules (lower cat) = None
           \<or> (\<exists>kws pref. map_of mapping_rules (lower cat) = Some (kws, pref)
                \<and> ((\<forall>k \<in> set kws. \<not> sublist k (lower t))
                     \<or> find (is_existing (ec_existing_workitems ec)) pref = None)))"
  assume "is_existing (ec_existing_workitems ec) ''Python/FCTS-9156''"
  with a show "map_requirement_to_parent ec req = Inr (JStr ''Python/FCTS-9156'')"
    using map_requirement_to_parent_no_rule[of req cat t ec] by simp
next
  assume a: "dict_get req ''category'' (JStr []) = Inr (JStr cat)
      \<and> dict_get req ''title'' (JStr []) = Inr (JStr t)
      \<and> (map_of mapping_rules (lower cat) = None
           \<or> (\<exists>kws pref. map_of mapping_rules (lower cat) = Some (kws, pref)
                \<and> ((\<forall>k \<in> set kws. \<not> sublist k (lower t))
                     \<or> find (is_existing (ec_existing_workitems ec)) pref = None)))"
  assume b: "\<not> is_existing (ec_existing_workitems ec) ''Python/FCTS-9156''
             \<and> ec_existing_workitems ec = epre @ (eid, ed) # epost
             \<and> (\<forall>(i, d) \<in> set epre. ex_type d \<noteq> JStr ''requirement'')
             \<and> ex_type ed = JStr ''requirement''"
  then have ne: "\<not> is_existing (ec_existing_workitems ec) ''Python/FCTS-9156''"
    by (rule conjunct1)
  from b have e: "ec_existing_workitems ec = epre @ (eid, ed) # epost"
    by (elim conjE)
  from b have "find (\<lambda>(item_id, item_data). ex_type item_data = JStr ''requirement'')
               (epre @ (eid, ed) # epost) = Some (eid, ed)"
    by (intro find_first) auto
  then have f: "find (\<lambda>(item_id, item_data). ex_type item_data = JStr ''requirement'')
               (ec_existing_workitems ec) = Some (eid, ed)"
    by (subst e)
  from a have "map_requirement_to_parent ec req =
          (if is_existing (ec_existing_workitems ec) ''Python/FCTS-9156''
           then Inr (JStr ''Python/FCTS-9156'')
           else (case find (\<lambda>(item_id, item_data). ex_type item_data = JStr ''requirement'')
                          (ec_existing_workitems ec) of
                  Some (item_id, item_data) \<Rightarrow> Inr item_id
                | None \<Rightarrow> Inr (JStr ''Python/FCTS-9156'')))"
    by (intro map_requirement_to_parent_no_rule[of req cat t ec]) simp_all
  with ne f show "map_requirement_to_parent ec req = Inr eid"
    by simp
next
  assume a: "dict_get req ''category'' (JStr []) = Inr (JStr cat)
      \<and> dict_get req ''title'' (JStr []) = Inr (JStr t)
      \<and> (map_of mapping_rules (lower cat) = None
           \<or> (\<exists>kws pref. map_of mapping_rules (lower cat) = Some (kws, pref)
                \<and> ((\<forall>k \<in> set kws. \<not> sublist k (lower t))
                     \<or> find (is_existing (ec_existing_workitems ec)) pref = None)))"
  assume b: "\<not> is_existing (ec_existing_workitems ec) ''Python/FCTS-9156''
             \<and> (\<forall>(i, d) \<in> set (ec_existing_workitems ec). ex_type d \<noteq> JStr ''requirement'')"
  then have f: "find (\<lambda>(item_id, item_data). ex_type item_data = JStr ''requirement'')
               (ec_existing_workitems ec) = None"
    by (intro find_none) auto
  from a have "map_requirement_to_parent ec req =
          (if is_existing (ec_existing_workitems ec) ''Python/FCTS-9156''
           then Inr (JStr ''Python/FCTS-9156'')
           else (case find (\<lambda>(item_id, item_data). ex_type item_data = JStr ''requirement'')
                          (ec_existing_workitems ec) of
                  Some (item_id, item_data) \<Rightarrow> Inr item_id
                | None \<Rightarrow> Inr (JStr ''Python/FCTS-9156'')))"
    by (intro map_requirement_to_parent_no_rule[of req cat t ec]) simp_all
  moreover from b have "\<not> is_existing (ec_existing_workitems ec) ''Python/FCTS-9156''"
    by (rule conjunct1)
  ultimately show "map_requirement_to_parent ec req = Inr (JStr ''Python/FCTS-9156'')"
    using f by simp
qed


theorem parent_workitem_matching_witness:
  "match_heading_to_workitem individual_converter_only_9156
     (JStr ''1. Introduction and Scope'') (Some (JStr ''3.1 Primary Brake Functions''))
     = Inr ''Python/FCTS-9156''
   \<and> match_heading_to_workitem sample_individual_converter
     (JStr ''3. Functional Requirements'') (Some (JStr ''3.1 Primary Brake Functions''))
     = Inr ''Python/FCTS-9157''
   \<and> match_heading_to_workitem sample_individual_converter
     (JStr ''5. Safety Requirements'') (Some (JStr ''5.1 Overview''))
     = Inr ''Python/FCTS-9155''
   \<and> match_heading_to_workitem sample_individual_converter
     (JStr ''3. Functional Requirements'') None
     = Inr ''Python/FCTS-9156''
   \<and> match_heading_to_workitem sample_individual_converter
     (JStr ''1. Introduction and Scope'') (Some (JStr ''1.1 Purpose''))
     = Inr ''Python/FCTS-9156''
   \<and> match_heading_to_workitem individual_converter_only_9156
     (JStr ''5. Safety Requirements'') (Some (JStr ''5.1 Overview''))
     = Inr ''Python/FCTS-9156''
   \<and> match_heading_to_workitem sample_individual_converter
     (JStr ''1. Introduction and Scope'') None
     = Inr ''Python/FCTS-9156''
   \<and> map_requirement_to_parent sample_exact_converter
     (JObj [(''title'', JStr ''Safety Goal Monitoring''), (''category'', JStr ''Safety'')])
     = Inr (JStr ''Python/FCTS-9155'')
   \<and> map_requirement_to_parent sample_exact_converter
     (sample_requirement ''BR-005'' ''Environmental'' ''Low'')
     = Inr (JStr ''Python/FCTS-9156'')
   \<and> map_requirement_to_parent exact_converter_without_9156
     (sample_requirement ''BR-001'' ''Functional'' ''High'')
     = Inr (JStr ''Python/FCTS-9155'')
   \<and> map_requirement_to_parent
     \<lparr> ec_timestamp = [], ec_document_id = [], ec_existing_workitems = [] \<rparr>
     (JObj [(''title'', JStr ''Response time test'')])
     = Inr (JStr ''Python/FCTS-9156'')"
proof -
  have ex: "ic_existing_workitems sample_individual_converter = sample_existing"
    by (simp add: sample_individual_converter_def)
  have ex1: "ic_existing_workitems individual_converter_only_9156 =
         [(JStr ''Python/FCTS-9156'',
           \<lparr> ex_type = JStr ''requirement'', ex_title = JStr ''MCP Framework'',
             ex_attributes = JObj [] \<rparr>)]"
    by (simp add: individual_converter_only_9156_def)
  have ee: "ec_existing_workitems sample_exact_converter = sample_existing"
    by (simp add: sample_exact_converter_def)
  have ee1: "ec_existing_workitems exact_converter_without_9156 = existing_without_9156"
    by (simp add: exact_converter_without_9156_def)
  have c1: "lower (re_sub_numbering ''3.1 Primary Brake Functions'') = ''primary brake functions''"
    by (simp add: clean_defs)
  have c2: "lower (re_sub_numbering ''3. Functional Requirements'') = ''functional requirements''"
    by (simp add: clean_defs)
  have c3: "lower (re_sub_numbering ''5. Safety Requirements'') = ''safety requirements''"
    by (simp add: clean_defs)
  have c4: "lower (re_sub_numbering ''5.1 Overview'') = ''overview''"
    by (simp add: clean_defs)
  have c5: "lower (re_sub_numbering ''1. Introduction and Scope'') = ''introduction and scope''"
    by (simp add: clean_defs)
  have c6: "lower (re_sub_numbering ''1.1 Purpose'') = ''purpose''"
    by (simp add: clean_defs)
  have l1: "lower ''Safety'' = ''safety''" by (simp add: clean_defs)
  have l2: "lower ''Safety Goal Monitoring'' = ''safety goal monitoring''"
    by (simp add: clean_defs)
  have l3: "lower ''Environmental'' = ''environmental''" by (simp add: clean_defs)
  have l4: "lower ''Functional'' = ''functional''" by (simp add: clean_defs)
  have l5: "lower ''Brake pedal force'' = ''brake pedal force''" by (simp add: clean_defs)
  have l6: "lower ''Response time test'' = ''response time test''" by (simp add: clean_defs)
  have l7: "lower [] = []" by (simp add: clean_defs)
  note T0 = parent_workitem_matching
    [where self = individual_converter_only_9156
       and c = "''1. Introduction and Scope''" and s = "''3.1 Primary Brake Functions''"
       and pre = "take 3 keyword_table" and kw = "''brake function''"
       and ids = "[''Python/FCTS-9156'', ''Python/FCTS-9157'']"
       and post = "drop 4 keyword_table" and w = "''Python/FCTS-9156''"]
  have 0: "match_heading_to_workitem individual_converter_only_9156
     (JStr ''1. Introduction and Scope'') (Some (JStr ''3.1 Primary Brake Functions''))
     = Inr ''Python/FCTS-9156''"
    by (rule T0[THEN conjunct1, THEN mp])
       (simp add: ex1 c1 keyword_table_def sublist_code is_existing_def)
  note T1 = parent_workitem_matching
    [where self = sample_individual_converter
       and c = "''3. Functional Requirements''" and s = "''3.1 Primary Brake Functions''"
       and pre = "take 1 keyword_table" and kw = "''primary''" and ids = "[''Python/FCTS-9157'']"
       and post = "drop 2 keyword_table" and w = "''Python/FCTS-9157''"]
  have 1: "match_heading_to_workitem sample_individual_converter
     (JStr ''3. Functional Requirements'') (Some (JStr ''3.1 Primary Brake Functions''))
     = Inr ''Python/FCTS-9157''"
    by (rule T1[THEN conjunct1, THEN mp])
       (simp add: ex c1 keyword_table_def sublist_code is_existing_def sample_existing_def)
  note T2 = parent_workitem_matching
    [where self = sample_individual_converter
       and c = "''5. Safety Requirements''" and s = "''5.1 Overview''"
       and pre = "take 8 keyword_table" and kw = "''safety''" and ids = "[''Python/FCTS-9155'']"
       and post = "drop 9 keyword_table" and w = "''Python/FCTS-9155''"]
  have 2: "match_heading_to_workitem sample_individual_converter
     (JStr ''5. Safety Requirements'') (Some (JStr ''5.1 Overview''))
     = Inr ''Python/FCTS-9155''"
    by (rule T2[THEN conjunct2, THEN conjunct1, THEN mp])
       (simp add: ex c3 c4 keyword_table_def sublist_code is_existing_def sample_existing_def)
  note T3 = parent_workitem_matching
    [where self = sample_individual_converter
       and c = "''3. Functional Requirements''"
       and pre = "[]" and kw = "''functional''"
       and ids = "[''Python/FCTS-9156'', ''Python/FCTS-9157'', ''Python/FCTS-9158'']"
       and post = "drop 1 keyword_table" and w = "''Python/FCTS-9156''"]
  have 3: "match_heading_to_workitem sample_individual_converter
     (JStr ''3. Functional Requirements'') None = Inr ''Python/FCTS-9156''"
    by (rule T3[THEN conjunct2, THEN conjunct2, THEN conjunct1, THEN mp])
       (simp add: ex c2 keyword_table_def sublist_code is_existing_def sample_existing_def)
  note T4 = parent_workitem_matching
    [where self = sample_individual_converter
       and c = "''1. Introduction and Scope''" and s = "''1.1 Purpose''"]
  have 4: "match_heading_to_workitem sample_individual_converter
     (JStr ''1. Introduction and Scope'') (Some (JStr ''1.1 Purpose'')) = Inr ''Python/FCTS-9156''"
    by (rule T4[THEN conjunct2, THEN conjunct2, THEN conjunct2, THEN conjunct1, THEN mp])
       (simp add: c5 c6 keyword_table_def sublist_code)
  note T5 = parent_workitem_matching
    [where self = individual_converter_only_9156
       and c = "''5. Safety Requirements''" and s = "''5.1 Overview''"]
  have 5: "match_heading_to_workitem individual_converter_only_9156
     (JStr ''5. Safety Requirements'') (Some (JStr ''5.1 Overview'')) = Inr ''Python/FCTS-9156''"
    by (rule T5[THEN conjunct2, THEN conjunct2, THEN conjunct2, THEN conjunct1, THEN mp])
       (simp add: ex1 c3 c4 keyword_table_def sublist_code is_existing_def)
  have 6: "match_heading_to_workitem sample_individual_converter
     (JStr ''1. Introduction and Scope'') None = Inr ''Python/FCTS-9156''"
    by (rule T4[THEN conjunct2, THEN conjunct2, THEN conjunct2, THEN conjunct2, THEN conjunct1,
                THEN mp])
       (simp add: c5 keyword_table_def sublist_code)
  note T7 = parent_workitem_matching
    [where ec = sample_exact_converter
       and req = "JObj [(''title'', JStr ''Safety Goal Monitoring''), (''category'', JStr ''Safety'')]"
       and cat = "''Safety''" and t = "''Safety Goal Monitoring''"
       and kws = "[''safety'', ''goal'', ''critical'']" and pref = "[''Python/FCTS-9155'']"
       and p = "''Python/FCTS-9155''"]
  have 7: "map_requirement_to_parent sample_exact_converter
     (JObj [(''title'', JStr ''Safety Goal Monitoring''), (''category'', JStr ''Safety'')])
     = Inr (JStr ''Python/FCTS-9155'')"
    by (rule T7[THEN conjunct2, THEN conjunct2, THEN conjunct2, THEN conjunct2, THEN conjunct2,
                THEN conjunct2, THEN conjunct1, THEN mp])
       (simp add: ee l1 l2 mapping_rules_def sublist_code is_existing_def sample_existing_def)
  note T8 = parent_workitem_matching
    [where ec = sample_exact_converter
       and req = "sample_requirement ''BR-005'' ''Environmental'' ''Low''"
       and cat = "''Environmental''" and t = "''Brake pedal force''"]
  have 8: "map_requirement_to_parent sample_exact_converter
     (sample_requirement ''BR-005'' ''Environmental'' ''Low'') = Inr (JStr ''Python/FCTS-9156'')"
    by (rule T8[THEN conjunct2, THEN conjunct2, THEN conjunct2, THEN conjunct2, THEN conjunct2,
                THEN conjunct2, THEN conjunct2, THEN mp, THEN conjunct1, THEN mp])
       (simp_all add: ee l3 l5 sample_requirement_def mapping_rules_def is_existing_def
          sample_existing_def)
  note T9 = parent_workitem_matching
    [where ec = exact_converter_without_9156
       and req = "sample_requirement ''BR-001'' ''Functional'' ''High''"
       and cat = "''Functional''" and t = "''Brake pedal force''"
       and epre = "take 1 existing_without_9156" and eid = "JStr ''Python/FCTS-9155''"
       and ed = "\<lparr> ex_type = JStr ''requirement'', ex_title = JStr ''MCP Safety Goal'',
                    ex_attributes = JObj [] \<rparr>"
       and epost = "[]"]
  have 9: "map_requirement_to_parent exact_converter_without_9156
     (sample_requirement ''BR-001'' ''Functional'' ''High'') = Inr (JStr ''Python/FCTS-9155'')"
    by (rule T9[THEN conjunct2, THEN conjunct2, THEN conjunct2, THEN conjunct2, THEN conjunct2,
                THEN conjunct2, THEN conjunct2, THEN mp, THEN conjunct2, THEN conjunct1, THEN mp])
       (simp_all add: ee1 l4 l5 sample_requirement_def mapping_rules_def is_existing_def
          existing_without_9156_def sublist_code)
  note T10 = parent_workitem_matching
    [where ec = "\<lparr> ec_timestamp = [], ec_document_id = [], ec_existing_workitems = [] \<rparr>"
       and req = "JObj [(''title'', JStr ''Response time test'')]"
       and cat = "[]" and t = "''Response time test''"]
  have 10: "map_requirement_to_parent
     \<lparr> ec_timestamp = [], ec_document_id = [], ec_existing_workitems = [] \<rparr>
     (JObj [(''title'', JStr ''Response time test'')]) = Inr (JStr ''Python/FCTS-9156'')"
    by (rule T10[THEN conjunct2, THEN conjunct2, THEN conjunct2, THEN conjunct2, THEN conjunct2,
                THEN conjunct2, THEN conjunct2, THEN mp, THEN conjunct2, THEN conjunct2, THEN mp])
       (simp_all add: l7 l6 mapping_rules_def is_existing_def)
  from 0 1 2 3 4 5 6 7 8 9 10 show ?thesis by (intro conjI)
qed

subsection \<open>The parent with children\<close>

lemma list_all_concat: "list_all P (concat xss) \<longleftrightarrow> list_all (list_all P) xss"
  by (induction xss) auto

lemma subchapter_requirements_spec:
  assumes "subchapter_requirements x = Inr r" and "list_all is_obj r"
  shows "r = list_field ''workitems'' x"
proof (cases "is_obj x")
  case True
  show ?thesis
  proof (cases "field ''workitems'' x")
    case None
    with assms True show ?thesis
      by (simp add: subchapter_requirements_def contains_obj list_field_absent)
  next
    case (Some wis)
    with assms(1) True have "iterate wis = Inr r"
      by (simp add: subchapter_requirements_def contains_obj subscript_obj)
    then have "r = as_list wis" using assms(2) by (rule iterate_objs)
    with Some show ?thesis by (simp add: list_field_present)
  qed
next
  case False
  then have f: "list_field ''workitems'' x = []"
    by (cases x) (simp_all add: list_field_def)
  from False assms(1) have "r = []"
    by (cases x) (auto simp: subchapter_requirements_def split: if_splits)
  with f show ?thesis by simp
qed

lemma chapter_requirements_obj: "chapter_requirements ch = Inr r \<Longrightarrow> is_obj ch"
proof -
  assume "chapter_requirements ch = Inr r"
  then obtain subs where "dict_get ch ''subchapters'' (JArr []) = Inr subs"
    unfolding chapter_requirements_def bnd_eq_Inr by blast
  then show "is_obj ch" by (rule dict_get_is_obj)
qed

lemma iterate_list_fields:
  assumes "iterate subs = Inr subl"
  shows "concat (map (list_field k) subl) = concat (map (list_field k) (as_list subs))"
proof (cases subs)
  case (JObj kvs)
  with assms have "subl = map (\<lambda>kv. JStr (fst kv)) kvs" by simp
  then have "concat (map (list_field k) subl) = []"
    by (simp add: list_field_def comp_def)
  with JObj show ?thesis by simp
next
  case (JStr s)
  with assms have "subl = map (\<lambda>c. JStr [c]) s" by simp
  then have "concat (map (list_field k) subl) = []"
    by (simp add: list_field_def comp_def)
  with JStr show ?thesis by simp
qed (use assms in simp_all)

lemma node_workitems_snd: "map snd (node_workitems x) = list_field ''workitems'' x"
  by (simp add: node_workitems_def comp_def)

lemma chapter_workitems_snd:
  "map snd (chapter_workitems ch)
   = list_field ''workitems'' ch @ concat (map (list_field ''workitems'') (list_field ''subchapters'' ch))"
  by (simp add: chapter_workitems_def node_workitems_snd map_concat comp_def)

lemma chapter_requirements_spec:
  assumes "chapter_requirements ch = Inr r" and "list_all is_obj r"
  shows "r = map snd (chapter_workitems ch)"
proof -
  have obj: "is_obj ch" using assms(1) by (rule chapter_requirements_obj)
  let ?subs = "case field ''subchapters'' ch of None \<Rightarrow> JArr [] | Some y \<Rightarrow> y"
  from assms(1) obj obtain direct subl below where
    d: "(if field ''workitems'' ch = None then Inr []
         else bnd (subscript ch ''workitems'') iterate) = Inr direct" and
    it: "iterate ?subs = Inr subl" and
    m: "mapE subchapter_requirements subl = Inr below" and
    r: "r = direct @ concat below"
    unfolding chapter_requirements_def bnd_eq_Inr by (auto simp: contains_obj dict_get_obj)
  from assms(2) r have od: "list_all is_obj direct" and ob: "list_all (list_all is_obj) below"
    by (simp_all add: list_all_concat)
  have own: "direct = list_field ''workitems'' ch"
  proof (cases "field ''workitems'' ch")
    case None
    with d show ?thesis by (simp add: list_field_absent)
  next
    case (Some wis)
    with d obj have "iterate wis = Inr direct" by (simp add: subscript_obj)
    then have "direct = as_list wis" using od by (rule iterate_objs)
    with Some show ?thesis by (simp add: list_field_present)
  qed
  have "list_all2 (\<lambda>x y. y = list_field ''workitems'' x) subl below"
  proof (rule list_all2_all_nthI)
    show "length subl = length below" using m by (simp add: mapE_length)
  next
    fix n assume n: "n < length subl"
    with m have "subchapter_requirements (subl ! n) = Inr (below ! n)"
      by (auto simp: mapE_Inr_iff dest: list_all2_nthD)
    moreover from n ob m have "list_all is_obj (below ! n)"
      by (simp add: list_all_length mapE_length)
    ultimately show "below ! n = list_field ''workitems'' (subl ! n)"
      by (rule subchapter_requirements_spec)
  qed
  then have "below = map (list_field ''workitems'') subl"
    by (induction subl below rule: list_all2_induct) simp_all
  then have "concat below = concat (map (list_field ''workitems'') (as_list ?subs))"
    using iterate_list_fields[OF it] by simp
  also have "as_list ?subs = list_field ''subchapters'' ch"
    by (simp add: list_field_def split: option.splits)
  finally show ?thesis
    by (simp add: chapter_workitems_snd own r)
qed

lemma categorize_obj: "categorize req = Inr u \<Longrightarrow> is_obj req"
  by (cases req) (simp_all add: categorize_def)

lemma all_requirements_spec:
  assumes doc: "dict_get data ''document'' (JObj []) = Inr document"
      and chs: "dict_get document ''chapters'' (JArr []) = Inr chs"
      and it: "iterate chs = Inr chapters"
      and m: "mapE chapter_requirements chapters = Inr per_chapter"
      and objs: "list_all is_obj (concat per_chapter)"
  shows "concat per_chapter = map snd (tree_workitems data)"
proof -
  have "list_all is_obj chapters"
    using m by (rule mapE_all) (rule chapter_requirements_obj)
  with it have "chapters = as_list chs" by (rule iterate_objs)
  moreover from doc chs have "as_list chs = document_chapters data"
    by (auto simp: document_chapters_def list_field_def dest!: dict_get_Inr split: option.splits)
  ultimately have c: "chapters = document_chapters data" by simp
  from objs have ob: "list_all (list_all is_obj) per_chapter" by (simp add: list_all_concat)
  have "list_all2 (\<lambda>x y. y = map snd (chapter_workitems x)) chapters per_chapter"
  proof (rule list_all2_all_nthI)
    show "length chapters = length per_chapter" using m by (simp add: mapE_length)
  next
    fix n assume n: "n < length chapters"
    with m have "chapter_requirements (chapters ! n) = Inr (per_chapter ! n)"
      by (auto simp: mapE_Inr_iff dest: list_all2_nthD)
    moreover from n ob m have "list_all is_obj (per_chapter ! n)"
      by (simp add: list_all_length mapE_length)
    ultimately show "per_chapter ! n = map snd (chapter_workitems (chapters ! n))"
      by (rule chapter_requirements_spec)
  qed
  then have "per_chapter = map (\<lambda>x. map snd (chapter_workitems x)) chapters"
    by (induction chapters per_chapter rule: list_all2_induct) simp_all
  then show ?thesis
    by (simp add: tree_workitems_def c map_concat comp_def)
qed

lemma convert_requirements_spec:
  assumes "convert_requirements self data = Inr out"
  shows "case map snd (tree_workitems data) of
           [] \<Rightarrow> out = \<lparr> work_item = None, links = [], children = [] \<rparr>
         | first_req # rest \<Rightarrow>
             (\<exists>parent_id wi.
                 map_requirement_to_parent self first_req = Inr parent_id
               \<and> create_workitem_exact_format self first_req parent_id = Inr wi
               \<and> work_item out = Some wi
               \<and> create_links self first_req parent_id = Inr (links out))
             \<and> list_all2 (\<lambda>req child. \<exists>child_parent_id.
                              map_requirement_to_parent self req = Inr child_parent_id
                            \<and> create_workitem_exact_format self req child_parent_id = Inr child)
                 rest (children out)"
proof -
  from assms obtain document chs chapters per_chapter categorized where
    doc: "dict_get data ''document'' (JObj []) = Inr document" and
    chs: "dict_get document ''chapters'' (JArr []) = Inr chs" and
    it: "iterate chs = Inr chapters" and
    m: "mapE chapter_requirements chapters = Inr per_chapter" and
    cat: "mapE categorize (concat per_chapter) = Inr categorized" and
    rest: "(case concat per_chapter of
       [] \<Rightarrow> Inr \<lparr> work_item = None, links = [], children = [] \<rparr>
     | first_req # rest \<Rightarrow>
         bnd (map_requirement_to_parent self first_req) (\<lambda>parent_id.
         bnd (create_workitem_exact_format self first_req parent_id) (\<lambda>wi.
         bnd (create_links self first_req parent_id) (\<lambda>ls.
         bnd (mapE (\<lambda>req.
                      bnd (map_requirement_to_parent self req) (\<lambda>child_parent_id.
                      create_workitem_exact_format self req child_parent_id))
                   rest) (\<lambda>child_items.
         Inr \<lparr> work_item = Some wi, links = ls, children = child_items \<rparr>))))) = Inr out"
    unfolding convert_requirements_def Let_def bnd_eq_Inr by blast
  have "list_all is_obj (concat per_chapter)"
    using cat by (rule mapE_all) (rule categorize_obj)
  with doc chs it m have all: "concat per_chapter = map snd (tree_workitems data)"
    by (rule all_requirements_spec)
  show ?thesis
  proof (cases "map snd (tree_workitems data)")
    case Nil
    with rest all show ?thesis by simp
  next
    case (Cons first_req rs)
    with rest all obtain parent_id wi ls child_items where
      p: "map_requirement_to_parent self first_req = Inr parent_id" and
      w: "create_workitem_exact_format self first_req parent_id = Inr wi" and
      l: "create_links self first_req parent_id = Inr ls" and
      c: "mapE (\<lambda>req.
                 bnd (map_requirement_to_parent self req) (\<lambda>child_parent_id.
                 create_workitem_exact_format self req child_parent_id))
              rs = Inr child_items" and
      out: "out = \<lparr> work_item = Some wi, links = ls, children = child_items \<rparr>"
      by (auto simp: bnd_eq_Inr)
    from c have "list_all2 (\<lambda>req child. \<exists>child_parent_id.
                              map_requirement_to_parent self req = Inr child_parent_id
                            \<and> create_workitem_exact_format self req child_parent_id = Inr child)
                 rs child_items"
      by (simp add: mapE_Inr_iff bnd_eq_Inr)
    with p w l out Cons show ?thesis by simp
  qed
qed

lemma mapE_map_total: "(\<And>x. x \<in> set xs \<Longrightarrow> f x = Inr (g x)) \<Longrightarrow> mapE f xs = Inr (map g xs)"
  by (induction xs) simp_all

lemma subchapter_requirements_valid:
  assumes "valid_node sub"
  shows "subchapter_requirements sub = Inr (list_field ''workitems'' sub)"
proof -
  from assms have obj: "is_obj sub" and l: "list_or_absent sub ''workitems''"
    by (simp_all add: valid_node_def)
  from l show ?thesis
  proof (cases rule: list_or_absent_cases)
    case 1
    with obj show ?thesis
      by (simp add: subchapter_requirements_def contains_obj list_field_absent)
  next
    case (2 xs)
    with obj show ?thesis
      by (simp add: subchapter_requirements_def contains_obj subscript_obj list_field_present)
  qed
qed

lemma chapter_requirements_valid:
  assumes "valid_chapter ch"
  shows "chapter_requirements ch = Inr (map snd (chapter_workitems ch))"
proof -
  from assms have node: "valid_node ch" and ls: "list_or_absent ch ''subchapters''"
    and vs: "list_all valid_node (list_field ''subchapters'' ch)"
    by (simp_all add: valid_chapter_def)
  from node have obj: "is_obj ch" and l: "list_or_absent ch ''workitems''"
    by (simp_all add: valid_node_def)
  have d: "(if field ''workitems'' ch = None then Inr []
            else bnd (subscript ch ''workitems'') iterate) = Inr (list_field ''workitems'' ch)"
    using l
  proof (cases rule: list_or_absent_cases)
    case 1
    then show ?thesis by (simp add: list_field_absent)
  next
    case (2 xs)
    with obj show ?thesis by (simp add: subscript_obj list_field_present)
  qed
  let ?subs = "case field ''subchapters'' ch of None \<Rightarrow> JArr [] | Some y \<Rightarrow> y"
  have it: "iterate ?subs = Inr (list_field ''subchapters'' ch)"
    using ls by (cases rule: list_or_absent_cases) (simp_all add: list_field_def)
  have m: "mapE subchapter_requirements (list_field ''subchapters'' ch)
             = Inr (map (list_field ''workitems'') (list_field ''subchapters'' ch))"
    using vs by (intro mapE_map_total subchapter_requirements_valid) (simp add: list_all_iff)
  from obj d it m show ?thesis
    by (simp add: chapter_requirements_def contains_obj dict_get_obj chapter_workitems_snd)
qed

lemma valid_chapter_requirements:
  assumes "valid_chapter ch"
  shows "list_all valid_requirement (map snd (chapter_workitems ch))"
proof -
  from assms have "list_all valid_requirement (list_field ''workitems'' ch)"
    and "list_all valid_node (list_field ''subchapters'' ch)"
    by (simp_all add: valid_chapter_def valid_node_def)
  then show ?thesis
    by (auto simp: chapter_workitems_snd list_all_iff valid_node_def)
qed

lemma map_requirement_to_parent_total:
  assumes "valid_requirement req"
  shows "\<exists>p. map_requirement_to_parent self req = Inr p"
proof -
  from assms obtain rid title descr category priority where f:
    "is_obj req" "field ''id'' req = Some (JStr rid)" "field ''title'' req = Some (JStr title)"
    "field ''description'' req = Some (JStr descr)" "field ''category'' req = Some (JStr category)"
    "field ''priority'' req = Some (JStr priority)"
    by (rule valid_requirement_fields)
  then show ?thesis
    by (simp add: map_requirement_to_parent_def dict_get_obj split: option.splits prod.splits)
qed

lemma categorize_total: "valid_requirement req \<Longrightarrow> \<exists>u. categorize req = Inr u"
  by (erule valid_requirement_fields) (simp add: categorize_def dict_get_obj)

lemma create_links_total: "is_obj req \<Longrightarrow> \<exists>ls. create_links self req p = Inr ls"
  by (simp add: create_links_def dict_get_obj Let_def)

lemma child_total:
  assumes "valid_requirement req"
  shows "\<exists>c. bnd (map_requirement_to_parent self req) (\<lambda>child_parent_id.
                create_workitem_exact_format self req child_parent_id) = Inr c"
proof -
  from map_requirement_to_parent_total[OF assms] obtain p where
    "map_requirement_to_parent self req = Inr p" by blast
  with requirement_item_total[OF assms] show ?thesis
    by (simp add: create_workitem_exact_format_def)
qed

lemma bundle_total:
  assumes valid: "list_all valid_requirement reqs"
  shows "\<exists>out. (case reqs of
       [] \<Rightarrow> Inr \<lparr> work_item = None, links = [], children = [] \<rparr>
     | first_req # rest \<Rightarrow>
         bnd (map_requirement_to_parent self first_req) (\<lambda>parent_id.
         bnd (create_workitem_exact_format self first_req parent_id) (\<lambda>wi.
         bnd (create_links self first_req parent_id) (\<lambda>ls.
         bnd (mapE (\<lambda>req.
                      bnd (map_requirement_to_parent self req) (\<lambda>child_parent_id.
                      create_workitem_exact_format self req child_parent_id))
                   rest) (\<lambda>child_items.
         Inr \<lparr> work_item = Some wi, links = ls, children = child_items \<rparr>))))) = Inr out"
proof (cases reqs)
  case Nil
  then show ?thesis by simp
next
  case (Cons first_req rest)
  with valid have vf: "valid_requirement first_req" and vr: "list_all valid_requirement rest"
    by simp_all
  from map_requirement_to_parent_total[OF vf] obtain p where
    p: "map_requirement_to_parent self first_req = Inr p" by blast
  from requirement_item_total[OF vf] obtain wi where
    w: "create_workitem_exact_format self first_req p = Inr wi"
    unfolding create_workitem_exact_format_def by blast
  from vf have "is_obj first_req" by (simp add: valid_requirement_def)
  from create_links_total[OF this] obtain ls where
    ls: "create_links self first_req p = Inr ls" by blast
  from vr have "\<exists>cs. mapE (\<lambda>req.
                    bnd (map_requirement_to_parent self req) (\<lambda>child_parent_id.
                    create_workitem_exact_format self req child_parent_id)) rest = Inr cs"
    by (intro mapE_total child_total) (simp add: list_all_iff)
  then obtain cs where "mapE (\<lambda>req.
                    bnd (map_requirement_to_parent self req) (\<lambda>child_parent_id.
                    create_workitem_exact_format self req child_parent_id)) rest = Inr cs"
    by blast
  with Cons p w ls show ?thesis by simp
qed

lemma convert_requirements_total:
  assumes "valid_data data"
  shows "\<exists>out. convert_requirements self data = Inr out"
proof -
  from assms obtain document where obj: "is_obj data" and doc: "field ''document'' data = Some document"
    and dobj: "is_obj document" and l: "list_or_absent document ''chapters''"
    and v: "list_all valid_chapter (list_field ''chapters'' document)"
    by (auto simp: valid_data_def split: option.splits)
  let ?chs = "case field ''chapters'' document of None \<Rightarrow> JArr [] | Some y \<Rightarrow> y"
  let ?chapters = "list_field ''chapters'' document"
  let ?all = "concat (map (\<lambda>ch. map snd (chapter_workitems ch)) ?chapters)"
  have it: "iterate ?chs = Inr ?chapters"
    using l by (cases rule: list_or_absent_cases) (simp_all add: list_field_def)
  have m: "mapE chapter_requirements ?chapters = Inr (map (\<lambda>ch. map snd (chapter_workitems ch)) ?chapters)"
    using v by (intro mapE_map_total chapter_requirements_valid) (simp add: list_all_iff)
  have valid: "list_all valid_requirement ?all"
    using v valid_chapter_requirements by (auto simp: list_all_iff)
  have "\<exists>c. mapE categorize ?all = Inr c"
  proof (rule mapE_total)
    fix x assume "x \<in> set ?all"
    with valid[unfolded list_all_iff] have "valid_requirement x" by (rule bspec)
    then show "\<exists>y. categorize x = Inr y" by (rule categorize_total)
  qed
  then obtain c where c: "mapE categorize ?all = Inr c" by blast
  note b = bundle_total[OF valid, of self]
  from b obj doc dobj it m c show ?thesis
    by (simp add: convert_requirements_def dict_get_obj Let_def)
qed

text \<open>
  Claim C7.  \<^verbatim>\<open>convert_requirements\<close> of the exact converter returns one bundle.  With
  the requirements of the tree in traversal order: if there is none, the bundle has no
  work item (\<^verbatim>\<open>None\<close>), no links and no children; otherwise the first requirement gives
  the top-level work item and the links, and the remaining requirements give the
  children, one each and in the same order.  On every document that follows the data
  model the function returns.
\<close>

theorem convert_requirements_bundle:
  "(convert_requirements self data = Inr out \<longrightarrow>
      (case map snd (tree_workitems data) of
         [] \<Rightarrow> out = \<lparr> work_item = None, links = [], children = [] \<rparr>
       | first_req # rest \<Rightarrow>
           (\<exists>parent_id wi.
               map_requirement_to_parent self first_req = Inr parent_id
             \<and> create_workitem_exact_format self first_req parent_id = Inr wi
             \<and> work_item out = Some wi
             \<and> create_links self first_req parent_id = Inr (links out))
           \<and> list_all2 (\<lambda>req child. \<exists>child_parent_id.
                            map_requirement_to_parent self req = Inr child_parent_id
                          \<and> create_workitem_exact_format self req child_parent_id = Inr child)
               rest (children out)))
   \<and> (valid_data data \<longrightarrow> (\<exists>out'. convert_requirements self data = Inr out'))"
  using convert_requirements_spec[of self data out] convert_requirements_total[of data self]
  by blast

lemma sample_tree_requirements:
  "map snd (tree_workitems sample_data) =
     [sample_requirement ''BR-001'' ''Functional'' ''High'',
      sample_requirement ''BR-002'' ''Safety'' ''Critical'',
      sample_requirement ''BR-003'' ''Testing'' ''Low'',
      sample_requirement ''BR-004'' ''Safety'' ''Medium'']"
  by (simp add: sample_data_def sample_chapter_def sample_chapter_no_id_def tree_workitems_def
      chapter_workitems_def node_workitems_def document_chapters_def list_field_def)

lemma valid_document_without_version: "valid_data document_without_version"
  by (simp add: document_without_version_def valid_data_def list_or_absent_def list_field_def)

lemma empty_tree: "tree_workitems document_without_version = []"
  by (simp add: document_without_version_def tree_workitems_def document_chapters_def list_field_def)

theorem convert_requirements_bundle_witness:
  "valid_data sample_data \<and> valid_data document_without_version
   \<and> (\<exists>out wi. convert_requirements sample_exact_converter sample_data = Inr out
         \<and> create_workitem_exact_format sample_exact_converter
              (sample_requirement ''BR-001'' ''Functional'' ''High'') (JStr ''Python/FCTS-9156'') = Inr wi
         \<and> work_item out = Some wi
         \<and> map target_id (links out) = [Raw (JStr ''Python/FCTS-9156'')]
         \<and> length (children out) = 3)
   \<and> convert_requirements sample_exact_converter document_without_version
       = Inr \<lparr> work_item = None, links = [], children = [] \<rparr>"
proof -
  note T = convert_requirements_bundle[where self = sample_exact_converter and data = sample_data]
  note E = convert_requirements_bundle[where self = sample_exact_converter and data = document_without_version]
  from T valid_sample_data obtain out where
    out: "convert_requirements sample_exact_converter sample_data = Inr out" by blast
  from E valid_document_without_version obtain out' where
    out': "convert_requirements sample_exact_converter document_without_version = Inr out'" by blast
  from out' E[where out = out'] have "out' = \<lparr> work_item = None, links = [], children = [] \<rparr>"
    by (simp add: empty_tree)
  with out' have e: "convert_requirements sample_exact_converter document_without_version
       = Inr \<lparr> work_item = None, links = [], children = [] \<rparr>" by simp
  have p: "map_requirement_to_parent sample_exact_converter
             (sample_requirement ''BR-001'' ''Functional'' ''High'') = Inr (JStr ''Python/FCTS-9156'')"
    by (simp add: map_requirement_to_parent_def sample_requirement_def mapping_rules_def
        sample_exact_converter_def sample_existing_def is_existing_def lower_def lower_char_def upper_letters_def lower_letters_def
        sublist_code)
  have l: "map_sum id (map target_id)
             (create_links sample_exact_converter
               (sample_requirement ''BR-001'' ''Functional'' ''High'') (JStr ''Python/FCTS-9156''))
           = Inr [Raw (JStr ''Python/FCTS-9156'')]"
    by (simp add: create_links_def sample_requirement_def Let_def)
  from out T[where out = out] have
    "(\<exists>parent_id wi.
         map_requirement_to_parent sample_exact_converter
           (sample_requirement ''BR-001'' ''Functional'' ''High'') = Inr parent_id
       \<and> create_workitem_exact_format sample_exact_converter
           (sample_requirement ''BR-001'' ''Functional'' ''High'') parent_id = Inr wi
       \<and> work_item out = Some wi
       \<and> create_links sample_exact_converter
           (sample_requirement ''BR-001'' ''Functional'' ''High'') parent_id = Inr (links out))
     \<and> length (children out) = 3"
    by (auto simp: sample_tree_requirements dest: list_all2_lengthD)
  with p l obtain wi where
    wi: "create_workitem_exact_format sample_exact_converter
              (sample_requirement ''BR-001'' ''Functional'' ''High'') (JStr ''Python/FCTS-9156'') = Inr wi"
        "work_item out = Some wi"
        "map target_id (links out) = [Raw (JStr ''Python/FCTS-9156'')]"
        "length (children out) = 3"
    by auto
  show ?thesis
    using valid_sample_data valid_document_without_version out wi e
    by (intro conjI exI[of _ out] exI[of _ wi])
qed

subsection \<open>Item counts\<close>

lemma mapE_state_all:
  assumes "mapE_state f xs s = Inr (ys, s')"
      and "\<And>x t y t'. f x t = Inr (y, t') \<Longrightarrow> P y"
  shows "list_all P ys"
  using assms(1)
proof (induction xs arbitrary: s ys)
  case Nil
  then show ?case by simp
next
  case (Cons x xs)
  from Cons.prems obtain y t ys' where
    "f x s = Inr (y, t)" "mapE_state f xs t = Inr (ys', s')" "ys = y # ys'"
    by (auto simp: bnd_eq_Inr)
  with Cons.IH assms(2) show ?case by auto
qed

lemma mapE_state_invariant:
  assumes "mapE_state f xs s = Inr (ys, s')" and "I s"
      and "\<And>x t y t'. f x t = Inr (y, t') \<Longrightarrow> I t \<Longrightarrow> I t'"
  shows "I s'"
  using assms(1,2)
proof (induction xs arbitrary: s ys)
  case Nil
  then show ?case by simp
next
  case (Cons x xs)
  from Cons.prems(1) obtain y t ys' where
    "f x s = Inr (y, t)" "mapE_state f xs t = Inr (ys', s')"
    by (auto simp: bnd_eq_Inr)
  with Cons.IH Cons.prems(2) assms(3) show ?case by blast
qed

lemma requirement_workitem_type: "requirement_workitem d r l ol = Inr w \<Longrightarrow> fi_type w = ''requirement''"
  unfolding requirement_workitem_def bnd_eq_Inr by auto

lemma create_requirement_workitem_typed:
  "create_requirement_workitem self req p ol = Inr w \<Longrightarrow> typed w"
  unfolding create_requirement_workitem_def typed_def
  by (simp add: requirement_workitem_type)

lemma requirements_typed:
  assumes "mapE (\<lambda>(idx, workitem). create_requirement_workitem self workitem p (ol idx)) xs = Inr items"
  shows "list_all typed items"
  using assms
proof (induction xs arbitrary: items)
  case Nil
  then show ?case by simp
next
  case (Cons x xs)
  obtain idx workitem where x: "x = (idx, workitem)" by (cases x)
  from Cons.prems obtain y ys where
    "create_requirement_workitem self workitem p (ol idx) = Inr y"
    "mapE (\<lambda>(idx, workitem). create_requirement_workitem self workitem p (ol idx)) xs = Inr ys"
    "items = y # ys"
    by (auto simp: bnd_eq_Inr x)
  with Cons.IH show ?case by (simp add: create_requirement_workitem_typed)
qed

lemma process_subchapter_typed:
  assumes "process_subchapter sub c n pid s = Inr (items, s')"
  shows "list_all typed items \<and> bc_work_items s' = bc_work_items s"
  using assms
  unfolding process_subchapter_def generate_heading_id_def Let_def prod.case
  by (auto simp: bnd_eq_Inr typed_def[of "\<lparr>fi_id = _, fi_type = _, fi_title = _, fi_description_type = _, fi_description_value = _, fi_status = _, fi_severity = _, fi_priority = _, fi_categories = _, fi_custom_fields = _, fi_module_type = _, fi_module_id = _, fi_outlineNumber = _, fi_links = _\<rparr>"]
      split: if_splits dest: requirements_typed)

lemma subchapters_typed:
  assumes "mapE_state (\<lambda>(sub_idx, subchapter). process_subchapter subchapter c sub_idx pid) xs s
             = Inr (below, s')"
  shows "list_all typed (concat below) \<and> bc_work_items s' = bc_work_items s"
proof -
  have "list_all (list_all typed) below"
    using assms by (rule mapE_state_all) (auto dest: process_subchapter_typed)
  moreover have "bc_work_items s' = bc_work_items s"
    using assms
  proof (rule mapE_state_invariant)
    show "bc_work_items s = bc_work_items s" by simp
  next
    fix x t y t'
    assume "(case x of (sub_idx, subchapter) \<Rightarrow> process_subchapter subchapter c sub_idx pid) t = Inr (y, t')"
       and "bc_work_items t = bc_work_items s"
    then show "bc_work_items t' = bc_work_items s"
      by (cases x) (auto dest: process_subchapter_typed)
  qed
  ultimately show ?thesis by (simp add: list_all_concat)
qed

lemma process_chapter_typed:
  assumes "process_chapter ch c parent s = Inr (items, s')"
  shows "list_all typed items \<and> bc_work_items s' = bc_work_items s"
  using assms
  unfolding process_chapter_def generate_heading_id_def Let_def prod.case
  by (auto simp: bnd_eq_Inr typed_def[of "\<lparr>fi_id = _, fi_type = _, fi_title = _, fi_description_type = _, fi_description_value = _, fi_status = _, fi_severity = _, fi_priority = _, fi_categories = _, fi_custom_fields = _, fi_module_type = _, fi_module_id = _, fi_outlineNumber = _, fi_links = _\<rparr>"]
      split: if_splits dest: requirements_typed dest!: subchapters_typed)

lemma typed_partition:
  "list_all typed xs \<Longrightarrow>
   length xs = length (filter (\<lambda>w. fi_type w = ''requirement'') xs)
             + length (filter (\<lambda>w. fi_type w = ''heading'') xs)"
  by (induction xs) (auto simp: typed_def)

lemma chapters_typed:
  assumes "mapE_state (\<lambda>(chapter_num, chapter) s.
                        bnd (process_chapter chapter (Suc chapter_num) parent s)
                            (\<lambda>(items, s'). Inr (items, s'\<lparr>bc_work_items := bc_work_items s' @ items\<rparr>)))
             xs s = Inr (per_chapter, s')"
      and "list_all typed (bc_work_items s)"
  shows "list_all typed (bc_work_items s')"
  using assms
proof (rule mapE_state_invariant)
  fix x t y t'
  assume a: "(case x of (chapter_num, chapter) \<Rightarrow> \<lambda>s.
                bnd (process_chapter chapter (Suc chapter_num) parent s)
                    (\<lambda>(items, s'). Inr (items, s'\<lparr>bc_work_items := bc_work_items s' @ items\<rparr>))) t
             = Inr (y, t')"
     and t: "list_all typed (bc_work_items t)"
  obtain num ch where x: "x = (num, ch)" by (cases x)
  from a obtain items u where
    p: "process_chapter ch (Suc num) parent t = Inr (items, u)" and
    t': "t' = u\<lparr>bc_work_items := bc_work_items u @ items\<rparr>"
    by (auto simp: x bnd_eq_Inr)
  from process_chapter_typed[OF p] t t' show "list_all typed (bc_work_items t')"
    by simp
qed

lemma build_output_counts:
  assumes "build_output self data = Inr out"
  shows "fm_total_items (fo_metadata out) = length (fo_work_items out)
       \<and> fm_total_requirements (fo_metadata out)
           = length (filter (\<lambda>w. fi_type w = ''requirement'') (fo_work_items out))
       \<and> fm_total_headings (fo_metadata out)
           = Some (length (filter (\<lambda>w. fi_type w = ''heading'') (fo_work_items out)))
       \<and> (list_all typed (bc_work_items self) \<longrightarrow> list_all typed (fo_work_items out))"
  using assms
  unfolding build_output_def generate_heading_id_def Let_def prod.case
  by (auto simp: bnd_eq_Inr typed_def[of "\<lparr>fi_id = _, fi_type = _, fi_title = _, fi_description_type = _, fi_description_value = _, fi_status = _, fi_severity = _, fi_priority = _, fi_categories = _, fi_custom_fields = _, fi_module_type = _, fi_module_id = _, fi_outlineNumber = _, fi_links = _\<rparr>"]
      dest!: chapters_typed)

lemma nh_build_output_counts:
  assumes "nh_build_output self data = Inr out"
  shows "fm_total_items (fo_metadata out) = length (fo_work_items out)"
  using assms
  unfolding nh_build_output_def Let_def
  by (auto simp: bnd_eq_Inr)

lemma convert_Written: "convert self data = Written out \<Longrightarrow> build_output self data = Inr out"
  by (auto simp: convert_def split: sum.splits option.splits)

lemma nh_convert_Written: "nh_convert self data = Written out \<Longrightarrow> nh_build_output self data = Inr out"
  by (auto simp: nh_convert_def split: sum.splits option.splits)

text \<open>
  Claim C9.  In the output of each converter that writes metadata (headings,
  individual, no-headings, synthetic headings), \<^verbatim>\<open>metadata.total_items\<close> is the length
  of \<^verbatim>\<open>work_items\<close>.  In the synthetic-headings converter, started with an empty list
  of work items as \<^verbatim>\<open>__init__\<close> leaves it, every generated item has the type requirement
  or heading, and \<^verbatim>\<open>total_items\<close> is \<^verbatim>\<open>total_requirements\<close> plus \<^verbatim>\<open>total_headings\<close>.
\<close>

theorem total_items_counts:
  "(run hc data hm = Inr o1 \<longrightarrow> im_total_items (io_metadata o1) = length (io_work_items o1))
   \<and> (ic_run ic data = Inr o2 \<longrightarrow> im_total_items (io_metadata o2) = length (io_work_items o2))
   \<and> (nh_convert nc data = Written o3 \<longrightarrow> fm_total_items (fo_metadata o3) = length (fo_work_items o3))
   \<and> (convert bc data = Written o4 \<longrightarrow> fm_total_items (fo_metadata o4) = length (fo_work_items o4))
   \<and> (convert bc data = Written o4 \<and> bc_work_items bc = [] \<longrightarrow>
        list_all (\<lambda>w. fi_type w = ''requirement'' \<or> fi_type w = ''heading'') (fo_work_items o4)
        \<and> (\<exists>h. fm_total_headings (fo_metadata o4) = Some h
               \<and> fm_total_items (fo_metadata o4) = fm_total_requirements (fo_metadata o4) + h))"
proof (intro conjI impI)
  assume "run hc data hm = Inr o1"
  then show "im_total_items (io_metadata o1) = length (io_work_items o1)"
    unfolding run_def bnd_eq_Inr by auto
next
  assume "ic_run ic data = Inr o2"
  then show "im_total_items (io_metadata o2) = length (io_work_items o2)"
    unfolding ic_run_def bnd_eq_Inr by auto
next
  assume "nh_convert nc data = Written o3"
  then show "fm_total_items (fo_metadata o3) = length (fo_work_items o3)"
    by (intro nh_build_output_counts nh_convert_Written)
next
  assume "convert bc data = Written o4"
  then have "build_output bc data = Inr o4" by (rule convert_Written)
  from build_output_counts[OF this]
  show "fm_total_items (fo_metadata o4) = length (fo_work_items o4)" by simp
next
  assume a: "convert bc data = Written o4 \<and> bc_work_items bc = []"
  then have "build_output bc data = Inr o4" by (simp add: convert_Written)
  from build_output_counts[OF this] a have
    c: "fm_total_items (fo_metadata o4) = length (fo_work_items o4)"
       "fm_total_requirements (fo_metadata o4)
           = length (filter (\<lambda>w. fi_type w = ''requirement'') (fo_work_items o4))"
       "fm_total_headings (fo_metadata o4)
           = Some (length (filter (\<lambda>w. fi_type w = ''heading'') (fo_work_items o4)))"
       "list_all typed (fo_work_items o4)"
    by simp_all
  from c(4) show "list_all (\<lambda>w. fi_type w = ''requirement'' \<or> fi_type w = ''heading'') (fo_work_items o4)"
    by (simp add: typed_def[abs_def])
  from typed_partition[OF c(4)] c(1,2,3)
  show "\<exists>h. fm_total_headings (fo_metadata o4) = Some h
               \<and> fm_total_items (fo_metadata o4) = fm_total_requirements (fo_metadata o4) + h"
    by simp
qed

lemma validate_sample: "validate_input sample_data = Inr None"
  by (simp add: sample_data_def validate_input_def required_keys_def)

lemma convert_sample:
  "\<exists>out. build_output sample_converter sample_data = Inr out
     \<and> map fi_type (fo_work_items out)
         = [''heading'', ''heading'', ''requirement'', ''heading'', ''requirement'', ''requirement'',
            ''heading'', ''heading'', ''requirement'']"
  by (simp add: sample_defs build_output_def process_chapter_def process_subchapter_def
      create_requirement_workitem_def generate_heading_id_def
      requirement_workitem_def map_status_def map_priority_def table_get_def status_map_def
      priority_map_def enumerate1_def sample_converter_def new_converter_def
      lower_def lower_char_def upper_letters_def lower_letters_def fstring_empty_def Let_def)

lemma ic_run_sample:
  "\<exists>out. ic_run sample_individual_converter sample_data = Inr out
     \<and> map (map target_id \<circ> links) (io_work_items out)
        = [[Raw (JStr ''Python/FCTS-9156'')],
           [Raw (JStr ''Python/FCTS-9157''), Raw (JStr ''Python/FCTS-9155'')],
           [Raw (JStr ''Python/FCTS-9157''), Raw (JStr ''Python/FCTS-9160'')],
           [Raw (JStr ''Python/FCTS-9155'')]]"
  by (simp add: sample_defs ic_run_def ic_convert_requirements_def
      extract_requirements_with_context_def extract_chapter_def extract_subchapter_def
      match_heading_to_workitem_def keyword_table_def ic_create_workitem_format_def
      requirement_item_def table_get_def severity_map_def level_priority_map_def
      existing_title_def is_existing_def sample_existing_def sample_individual_converter_def
      test_items_def clean_defs sublist_code Let_def)

theorem total_items_counts_witness:
  "bc_work_items sample_converter = []
   \<and> (\<exists>o1. run sample_heading_converter sample_data Map.empty = Inr o1
          \<and> im_total_items (io_metadata o1) = length (io_work_items o1))
   \<and> (\<exists>o2. ic_run sample_individual_converter sample_data = Inr o2
          \<and> im_total_items (io_metadata o2) = length (io_work_items o2))
   \<and> (\<exists>o3. nh_convert sample_nh_converter sample_data = Written o3
          \<and> fm_total_items (fo_metadata o3) = length (fo_work_items o3))
   \<and> (\<exists>o4 h. convert sample_converter sample_data = Written o4
          \<and> length (fo_work_items o4) = 9
          \<and> fm_total_items (fo_metadata o4) = length (fo_work_items o4)
          \<and> fm_total_headings (fo_metadata o4) = Some h
          \<and> fm_total_items (fo_metadata o4) = fm_total_requirements (fo_metadata o4) + h)"
proof -
  note T = total_items_counts
    [where hc = sample_heading_converter and data = sample_data and hm = Map.empty
       and ic = sample_individual_converter and nc = sample_nh_converter and bc = sample_converter]
  have e: "bc_work_items sample_converter = []"
    by (simp add: sample_converter_def new_converter_def)
  from process_requirements_sample obtain items where
    "process_requirements sample_heading_converter sample_data Map.empty = Inr items"
    by (elim exE conjE)
  then obtain o1 where o1: "run sample_heading_converter sample_data Map.empty = Inr o1"
    by (simp add: run_def)
  from ic_run_sample obtain o2 where o2: "ic_run sample_individual_converter sample_data = Inr o2"
    by (elim exE conjE)
  from nh_build_output_sample obtain o3 where
    "nh_build_output sample_nh_converter sample_data = Inr o3" by (elim exE)
  then have o3: "nh_convert sample_nh_converter sample_data = Written o3"
    by (simp add: nh_convert_def validate_sample)
  from convert_sample obtain o4 where
    b: "build_output sample_converter sample_data = Inr o4" and
    t: "map fi_type (fo_work_items o4)
         = [''heading'', ''heading'', ''requirement'', ''heading'', ''requirement'', ''requirement'',
            ''heading'', ''heading'', ''requirement'']"
    by (elim exE conjE)
  from b have o4: "convert sample_converter sample_data = Written o4"
    by (simp add: convert_def validate_sample)
  have "length (map fi_type (fo_work_items o4)) = 9"
    unfolding t by simp
  then have len: "length (fo_work_items o4) = 9"
    by (simp only: length_map)
  have 1: "im_total_items (io_metadata o1) = length (io_work_items o1)"
    by (rule T[where ?o1.0 = o1, THEN conjunct1, THEN mp]) (rule o1)
  have 2: "im_total_items (io_metadata o2) = length (io_work_items o2)"
    by (rule T[where ?o2.0 = o2, THEN conjunct2, THEN conjunct1, THEN mp]) (rule o2)
  have 3: "fm_total_items (fo_metadata o3) = length (fo_work_items o3)"
    by (rule T[where ?o3.0 = o3, THEN conjunct2, THEN conjunct2, THEN conjunct1, THEN mp]) (rule o3)
  have 4: "fm_total_items (fo_metadata o4) = length (fo_work_items o4)"
    by (rule T[where ?o4.0 = o4, THEN conjunct2, THEN conjunct2, THEN conjunct2, THEN conjunct1, THEN mp])
       (rule o4)
  have "list_all (\<lambda>w. fi_type w = ''requirement'' \<or> fi_type w = ''heading'') (fo_work_items o4)
        \<and> (\<exists>h. fm_total_headings (fo_metadata o4) = Some h
               \<and> fm_total_items (fo_metadata o4) = fm_total_requirements (fo_metadata o4) + h)"
    by (rule T[where ?o4.0 = o4, THEN conjunct2, THEN conjunct2, THEN conjunct2, THEN conjunct2, THEN mp])
       (simp add: o4 e)
  then obtain h where 5: "fm_total_headings (fo_metadata o4) = Some h"
      "fm_total_items (fo_metadata o4) = fm_total_requirements (fo_metadata o4) + h"
    by (elim exE conjE)
  show ?thesis
    using e o1 1 o2 2 o3 3 o4 len 4 5
    by (intro conjI exI[of _ o1] exI[of _ o2] exI[of _ o3] exI[of _ o4] exI[of _ h])
qed

subsection \<open>Validation\<close>

text \<open>What the validation rejects ends the conversion with its message, before any output.\<close>

lemma convert_rejects:
  "validate_input data = Inr (Some r) \<Longrightarrow> convert self data = Exit1 r"
  by (simp add: convert_def)

lemma first_missing_Some:
  assumes "is_obj doc" and "k \<in> set keys" and "field k doc = None"
  shows "\<exists>k'. first_missing doc keys = Inr (Some k') \<and> field k' doc = None"
  using assms(2)
proof (induction keys)
  case Nil
  then show ?case by simp
next
  case (Cons a keys)
  show ?case
  proof (cases "field a doc")
    case None
    with assms(1) show ?thesis by (simp add: contains_obj)
  next
    case (Some v)
    with Cons assms(3) have "k \<in> set keys" by auto
    with Cons.IH Some assms(1) show ?thesis by (simp add: contains_obj)
  qed
qed

lemma validate_input_missing_document:
  "is_obj data \<Longrightarrow> field ''document'' data = None
   \<Longrightarrow> validate_input data = Inr (Some MissingDocumentKey)"
  by (simp add: validate_input_def contains_obj)

lemma validate_input_missing_key:
  assumes "is_obj data" and "field ''document'' data = Some doc" and "is_obj doc"
      and "k \<in> set required_keys" and "field k doc = None"
  shows "\<exists>k'. validate_input data = Inr (Some (MissingRequiredKey k')) \<and> field k' doc = None"
proof -
  from first_missing_Some[OF assms(3,4,5)] obtain k' where
    "first_missing doc required_keys = Inr (Some k')" "field k' doc = None" by blast
  with assms(1,2) show ?thesis
    by (simp add: validate_input_def contains_obj subscript_obj)
qed

lemma validate_input_chapters_not_list:
  assumes "is_obj data" and "field ''document'' data = Some doc" and "is_obj doc"
      and "first_missing doc required_keys = Inr None"
      and "field ''chapters'' doc = Some chs" and "\<not> is_list chs"
  shows "validate_input data = Inr (Some ChaptersNotList)"
  using assms by (simp add: validate_input_def contains_obj subscript_obj)

text \<open>
  Claim C3.  The claim says that the validation covers every document key the
  conversion reads afterwards.  \<^verbatim>\<open>convert\<close> reads \<^verbatim>\<open>document['version']\<close> (and
  \<^verbatim>\<open>document['created']\<close>) for the root heading, and \<^verbatim>\<open>required_keys\<close> lists neither.
  On a document with exactly the five required keys the validation succeeds and the
  conversion ends in the handler for unexpected errors, with the \<^verbatim>\<open>KeyError\<close> of the
  missing key \<^verbatim>\<open>version\<close>.
\<close>

theorem convert_missing_version:
  "validate_input document_without_version = Inr None
   \<and> convert sample_converter document_without_version
       = Exit1 (UnexpectedError (KeyError ''version''))"
  by (simp add: document_without_version_def validate_input_def required_keys_def convert_def
      build_output_def generate_heading_id_def sample_converter_def new_converter_def)

end
